theory Spec2Isabelle
  imports Complex_Main "HOL-Library.Word" "HOL-Library.Monad_Syntax"
begin

unbundle bit_operations_syntax

section \<open>JavaScript numbers\<close>

text \<open>
  The emulator core computes with JavaScript numbers that hold integers. They are modelled
  as \<^typ>\<open>int\<close>: \<open>+\<close>, \<open>-\<close> and \<open>*\<close> do not wrap, while the bitwise operators first
  convert their operands to 32-bit two's complement (ToInt32, ToUint32 for \<open>>>>\<close>) and
  take the shift count modulo 32. A store into a \<open>Uint8Array\<close> keeps the low eight bits.
\<close>

definition toInt32 :: "int \<Rightarrow> int" where
  "toInt32 x = signed_take_bit 31 x"

definition toUint32 :: "int \<Rightarrow> int" where
  "toUint32 x = x mod 2 ^ 32"

definition toUint8 :: "int \<Rightarrow> int" where
  "toUint8 x = x mod 2 ^ 8"

definition toInt8 :: "int \<Rightarrow> int" where
  "toInt8 x = signed_take_bit 7 x"

definition js_and :: "int \<Rightarrow> int \<Rightarrow> int" where
  "js_and a b = toInt32 a AND toInt32 b"

definition js_or :: "int \<Rightarrow> int \<Rightarrow> int" where
  "js_or a b = toInt32 a OR toInt32 b"

definition js_xor :: "int \<Rightarrow> int \<Rightarrow> int" where
  "js_xor a b = toInt32 a XOR toInt32 b"

definition js_shl :: "int \<Rightarrow> int \<Rightarrow> int" where
  "js_shl a n = toInt32 (push_bit (nat (n mod 32)) (toInt32 a))"

definition js_sar :: "int \<Rightarrow> int \<Rightarrow> int" where
  "js_sar a n = drop_bit (nat (n mod 32)) (toInt32 a)"

definition js_shr :: "int \<Rightarrow> int \<Rightarrow> int" where
  "js_shr a n = drop_bit (nat (n mod 32)) (toUint32 a)"

lemmas js_ops = toInt32_def toUint32_def toUint8_def toInt8_def js_and_def js_or_def
  js_xor_def js_shl_def js_sar_def js_shr_def

section \<open>Settings and host collaborators\<close>

text \<open>
  \<open>settings.js\<close> is a module of flags read by the core and the cartridge. It is passed to
  every function that reads it. \<open>enabledChannels\<close> holds the four user switches of the
  mixer.
\<close>

record settings =
  soundOn :: bool
  enabledChannels :: "bool list"
  bootBootRomFirst :: bool
  forceGBBootRom :: bool
  gbHasPriority :: bool
  enableMBC1Override :: bool

section \<open>Cartridge\<close>

text \<open>
  The class \<open>ROM\<close> (\<open>rom.js\<close>) is not among the sources. A ROM is taken as an object
  with the three members the cartridge uses: its length, \<open>getByte\<close> and \<open>getString\<close>.
\<close>

record ROM =
  length_rom :: int
  getByte :: "int \<Rightarrow> int"
  getString :: "int \<Rightarrow> int \<Rightarrow> string"

text \<open>
  The memory bank controller classes are represented by the tag of the class that
  \<open>setTypeName\<close> instantiates; \<open>mbc\<close> is \<open>None\<close> for JavaScript's \<open>null\<close>.
\<close>

datatype mbcKind = MBC1 | MBC2 | MBC3 | MBC5 | MBC7

text \<open>
  The fields of \<open>Cartridge\<close>. Fields that the constructor leaves undefined carry a default
  here: \<open>useGBCMode\<close> is only ever tested for truth, so \<open>False\<close> stands for undefined.
  \<open>numRAMBanks\<close> is a fraction for MBC2 (\<open>1 / 16\<close>), hence a rational.
\<close>

record cartridge =
  rom :: ROM
  MBCRam :: "int list"
  MBC1Mode :: bool
  hasMBC1 :: bool
  hasMBC2 :: bool
  hasMBC3 :: bool
  hasMBC5 :: bool
  hasMBC7 :: bool
  hasSRAM :: bool
  cMMMO1 :: bool
  hasBattery :: bool
  cRUMBLE :: bool
  cCamera :: bool
  cTAMA5 :: bool
  cHuC3 :: bool
  cHuC1 :: bool
  hasRTC :: bool
  numRAMBanks :: rat
  name :: string
  gameCode :: string
  colorCompatibilityByte :: int
  typeByte :: int
  typeName :: string
  romSize :: int
  ramSize :: int
  numROMBanks :: "int option"
  useGBCMode :: bool
  isNewLicenseCode :: bool
  licenseCode :: int
  mbc :: "mbcKind option"
  allocatedRamBytes :: rat

text \<open>The constructor \<open>new Cartridge(rom)\<close>.\<close>

definition newCartridge :: "ROM \<Rightarrow> cartridge" where
  "newCartridge r =
     \<lparr> rom = r, MBCRam = [], MBC1Mode = False,
       hasMBC1 = False, hasMBC2 = False, hasMBC3 = False, hasMBC5 = False, hasMBC7 = False,
       hasSRAM = False, cMMMO1 = False, hasBattery = False, cRUMBLE = False, cCamera = False,
       cTAMA5 = False, cHuC3 = False, cHuC1 = False, hasRTC = False,
       numRAMBanks = 0, name = [], gameCode = [], colorCompatibilityByte = 0, typeByte = 0,
       typeName = [], romSize = 0, ramSize = 0, numROMBanks = None, useGBCMode = False,
       isNewLicenseCode = False, licenseCode = 0, mbc = None, allocatedRamBytes = 0 \<rparr>"

text \<open>The tables \<open>ROMBanks\<close> and \<open>RAMBanks\<close> of the constructor; a hole reads undefined.\<close>

definition ROMBanks :: "int \<Rightarrow> int option" where
  "ROMBanks i =
     (if i = 0 then Some 2 else if i = 1 then Some 4 else if i = 2 then Some 8
      else if i = 3 then Some 16 else if i = 4 then Some 32 else if i = 5 then Some 64
      else if i = 6 then Some 128 else if i = 7 then Some 256 else if i = 8 then Some 512
      else if i = 0x52 then Some 72 else if i = 0x53 then Some 80
      else if i = 0x54 then Some 96 else None)"

definition RAMBanks :: "int \<Rightarrow> int option" where
  "RAMBanks i =
     (if i = 0 then Some 0 else if i = 1 then Some 1 else if i = 2 then Some 2
      else if i = 3 then Some 4 else if i = 4 then Some 16 else None)"

text \<open>
  \<open>setTypeName\<close>: the switch over the cartridge-type byte, then the creation of the
  controller objects and the choice \<open>mbc1 || mbc2 || mbc3 || mbc5 || mbc7 || null\<close>.
  Case \<open>0x00\<close> has no \<open>break\<close> and runs on into case \<open>0x01\<close>. The default case names the
  type \<open>Unknown\<close>, logs, and carries the comment \<open>TODO error\<close>; it raises nothing.
\<close>

definition setTypeName_switch :: "settings \<Rightarrow> cartridge \<Rightarrow> cartridge" where
  "setTypeName_switch cfg c =
     (let t = typeByte c in
      if t = 0x00 then
        (let c = (if \<not> enableMBC1Override cfg then c\<lparr>typeName := ''ROM''\<rparr> else c)
         in c\<lparr>hasMBC1 := True, typeName := ''MBC1''\<rparr>)
      else if t = 0x01 then c\<lparr>hasMBC1 := True, typeName := ''MBC1''\<rparr>
      else if t = 0x02 then c\<lparr>hasMBC1 := True, hasSRAM := True, typeName := ''MBC1 + SRAM''\<rparr>
      else if t = 0x03 then
        c\<lparr>hasMBC1 := True, hasSRAM := True, hasBattery := True,
          typeName := ''MBC1 + SRAM + Battery''\<rparr>
      else if t = 0x05 then c\<lparr>hasMBC2 := True, typeName := ''MBC2''\<rparr>
      else if t = 0x06 then
        c\<lparr>hasMBC2 := True, hasBattery := True, typeName := ''MBC2 + Battery''\<rparr>
      else if t = 0x08 then c\<lparr>hasSRAM := True, typeName := ''ROM + SRAM''\<rparr>
      else if t = 0x09 then
        c\<lparr>hasSRAM := True, hasBattery := True, typeName := ''ROM + SRAM + Battery''\<rparr>
      else if t = 0x0b then c\<lparr>cMMMO1 := True, typeName := ''MMMO1''\<rparr>
      else if t = 0x0c then c\<lparr>cMMMO1 := True, hasSRAM := True, typeName := ''MMMO1 + SRAM''\<rparr>
      else if t = 0x0d then
        c\<lparr>cMMMO1 := True, hasSRAM := True, hasBattery := True,
          typeName := ''MMMO1 + SRAM + Battery''\<rparr>
      else if t = 0x0f then
        c\<lparr>hasMBC3 := True, hasRTC := True, hasBattery := True,
          typeName := ''MBC3 + RTC + Battery''\<rparr>
      else if t = 0x10 then
        c\<lparr>hasMBC3 := True, hasRTC := True, hasBattery := True, hasSRAM := True,
          typeName := ''MBC3 + RTC + Battery + SRAM''\<rparr>
      else if t = 0x11 then c\<lparr>hasMBC3 := True, typeName := ''MBC3''\<rparr>
      else if t = 0x12 then c\<lparr>hasMBC3 := True, hasSRAM := True, typeName := ''MBC3 + SRAM''\<rparr>
      else if t = 0x13 then
        c\<lparr>hasMBC3 := True, hasSRAM := True, hasBattery := True,
          typeName := ''MBC3 + SRAM + Battery''\<rparr>
      else if t = 0x19 then c\<lparr>hasMBC5 := True, typeName := ''MBC5''\<rparr>
      else if t = 0x1a then c\<lparr>hasMBC5 := True, hasSRAM := True, typeName := ''MBC5 + SRAM''\<rparr>
      else if t = 0x1b then
        c\<lparr>hasMBC5 := True, hasSRAM := True, hasBattery := True,
          typeName := ''MBC5 + SRAM + Battery''\<rparr>
      else if t = 0x1c then c\<lparr>cRUMBLE := True, typeName := ''RUMBLE''\<rparr>
      else if t = 0x1d then c\<lparr>cRUMBLE := True, hasSRAM := True, typeName := ''RUMBLE + SRAM''\<rparr>
      else if t = 0x1e then
        c\<lparr>cRUMBLE := True, hasSRAM := True, hasBattery := True,
          typeName := ''RUMBLE + SRAM + Battery''\<rparr>
      else if t = 0x1f then c\<lparr>cCamera := True, typeName := ''GameBoy Camera''\<rparr>
      else if t = 0x22 then
        c\<lparr>hasMBC7 := True, hasSRAM := True, hasBattery := True,
          typeName := ''MBC7 + SRAM + Battery''\<rparr>
      else if t = 0xfd then c\<lparr>cTAMA5 := True, typeName := ''TAMA5''\<rparr>
      else if t = 0xfe then c\<lparr>cHuC3 := True, typeName := ''HuC3''\<rparr>
      else if t = 0xff then c\<lparr>cHuC1 := True, typeName := ''HuC1''\<rparr>
      else c\<lparr>typeName := ''Unknown''\<rparr>)"

definition setTypeName :: "settings \<Rightarrow> cartridge \<Rightarrow> cartridge" where
  "setTypeName cfg c =
     (let c = setTypeName_switch cfg c in
      c\<lparr>mbc := (if hasMBC1 c then Some MBC1 else if hasMBC2 c then Some MBC2
                else if hasMBC3 c then Some MBC3 else if hasMBC5 c then Some MBC5
                else if hasMBC7 c then Some MBC7 else None)\<rparr>)"

text \<open>
  \<open>interpret\<close> (here \<open>interpretHeader\<close>, the source's name being reserved) reads the
  header, in four steps around the call of \<open>setTypeName\<close>: the identification fields,
  the sizes, the choice of the machine mode and the licence code. The two flags are
  \<open>gameboy.usedBootROM\<close> and \<open>gameboy.usedGBCBootROM\<close>. Console output is left out. In
  the case \<open>0x32\<close> the compatibility byte is 50, so the string compared is name, game code
  and \<open>50\<close>.
\<close>

definition interpretHeader_mode :: "settings \<Rightarrow> bool \<Rightarrow> bool \<Rightarrow> cartridge \<Rightarrow> bool" where
  "interpretHeader_mode st usedBoot usedGBCBoot c =
     (if \<not> usedBoot then
        (if colorCompatibilityByte c = 0x00 then False
         else if colorCompatibilityByte c = 0x32 then
           (\<not> gbHasPriority st \<and> name c @ gameCode c @ ''50'' = ''Game and Watch 50'')
         else if colorCompatibilityByte c = 0x80 then \<not> gbHasPriority st
         else if colorCompatibilityByte c = 0xc0 then True
         else False)
      else usedGBCBoot)"

definition interpretHeader_license :: "cartridge \<Rightarrow> cartridge" where
  "interpretHeader_license c =
     (let oldLicenseCode = getByte (rom c) 0x14b;
          newLicenseCode = js_or (js_and (getByte (rom c) 0x144) 0xff00)
                                 (js_and (getByte (rom c) 0x145) 0xff)
      in if oldLicenseCode \<noteq> 0x33
         then c\<lparr>isNewLicenseCode := False, licenseCode := oldLicenseCode\<rparr>
         else c\<lparr>isNewLicenseCode := True, licenseCode := newLicenseCode\<rparr>)"

definition interpretHeader_fields :: "cartridge \<Rightarrow> cartridge" where
  "interpretHeader_fields c =
     c\<lparr>name := getString (rom c) 0x134 0x13e, gameCode := getString (rom c) 0x13f 0x142,
       colorCompatibilityByte := getByte (rom c) 0x143, typeByte := getByte (rom c) 0x147\<rparr>"

definition interpretHeader_sizes :: "cartridge \<Rightarrow> cartridge" where
  "interpretHeader_sizes c =
     c\<lparr>romSize := getByte (rom c) 0x148, ramSize := getByte (rom c) 0x149,
       numROMBanks := ROMBanks (getByte (rom c) 0x148)\<rparr>"

definition interpretHeader_setMode :: "settings \<Rightarrow> bool \<Rightarrow> bool \<Rightarrow> cartridge \<Rightarrow> cartridge" where
  "interpretHeader_setMode st usedBoot usedGBCBoot c =
     c\<lparr>useGBCMode := interpretHeader_mode st usedBoot usedGBCBoot c\<rparr>"

definition interpretHeader :: "settings \<Rightarrow> bool \<Rightarrow> bool \<Rightarrow> cartridge \<Rightarrow> cartridge" where
  "interpretHeader st usedBoot usedGBCBoot c =
     interpretHeader_license
       (interpretHeader_setMode st usedBoot usedGBCBoot
          (interpretHeader_sizes (setTypeName st (interpretHeader_fields c))))"

text \<open>
  \<open>setupRAM\<close>. The host may supply \<open>loadSRAMState\<close> (the outer \<open>None\<close> is "not a
  function"); a saved image that is found replaces the fresh array, copied into a
  \<open>Uint8Array\<close>. The closing call of the RTC loader belongs to the host and is left out.
\<close>

definition setupRAM :: "(string \<Rightarrow> int list option) option \<Rightarrow> cartridge \<Rightarrow> cartridge" where
  "setupRAM loadSRAMState c0 =
     (let c = (if hasMBC2 c0 then c0\<lparr>numRAMBanks := 1 / 16\<rparr>
               else if hasMBC1 c0 \<or> cRUMBLE c0 \<or> hasMBC3 c0 \<or> cHuC3 c0
                 then c0\<lparr>numRAMBanks := 4\<rparr>
               else if hasMBC5 c0 then c0\<lparr>numRAMBanks := 16\<rparr>
               else if hasSRAM c0 then c0\<lparr>numRAMBanks := 1\<rparr>
               else c0);
          c = c\<lparr>allocatedRamBytes := numRAMBanks c * 0x2000\<rparr>
      in if numRAMBanks c > 0 then
           (let mbcRam = (case loadSRAMState of None \<Rightarrow> None | Some load \<Rightarrow> load (name c))
            in case mbcRam of
                 Some saved \<Rightarrow> c\<lparr>MBCRam := map toUint8 saved\<rparr>
               | None \<Rightarrow> c\<lparr>MBCRam := replicate (nat \<lfloor>allocatedRamBytes c\<rfloor>) 0\<rparr>)
         else c)"

text \<open>
  The allocation as the specification words it, by controller family, with no reference
  to the RAM-size byte of the header.
\<close>

definition specRamBytes :: "cartridge \<Rightarrow> rat" where
  "specRamBytes c =
     (if hasMBC1 c \<or> cRUMBLE c \<or> hasMBC3 c \<or> cHuC3 c then 0x8000
      else if hasMBC5 c then 16 * 0x2000
      else if hasMBC2 c then 0x200
      else if hasSRAM c then 0x2000
      else 0)"

section \<open>The core object\<close>

text \<open>
  \<open>duty-lookup.js\<close> is not among the sources: the table of the four duty patterns is a
  parameter, bundled with the settings into the environment every core function takes.
\<close>

record env =
  cfg :: settings
  dutyLookup :: "int \<Rightarrow> bool list"

text \<open>
  References to one of two arrays are kept as tags: \<open>BGCHRCurrentBank\<close> points at
  \<open>BGCHRBank1\<close> or \<open>BGCHRBank2\<close>, \<open>noiseSampleTable\<close> at one of the two noise tables.
\<close>

datatype bankRef = Bank1 | Bank2

datatype noiseRef = LSFR15 | LSFR7

text \<open>
  The fields of \<open>GameBoyCore\<close> that the modelled functions read or write, under their
  source names; \<open>cpu_\<close> and \<open>joypad_\<close> prefix the fields of the two member objects,
  \<open>cartridgeSlot\<close> is the cartridge held by the slot, and \<open>cartridge\<close> the property
  \<open>gameboy.cartridge\<close> that the joypad tests (\<open>None\<close> when unset). Typed arrays are
  functions from index to element; every access of the modelled code is by a 16-bit
  address or a masked index. \<open>audioServer\<close> is the stream of samples handed to the host
  by \<open>writeAudio\<close>. Sample values are rationals: the rounding of the 32-bit floats of the
  audio buffer is not modelled.
\<close>

record core =
  memory :: "int \<Rightarrow> int"
  cartridge :: "cartridge option"
  cartridgeSlot :: cartridge
  usedBootROM :: bool
  usedGBCBootROM :: bool
  GBBOOTROM :: "int list"
  GBCBOOTROM :: "int list"
  stopEmulator :: int
  CPUStopped :: bool
  cpu_ticks :: int
  cpu_cyclesTotal :: int
  cpu_cyclesTotalBase :: int
  cpu_cyclesTotalCurrent :: int
  cpu_cyclesTotalRoundoff :: int
  DIVTicks :: int
  IME :: bool
  interruptsRequested :: int
  interruptsEnabled :: int
  IRQLineMatched :: int
  remainingClocks :: int
  joypad_value :: int
  modeSTAT :: int
  currVRAMBank :: int
  VRAM :: "int \<Rightarrow> int"
  BGCHRBank1 :: "int \<Rightarrow> int"
  BGCHRBank2 :: "int \<Rightarrow> int"
  BGCHRCurrentBank :: bankRef
  tileCache :: "int \<Rightarrow> int \<Rightarrow> int"
  soundMasterEnabled :: bool
  audioTicks :: int
  audioIndex :: int
  downsampleInput :: int
  audioDestinationPosition :: int
  audioResamplerFirstPassFactor :: int
  downSampleInputDivider :: rat
  numSamplesTotal :: int
  bufferContainAmount :: int
  audioBuffer :: "int \<Rightarrow> rat"
  audioServer :: "rat list"
  channel1FrequencyTracker :: int
  channel1DutyTracker :: int
  channel1CachedDuty :: "bool list"
  channel1totalLength :: int
  channel1envelopeVolume :: int
  channel1envelopeType :: bool
  channel1envelopeSweeps :: int
  channel1envelopeSweepsLast :: int
  channel1consecutive :: bool
  channel1frequency :: int
  channel1SweepFault :: bool
  channel1ShadowFrequency :: int
  channel1timeSweep :: int
  channel1lastTimeSweep :: int
  channel1Swept :: bool
  channel1frequencySweepDivider :: int
  channel1decreaseSweep :: bool
  channel2FrequencyTracker :: int
  channel2DutyTracker :: int
  channel2CachedDuty :: "bool list"
  channel2totalLength :: int
  channel2envelopeVolume :: int
  channel2envelopeType :: bool
  channel2envelopeSweeps :: int
  channel2envelopeSweepsLast :: int
  channel2consecutive :: bool
  channel2frequency :: int
  channel3canPlay :: bool
  channel3totalLength :: int
  channel3patternType :: int
  channel3frequency :: int
  channel3consecutive :: bool
  channel3Counter :: int
  channel3PCM :: "int \<Rightarrow> int"
  channel4FrequencyPeriod :: int
  channel4totalLength :: int
  channel4envelopeVolume :: int
  channel4currentVolume :: int
  channel4envelopeType :: bool
  channel4envelopeSweeps :: int
  channel4envelopeSweepsLast :: int
  channel4consecutive :: bool
  channel4BitRange :: int
  noiseSampleTable :: noiseRef
  channel4VolumeShifter :: int
  channel1FrequencyCounter :: int
  channel2FrequencyCounter :: int
  channel3FrequencyPeriod :: int
  channel3lastSampleLookup :: int
  channel4lastSampleLookup :: int
  VinLeftChannelMasterVolume :: int
  VinRightChannelMasterVolume :: int
  mixerOutputCache :: int
  sequencerClocks :: int
  sequencePosition :: int
  channel4Counter :: int
  cachedChannel3Sample :: int
  cachedChannel4Sample :: int
  channel1Enabled :: bool
  channel2Enabled :: bool
  channel3Enabled :: bool
  channel4Enabled :: bool
  channel1canPlay :: bool
  channel2canPlay :: bool
  channel4canPlay :: bool
  audioClocksUntilNextEvent :: int
  audioClocksUntilNextEventCounter :: int
  leftChannel1 :: bool
  leftChannel2 :: bool
  leftChannel3 :: bool
  leftChannel4 :: bool
  rightChannel1 :: bool
  rightChannel2 :: bool
  rightChannel3 :: bool
  rightChannel4 :: bool
  channel1currentSampleLeft :: int
  channel1currentSampleRight :: int
  channel1currentSampleLeftSecondary :: int
  channel1currentSampleRightSecondary :: int
  channel1currentSampleLeftTrimary :: int
  channel1currentSampleRightTrimary :: int
  channel2currentSampleLeft :: int
  channel2currentSampleRight :: int
  channel2currentSampleLeftSecondary :: int
  channel2currentSampleRightSecondary :: int
  channel2currentSampleLeftTrimary :: int
  channel2currentSampleRightTrimary :: int
  channel3currentSampleLeft :: int
  channel3currentSampleRight :: int
  channel3currentSampleLeftSecondary :: int
  channel3currentSampleRightSecondary :: int
  channel4currentSampleLeft :: int
  channel4currentSampleRight :: int
  channel4currentSampleLeftSecondary :: int
  channel4currentSampleRightSecondary :: int

text \<open>A store \<open>this.memory[a] = v\<close> into the \<open>Uint8Array\<close> of main memory.\<close>

definition memory_set :: "core \<Rightarrow> int \<Rightarrow> int \<Rightarrow> core" where
  "memory_set s a v = s\<lparr>memory := (memory s)(a := toUint8 v)\<rparr>"

text \<open>The compound stores \<open>this.memory[a] &= m\<close> and \<open>this.memory[a] |= m\<close>.\<close>

definition memory_and :: "core \<Rightarrow> int \<Rightarrow> int \<Rightarrow> core" where
  "memory_and s a m = memory_set s a (js_and (memory s a) m)"

definition memory_or :: "core \<Rightarrow> int \<Rightarrow> int \<Rightarrow> core" where
  "memory_or s a m = memory_set s a (js_or (memory s a) m)"

text \<open>
  Indexing a JavaScript array of booleans: outside the array the read is undefined,
  which is false in a condition.
\<close>

definition truthyAt :: "bool list \<Rightarrow> int \<Rightarrow> bool" where
  "truthyAt xs i = (0 \<le> i \<and> i < int (length xs) \<and> xs ! nat i)"


section \<open>Audio: the mixer caches\<close>

text \<open>
  Each channel keeps a cascade of cached samples; every cache function ends by calling the
  next one, down to \<open>mixerOutputLevelCache\<close>.
\<close>

definition mixerOutputLevelCache :: "core \<Rightarrow> core" where
  "mixerOutputLevelCache s =
     s\<lparr>mixerOutputCache :=
         js_or
           (js_shl ((channel1currentSampleLeftTrimary s + channel2currentSampleLeftTrimary s +
                     channel3currentSampleLeftSecondary s +
                     channel4currentSampleLeftSecondary s) *
                    VinLeftChannelMasterVolume s) 16)
           ((channel1currentSampleRightTrimary s + channel2currentSampleRightTrimary s +
             channel3currentSampleRightSecondary s + channel4currentSampleRightSecondary s) *
            VinRightChannelMasterVolume s)\<rparr>"

definition channel1OutputLevelTrimaryCache :: "env \<Rightarrow> core \<Rightarrow> core" where
  "channel1OutputLevelTrimaryCache e s =
     mixerOutputLevelCache
       (if truthyAt (channel1CachedDuty s) (channel1DutyTracker s) \<and>
           truthyAt (enabledChannels (cfg e)) 0
        then s\<lparr>channel1currentSampleLeftTrimary := channel1currentSampleLeftSecondary s,
               channel1currentSampleRightTrimary := channel1currentSampleRightSecondary s\<rparr>
        else s\<lparr>channel1currentSampleLeftTrimary := 0,
               channel1currentSampleRightTrimary := 0\<rparr>)"

definition channel1OutputLevelSecondaryCache :: "env \<Rightarrow> core \<Rightarrow> core" where
  "channel1OutputLevelSecondaryCache e s =
     channel1OutputLevelTrimaryCache e
       (if channel1Enabled s
        then s\<lparr>channel1currentSampleLeftSecondary := channel1currentSampleLeft s,
               channel1currentSampleRightSecondary := channel1currentSampleRight s\<rparr>
        else s\<lparr>channel1currentSampleLeftSecondary := 0,
               channel1currentSampleRightSecondary := 0\<rparr>)"

definition channel1OutputLevelCache :: "env \<Rightarrow> core \<Rightarrow> core" where
  "channel1OutputLevelCache e s =
     channel1OutputLevelSecondaryCache e
       (s\<lparr>channel1currentSampleLeft :=
            (if leftChannel1 s then channel1envelopeVolume s else 0),
          channel1currentSampleRight :=
            (if rightChannel1 s then channel1envelopeVolume s else 0)\<rparr>)"

definition channel1EnableCheck :: "env \<Rightarrow> core \<Rightarrow> core" where
  "channel1EnableCheck e s =
     channel1OutputLevelSecondaryCache e
       (s\<lparr>channel1Enabled :=
            ((channel1consecutive s \<or> channel1totalLength s > 0) \<and>
             \<not> channel1SweepFault s \<and> channel1canPlay s)\<rparr>)"

definition channel1VolumeEnableCheck :: "env \<Rightarrow> core \<Rightarrow> core" where
  "channel1VolumeEnableCheck e s =
     channel1OutputLevelSecondaryCache e
       (channel1EnableCheck e (s\<lparr>channel1canPlay := (memory s 0xff12 > 7)\<rparr>))"

definition channel2OutputLevelTrimaryCache :: "env \<Rightarrow> core \<Rightarrow> core" where
  "channel2OutputLevelTrimaryCache e s =
     mixerOutputLevelCache
       (if truthyAt (channel2CachedDuty s) (channel2DutyTracker s) \<and>
           truthyAt (enabledChannels (cfg e)) 1
        then s\<lparr>channel2currentSampleLeftTrimary := channel2currentSampleLeftSecondary s,
               channel2currentSampleRightTrimary := channel2currentSampleRightSecondary s\<rparr>
        else s\<lparr>channel2currentSampleLeftTrimary := 0,
               channel2currentSampleRightTrimary := 0\<rparr>)"

definition channel2OutputLevelSecondaryCache :: "env \<Rightarrow> core \<Rightarrow> core" where
  "channel2OutputLevelSecondaryCache e s =
     channel2OutputLevelTrimaryCache e
       (if channel2Enabled s
        then s\<lparr>channel2currentSampleLeftSecondary := channel2currentSampleLeft s,
               channel2currentSampleRightSecondary := channel2currentSampleRight s\<rparr>
        else s\<lparr>channel2currentSampleLeftSecondary := 0,
               channel2currentSampleRightSecondary := 0\<rparr>)"

definition channel2OutputLevelCache :: "env \<Rightarrow> core \<Rightarrow> core" where
  "channel2OutputLevelCache e s =
     channel2OutputLevelSecondaryCache e
       (s\<lparr>channel2currentSampleLeft :=
            (if leftChannel2 s then channel2envelopeVolume s else 0),
          channel2currentSampleRight :=
            (if rightChannel2 s then channel2envelopeVolume s else 0)\<rparr>)"

definition channel2EnableCheck :: "env \<Rightarrow> core \<Rightarrow> core" where
  "channel2EnableCheck e s =
     channel2OutputLevelSecondaryCache e
       (s\<lparr>channel2Enabled :=
            ((channel2consecutive s \<or> channel2totalLength s > 0) \<and> channel2canPlay s)\<rparr>)"

definition channel2VolumeEnableCheck :: "env \<Rightarrow> core \<Rightarrow> core" where
  "channel2VolumeEnableCheck e s =
     channel2OutputLevelSecondaryCache e
       (channel2EnableCheck e (s\<lparr>channel2canPlay := (memory s 0xff17 > 7)\<rparr>))"

definition channel3OutputLevelSecondaryCache :: "env \<Rightarrow> core \<Rightarrow> core" where
  "channel3OutputLevelSecondaryCache e s =
     mixerOutputLevelCache
       (if channel3Enabled s \<and> truthyAt (enabledChannels (cfg e)) 2
        then s\<lparr>channel3currentSampleLeftSecondary := channel3currentSampleLeft s,
               channel3currentSampleRightSecondary := channel3currentSampleRight s\<rparr>
        else s\<lparr>channel3currentSampleLeftSecondary := 0,
               channel3currentSampleRightSecondary := 0\<rparr>)"

definition channel3OutputLevelCache :: "env \<Rightarrow> core \<Rightarrow> core" where
  "channel3OutputLevelCache e s =
     channel3OutputLevelSecondaryCache e
       (s\<lparr>channel3currentSampleLeft :=
            (if leftChannel3 s then cachedChannel3Sample s else 0),
          channel3currentSampleRight :=
            (if rightChannel3 s then cachedChannel3Sample s else 0)\<rparr>)"

definition channel3EnableCheck :: "env \<Rightarrow> core \<Rightarrow> core" where
  "channel3EnableCheck e s =
     channel3OutputLevelSecondaryCache e
       (s\<lparr>channel3Enabled := (channel3consecutive s \<or> channel3totalLength s > 0)\<rparr>)"

definition channel4OutputLevelSecondaryCache :: "env \<Rightarrow> core \<Rightarrow> core" where
  "channel4OutputLevelSecondaryCache e s =
     mixerOutputLevelCache
       (if channel4Enabled s \<and> truthyAt (enabledChannels (cfg e)) 3
        then s\<lparr>channel4currentSampleLeftSecondary := channel4currentSampleLeft s,
               channel4currentSampleRightSecondary := channel4currentSampleRight s\<rparr>
        else s\<lparr>channel4currentSampleLeftSecondary := 0,
               channel4currentSampleRightSecondary := 0\<rparr>)"

definition channel4OutputLevelCache :: "env \<Rightarrow> core \<Rightarrow> core" where
  "channel4OutputLevelCache e s =
     channel4OutputLevelSecondaryCache e
       (s\<lparr>channel4currentSampleLeft :=
            (if leftChannel4 s then cachedChannel4Sample s else 0),
          channel4currentSampleRight :=
            (if rightChannel4 s then cachedChannel4Sample s else 0)\<rparr>)"

definition channel4EnableCheck :: "env \<Rightarrow> core \<Rightarrow> core" where
  "channel4EnableCheck e s =
     channel4OutputLevelSecondaryCache e
       (s\<lparr>channel4Enabled :=
            ((channel4consecutive s \<or> channel4totalLength s > 0) \<and> channel4canPlay s)\<rparr>)"

definition channel4VolumeEnableCheck :: "env \<Rightarrow> core \<Rightarrow> core" where
  "channel4VolumeEnableCheck e s =
     channel4OutputLevelSecondaryCache e
       (channel4EnableCheck e (s\<lparr>channel4canPlay := (memory s 0xff21 > 7)\<rparr>))"

text \<open>
  The white-noise tables of \<open>intializeWhiteNoise\<close>: entry \<open>v * 0x8000 + i\<close> of the 15-bit
  table holds \<open>v\<close> times the inverted low bit of the shift register after \<open>i\<close> steps, for
  the volumes \<open>v\<close> from 1 to 15, and the first \<open>0x8000\<close> entries stay zero; likewise with
  \<open>0x80\<close> for the 7-bit table. A read outside a table is undefined in JavaScript and 0
  here.
\<close>

definition LSFR15_next :: "int \<Rightarrow> int" where
  "LSFR15_next l = (let sh = js_sar l 1 in js_or sh (js_shl (js_and (js_xor sh l) 0x1) 14))"

primrec LSFR15_at :: "nat \<Rightarrow> int" where
  "LSFR15_at 0 = 0x7fff"
| "LSFR15_at (Suc n) = LSFR15_next (LSFR15_at n)"

definition LSFR15Table :: "int \<Rightarrow> int" where
  "LSFR15Table i =
     (if 0x8000 \<le> i \<and> i < 0x80000
      then (1 - js_and (LSFR15_at (nat (i mod 0x8000))) 1) * (i div 0x8000) else 0)"

definition LSFR7_next :: "int \<Rightarrow> int" where
  "LSFR7_next l = (let sh = js_sar l 1 in js_or sh (js_shl (js_and (js_xor sh l) 0x1) 6))"

primrec LSFR7_at :: "nat \<Rightarrow> int" where
  "LSFR7_at 0 = 0x7f"
| "LSFR7_at (Suc n) = LSFR7_next (LSFR7_at n)"

definition LSFR7Table :: "int \<Rightarrow> int" where
  "LSFR7Table i =
     (if 0x80 \<le> i \<and> i < 0x800
      then (1 - js_and (LSFR7_at (nat (i mod 0x80))) 1) * (i div 0x80) else 0)"

definition noiseSample :: "noiseRef \<Rightarrow> int \<Rightarrow> int" where
  "noiseSample t i = (case t of LSFR15 \<Rightarrow> LSFR15Table i | LSFR7 \<Rightarrow> LSFR7Table i)"

definition channel3UpdateCache :: "env \<Rightarrow> core \<Rightarrow> core" where
  "channel3UpdateCache e s =
     channel3OutputLevelCache e
       (s\<lparr>cachedChannel3Sample :=
            js_sar (channel3PCM s (channel3lastSampleLookup s)) (channel3patternType s)\<rparr>)"

definition channel4UpdateCache :: "env \<Rightarrow> core \<Rightarrow> core" where
  "channel4UpdateCache e s =
     channel4OutputLevelCache e
       (s\<lparr>cachedChannel4Sample :=
            noiseSample (noiseSampleTable s)
              (js_or (channel4currentVolume s) (channel4lastSampleLookup s))\<rparr>)"


section \<open>Audio: frame sequencer and channel clocks\<close>

text \<open>
  The longer functions of the source treat the channels one after the other; each part is
  a definition of its own, named after the function and the channel, and the function is
  their composition in source order.
\<close>

definition clockAudioLength_channel1 :: "env \<Rightarrow> core \<Rightarrow> core" where
  "clockAudioLength_channel1 e s =
     (if channel1totalLength s > 1
      then s\<lparr>channel1totalLength := channel1totalLength s - 1\<rparr>
      else if channel1totalLength s = 1
      then memory_and (channel1EnableCheck e (s\<lparr>channel1totalLength := 0\<rparr>)) 0xff26 0xfe
      else s)"

definition clockAudioLength_channel2 :: "env \<Rightarrow> core \<Rightarrow> core" where
  "clockAudioLength_channel2 e s =
     (if channel2totalLength s > 1
      then s\<lparr>channel2totalLength := channel2totalLength s - 1\<rparr>
      else if channel2totalLength s = 1
      then memory_and (channel2EnableCheck e (s\<lparr>channel2totalLength := 0\<rparr>)) 0xff26 0xfd
      else s)"

definition clockAudioLength_channel3 :: "env \<Rightarrow> core \<Rightarrow> core" where
  "clockAudioLength_channel3 e s =
     (if channel3totalLength s > 1
      then s\<lparr>channel3totalLength := channel3totalLength s - 1\<rparr>
      else if channel3totalLength s = 1
      then memory_and (channel3EnableCheck e (s\<lparr>channel3totalLength := 0\<rparr>)) 0xff26 0xfb
      else s)"

definition clockAudioLength_channel4 :: "env \<Rightarrow> core \<Rightarrow> core" where
  "clockAudioLength_channel4 e s =
     (if channel4totalLength s > 1
      then s\<lparr>channel4totalLength := channel4totalLength s - 1\<rparr>
      else if channel4totalLength s = 1
      then memory_and (channel4EnableCheck e (s\<lparr>channel4totalLength := 0\<rparr>)) 0xff26 0xf7
      else s)"

definition clockAudioLength :: "env \<Rightarrow> core \<Rightarrow> core" where
  "clockAudioLength e s =
     clockAudioLength_channel4 e
       (clockAudioLength_channel3 e
          (clockAudioLength_channel2 e (clockAudioLength_channel1 e s)))"

text \<open>
  The three statements that \<open>runAudioSweep\<close> and \<open>channel1AudioSweepPerformDummy\<close>
  repeat on an overflow: set the fault, recompute the enable, clear the flag in NR52.
\<close>

definition channel1SweepOverflow :: "env \<Rightarrow> core \<Rightarrow> core" where
  "channel1SweepOverflow e s =
     memory_and (channel1EnableCheck e (s\<lparr>channel1SweepFault := True\<rparr>)) 0xff26 0xfe"

definition runAudioSweep_decrease :: "core \<Rightarrow> core" where
  "runAudioSweep_decrease s =
     (let shadow = channel1ShadowFrequency s -
                   js_sar (channel1ShadowFrequency s) (channel1frequencySweepDivider s);
          frequency = js_and shadow 0x7ff
      in s\<lparr>channel1ShadowFrequency := shadow, channel1frequency := frequency,
            channel1FrequencyTracker := js_shl (0x800 - frequency) 2\<rparr>)"

definition runAudioSweep_increase :: "env \<Rightarrow> core \<Rightarrow> core" where
  "runAudioSweep_increase e s =
     (let shadow = channel1ShadowFrequency s +
                   js_sar (channel1ShadowFrequency s) (channel1frequencySweepDivider s)
      in if shadow \<le> 0x7ff then
           (if shadow + js_sar shadow (channel1frequencySweepDivider s) > 0x7ff
            then channel1SweepOverflow e
                   (s\<lparr>channel1ShadowFrequency := shadow, channel1frequency := shadow,
                      channel1FrequencyTracker := js_shl (0x800 - shadow) 2\<rparr>)
            else s\<lparr>channel1ShadowFrequency := shadow, channel1frequency := shadow,
                   channel1FrequencyTracker := js_shl (0x800 - shadow) 2\<rparr>)
         else channel1SweepOverflow e
                (s\<lparr>channel1ShadowFrequency := shadow,
                   channel1frequency := js_and shadow 0x7ff\<rparr>))"

definition runAudioSweep_reload :: "core \<Rightarrow> core" where
  "runAudioSweep_reload s = s\<lparr>channel1timeSweep := channel1lastTimeSweep s\<rparr>"

definition runAudioSweep :: "env \<Rightarrow> core \<Rightarrow> core" where
  "runAudioSweep e s =
     (if channel1lastTimeSweep s > 0 then
        (if channel1frequencySweepDivider s > 0 then
           runAudioSweep_reload
             (if channel1decreaseSweep s
              then runAudioSweep_decrease (s\<lparr>channel1Swept := True\<rparr>)
              else runAudioSweep_increase e (s\<lparr>channel1Swept := True\<rparr>))
         else channel1EnableCheck e (s\<lparr>channel1SweepFault := True\<rparr>))
      else s)"

definition clockAudioSweep :: "env \<Rightarrow> core \<Rightarrow> core" where
  "clockAudioSweep e s =
     (if \<not> channel1SweepFault s \<and> channel1timeSweep s > 0 then
        (if channel1timeSweep s - 1 = 0
         then runAudioSweep e (s\<lparr>channel1timeSweep := channel1timeSweep s - 1\<rparr>)
         else s\<lparr>channel1timeSweep := channel1timeSweep s - 1\<rparr>)
      else s)"

definition channel1AudioSweepPerformDummy :: "env \<Rightarrow> core \<Rightarrow> core" where
  "channel1AudioSweepPerformDummy e s =
     (if channel1frequencySweepDivider s > 0 then
        (if \<not> channel1decreaseSweep s then
           (let shadow = channel1ShadowFrequency s +
                         js_sar (channel1ShadowFrequency s) (channel1frequencySweepDivider s)
            in if shadow \<le> 0x7ff then
                 (if shadow + js_sar shadow (channel1frequencySweepDivider s) > 0x7ff
                  then channel1SweepOverflow e s else s)
               else channel1SweepOverflow e s)
         else s)
      else s)"

definition clockAudioEnvelope_channel1 :: "env \<Rightarrow> core \<Rightarrow> core" where
  "clockAudioEnvelope_channel1 e s =
     (if channel1envelopeSweepsLast s > -1 then
        (if channel1envelopeSweeps s > 0
         then s\<lparr>channel1envelopeSweeps := channel1envelopeSweeps s - 1\<rparr>
         else if \<not> channel1envelopeType s then
           (if channel1envelopeVolume s > 0 then
              channel1OutputLevelCache e
                (s\<lparr>channel1envelopeVolume := channel1envelopeVolume s - 1,
                   channel1envelopeSweeps := channel1envelopeSweepsLast s\<rparr>)
            else s\<lparr>channel1envelopeSweepsLast := -1\<rparr>)
         else if channel1envelopeVolume s < 0xf then
           channel1OutputLevelCache e
             (s\<lparr>channel1envelopeVolume := channel1envelopeVolume s + 1,
                channel1envelopeSweeps := channel1envelopeSweepsLast s\<rparr>)
         else s\<lparr>channel1envelopeSweepsLast := -1\<rparr>)
      else s)"

definition clockAudioEnvelope_channel2 :: "env \<Rightarrow> core \<Rightarrow> core" where
  "clockAudioEnvelope_channel2 e s =
     (if channel2envelopeSweepsLast s > -1 then
        (if channel2envelopeSweeps s > 0
         then s\<lparr>channel2envelopeSweeps := channel2envelopeSweeps s - 1\<rparr>
         else if \<not> channel2envelopeType s then
           (if channel2envelopeVolume s > 0 then
              channel2OutputLevelCache e
                (s\<lparr>channel2envelopeVolume := channel2envelopeVolume s - 1,
                   channel2envelopeSweeps := channel2envelopeSweepsLast s\<rparr>)
            else s\<lparr>channel2envelopeSweepsLast := -1\<rparr>)
         else if channel2envelopeVolume s < 0xf then
           channel2OutputLevelCache e
             (s\<lparr>channel2envelopeVolume := channel2envelopeVolume s + 1,
                channel2envelopeSweeps := channel2envelopeSweepsLast s\<rparr>)
         else s\<lparr>channel2envelopeSweepsLast := -1\<rparr>)
      else s)"

definition channel4SetVolume :: "core \<Rightarrow> int \<Rightarrow> core" where
  "channel4SetVolume s v =
     s\<lparr>channel4envelopeVolume := v,
       channel4currentVolume := js_shl v (channel4VolumeShifter s)\<rparr>"

definition clockAudioEnvelope_channel4 :: "env \<Rightarrow> core \<Rightarrow> core" where
  "clockAudioEnvelope_channel4 e s =
     (if channel4envelopeSweepsLast s > -1 then
        (if channel4envelopeSweeps s > 0
         then s\<lparr>channel4envelopeSweeps := channel4envelopeSweeps s - 1\<rparr>
         else if \<not> channel4envelopeType s then
           (if channel4envelopeVolume s > 0 then
              channel4UpdateCache e
                ((channel4SetVolume s (channel4envelopeVolume s - 1))
                   \<lparr>channel4envelopeSweeps := channel4envelopeSweepsLast s\<rparr>)
            else s\<lparr>channel4envelopeSweepsLast := -1\<rparr>)
         else if channel4envelopeVolume s < 0xf then
           channel4UpdateCache e
             ((channel4SetVolume s (channel4envelopeVolume s + 1))
                \<lparr>channel4envelopeSweeps := channel4envelopeSweepsLast s\<rparr>)
         else s\<lparr>channel4envelopeSweepsLast := -1\<rparr>)
      else s)"

definition clockAudioEnvelope :: "env \<Rightarrow> core \<Rightarrow> core" where
  "clockAudioEnvelope e s =
     clockAudioEnvelope_channel4 e
       (clockAudioEnvelope_channel2 e (clockAudioEnvelope_channel1 e s))"

text \<open>The switch is over the value of \<open>sequencePosition\<close> before its increment.\<close>

definition audioComputeSequencer :: "env \<Rightarrow> core \<Rightarrow> core" where
  "audioComputeSequencer e s =
     (if sequencePosition s = 0
      then clockAudioLength e (s\<lparr>sequencePosition := sequencePosition s + 1\<rparr>)
      else if sequencePosition s = 2
      then clockAudioSweep e
             (clockAudioLength e (s\<lparr>sequencePosition := sequencePosition s + 1\<rparr>))
      else if sequencePosition s = 4
      then clockAudioLength e (s\<lparr>sequencePosition := sequencePosition s + 1\<rparr>)
      else if sequencePosition s = 6
      then clockAudioSweep e
             (clockAudioLength e (s\<lparr>sequencePosition := sequencePosition s + 1\<rparr>))
      else if sequencePosition s = 7
      then (clockAudioEnvelope e (s\<lparr>sequencePosition := sequencePosition s + 1\<rparr>))
             \<lparr>sequencePosition := 0\<rparr>
      else s\<lparr>sequencePosition := sequencePosition s + 1\<rparr>)"

definition computeAudioChannels_clock :: "core \<Rightarrow> core" where
  "computeAudioChannels_clock s =
     s\<lparr>channel1FrequencyCounter := channel1FrequencyCounter s - audioClocksUntilNextEvent s,
       channel2FrequencyCounter := channel2FrequencyCounter s - audioClocksUntilNextEvent s,
       channel3Counter := channel3Counter s - audioClocksUntilNextEvent s,
       channel4Counter := channel4Counter s - audioClocksUntilNextEvent s\<rparr>"

definition computeAudioChannels_channel1 :: "env \<Rightarrow> core \<Rightarrow> core" where
  "computeAudioChannels_channel1 e s =
     (if channel1FrequencyCounter s = 0 then
        channel1OutputLevelTrimaryCache e
          (s\<lparr>channel1FrequencyCounter := channel1FrequencyTracker s,
             channel1DutyTracker := js_and (channel1DutyTracker s + 1) 0x7\<rparr>)
      else s)"

definition computeAudioChannels_channel2 :: "env \<Rightarrow> core \<Rightarrow> core" where
  "computeAudioChannels_channel2 e s =
     (if channel2FrequencyCounter s = 0 then
        channel2OutputLevelTrimaryCache e
          (s\<lparr>channel2FrequencyCounter := channel2FrequencyTracker s,
             channel2DutyTracker := js_and (channel2DutyTracker s + 1) 0x7\<rparr>)
      else s)"

definition computeAudioChannels_channel3 :: "env \<Rightarrow> core \<Rightarrow> core" where
  "computeAudioChannels_channel3 e s =
     (if channel3Counter s = 0 then
        channel3UpdateCache e
          (s\<lparr>channel3lastSampleLookup :=
               (if channel3canPlay s then js_and (channel3lastSampleLookup s + 1) 0x1f
                else channel3lastSampleLookup s),
             channel3Counter := channel3FrequencyPeriod s\<rparr>)
      else s)"

definition computeAudioChannels_channel4 :: "env \<Rightarrow> core \<Rightarrow> core" where
  "computeAudioChannels_channel4 e s =
     (if channel4Counter s = 0 then
        channel4UpdateCache e
          (s\<lparr>channel4lastSampleLookup :=
               js_and (channel4lastSampleLookup s + 1) (channel4BitRange s),
             channel4Counter := channel4FrequencyPeriod s\<rparr>)
      else s)"

definition computeAudioChannels_next :: "core \<Rightarrow> core" where
  "computeAudioChannels_next s =
     (let next = min (min (channel1FrequencyCounter s) (channel2FrequencyCounter s))
                     (min (channel3Counter s) (channel4Counter s))
      in s\<lparr>audioClocksUntilNextEvent := next, audioClocksUntilNextEventCounter := next\<rparr>)"

definition computeAudioChannels :: "env \<Rightarrow> core \<Rightarrow> core" where
  "computeAudioChannels e s =
     computeAudioChannels_next
       (computeAudioChannels_channel4 e
          (computeAudioChannels_channel3 e
             (computeAudioChannels_channel2 e
                (computeAudioChannels_channel1 e (computeAudioChannels_clock s)))))"

section \<open>Audio: sample generation\<close>

text \<open>
  \<open>outputAudio\<close> stores one stereo pair at \<open>audioDestinationPosition\<close> and hands the whole
  buffer to the host when the position reaches \<open>numSamplesTotal\<close>, the length the buffer
  was allocated with. A store outside a typed array is dropped.
\<close>

definition audioBuffer_set :: "core \<Rightarrow> int \<Rightarrow> rat \<Rightarrow> core" where
  "audioBuffer_set s i v =
     (if 0 \<le> i \<and> i < numSamplesTotal s then s\<lparr>audioBuffer := (audioBuffer s)(i := v)\<rparr>
      else s)"

definition writeAudio :: "core \<Rightarrow> core" where
  "writeAudio s =
     s\<lparr>audioServer :=
         audioServer s @ map (\<lambda>i. audioBuffer s (int i)) [0..<nat (numSamplesTotal s)]\<rparr>"

definition outputAudio_store :: "core \<Rightarrow> rat \<Rightarrow> core" where
  "outputAudio_store s v =
     (audioBuffer_set s (audioDestinationPosition s) v)
       \<lparr>audioDestinationPosition := audioDestinationPosition s + 1\<rparr>"

definition outputAudio_flush :: "core \<Rightarrow> core" where
  "outputAudio_flush s =
     (if audioDestinationPosition s = numSamplesTotal s
      then (writeAudio s)\<lparr>audioDestinationPosition := 0\<rparr> else s)"

definition outputAudio :: "core \<Rightarrow> core" where
  "outputAudio s =
     (outputAudio_flush
        (outputAudio_store
           (outputAudio_store s
              (of_int (js_shr (downsampleInput s) 16) * downSampleInputDivider s - 1))
           (of_int (js_and (downsampleInput s) 0xffff) * downSampleInputDivider s - 1)))
       \<lparr>downsampleInput := 0\<rparr>"

text \<open>
  The loops of \<open>generateAudio\<close>. Nothing in the code bounds them: with a counter or the
  resampler factor at zero they spin for ever, so each is a partial function and \<open>None\<close>
  is the run that does not return. \<open>generateAudio_resample\<close> is the inner
  \<open>while (clockUpTo > 0)\<close>, \<open>generateAudio_loop\<close> the audible outer loop and
  \<open>generateAudio_silent\<close> the loop of the silent branch. \<open>generateAudio_accumulate\<close> is
  the body of the inner loop for a given \<open>multiplier\<close> (without the mixing in the silent
  branch), \<open>generateAudio_clock\<close> the countdown at the head of the outer loop and
  \<open>generateAudio_events\<close> the two events at its end.
\<close>

definition generateAudio_emit :: "core \<Rightarrow> core" where
  "generateAudio_emit s =
     (if audioIndex s = audioResamplerFirstPassFactor s
      then outputAudio (s\<lparr>audioIndex := 0\<rparr>) else s)"

definition generateAudio_accumulate :: "core \<Rightarrow> int \<Rightarrow> core" where
  "generateAudio_accumulate s multiplier =
     generateAudio_emit
       (s\<lparr>audioIndex := audioIndex s + multiplier,
          downsampleInput := downsampleInput s + mixerOutputCache s * multiplier\<rparr>)"

definition generateAudio_skip :: "core \<Rightarrow> int \<Rightarrow> core" where
  "generateAudio_skip s multiplier =
     generateAudio_emit (s\<lparr>audioIndex := audioIndex s + multiplier\<rparr>)"

partial_function (option) generateAudio_resample :: "core \<Rightarrow> int \<Rightarrow> core option" where
  "generateAudio_resample s clockUpTo =
     (if clockUpTo > 0 then
        generateAudio_resample
          (generateAudio_accumulate s
             (min clockUpTo (audioResamplerFirstPassFactor s - audioIndex s)))
          (clockUpTo - min clockUpTo (audioResamplerFirstPassFactor s - audioIndex s))
      else Some s)"

definition generateAudio_clockUpTo :: "core \<Rightarrow> int \<Rightarrow> int" where
  "generateAudio_clockUpTo s numSamples =
     min (min (audioClocksUntilNextEventCounter s) (sequencerClocks s)) numSamples"

definition generateAudio_clock :: "core \<Rightarrow> int \<Rightarrow> core" where
  "generateAudio_clock s clockUpTo =
     s\<lparr>audioClocksUntilNextEventCounter := audioClocksUntilNextEventCounter s - clockUpTo,
       sequencerClocks := sequencerClocks s - clockUpTo\<rparr>"

definition generateAudio_sequencerEvent :: "env \<Rightarrow> core \<Rightarrow> core" where
  "generateAudio_sequencerEvent e s =
     (if sequencerClocks s = 0
      then (audioComputeSequencer e s)\<lparr>sequencerClocks := 0x2000\<rparr> else s)"

definition generateAudio_channelEvent :: "env \<Rightarrow> core \<Rightarrow> core" where
  "generateAudio_channelEvent e s =
     (if audioClocksUntilNextEventCounter s = 0 then computeAudioChannels e s else s)"

definition generateAudio_events :: "env \<Rightarrow> core \<Rightarrow> core" where
  "generateAudio_events e s =
     generateAudio_channelEvent e (generateAudio_sequencerEvent e s)"

partial_function (option) generateAudio_loop :: "env \<Rightarrow> core \<Rightarrow> int \<Rightarrow> core option" where
  "generateAudio_loop e s numSamples =
     (if numSamples > 0 then
        (case generateAudio_resample
                (generateAudio_clock s (generateAudio_clockUpTo s numSamples))
                (generateAudio_clockUpTo s numSamples) of
           None \<Rightarrow> None
         | Some s2 \<Rightarrow> generateAudio_loop e (generateAudio_events e s2)
                        (numSamples - generateAudio_clockUpTo s numSamples))
      else Some s)"

partial_function (option) generateAudio_silent :: "core \<Rightarrow> int \<Rightarrow> core option" where
  "generateAudio_silent s numSamples =
     (if numSamples > 0 then
        generateAudio_silent
          (generateAudio_skip s
             (min numSamples (audioResamplerFirstPassFactor s - audioIndex s)))
          (numSamples - min numSamples (audioResamplerFirstPassFactor s - audioIndex s))
      else Some s)"

definition generateAudio :: "env \<Rightarrow> core \<Rightarrow> int \<Rightarrow> core option" where
  "generateAudio e s numSamples =
     (if soundMasterEnabled s \<and> \<not> CPUStopped s then generateAudio_loop e s numSamples
      else generateAudio_silent s numSamples)"

partial_function (option) generateAudioFake_loop :: "env \<Rightarrow> core \<Rightarrow> int \<Rightarrow> core option" where
  "generateAudioFake_loop e s numSamples =
     (if numSamples > 0 then
        generateAudioFake_loop e
          (generateAudio_events e
             (generateAudio_clock s (generateAudio_clockUpTo s numSamples)))
          (numSamples - generateAudio_clockUpTo s numSamples)
      else Some s)"

definition generateAudioFake :: "env \<Rightarrow> core \<Rightarrow> int \<Rightarrow> core option" where
  "generateAudioFake e s numSamples =
     (if soundMasterEnabled s \<and> \<not> CPUStopped s then generateAudioFake_loop e s numSamples
      else Some s)"

definition audioJIT :: "env \<Rightarrow> core \<Rightarrow> core option" where
  "audioJIT e s =
     map_option (\<lambda>s1. s1\<lparr>audioTicks := 0\<rparr>)
       (if soundOn (cfg e) then generateAudio e s (audioTicks s)
        else generateAudioFake e s (audioTicks s))"

section \<open>Audio: registers\<close>

definition initializeAudioStartState :: "env \<Rightarrow> core \<Rightarrow> core" where
  "initializeAudioStartState e s0 =
     (let s = s0\<lparr>channel1FrequencyTracker := 0x2000, channel1DutyTracker := 0,
                 channel1CachedDuty := dutyLookup e 2, channel1totalLength := 0,
                 channel1envelopeVolume := 0, channel1envelopeType := False,
                 channel1envelopeSweeps := 0, channel1envelopeSweepsLast := 0,
                 channel1consecutive := True, channel1frequency := 0,
                 channel1SweepFault := False, channel1ShadowFrequency := 0,
                 channel1timeSweep := 1, channel1lastTimeSweep := 0, channel1Swept := False,
                 channel1frequencySweepDivider := 0, channel1decreaseSweep := False\<rparr>;
          s = s\<lparr>channel2FrequencyTracker := 0x2000, channel2DutyTracker := 0,
                channel2CachedDuty := dutyLookup e 2, channel2totalLength := 0,
                channel2envelopeVolume := 0, channel2envelopeType := False,
                channel2envelopeSweeps := 0, channel2envelopeSweepsLast := 0,
                channel2consecutive := True, channel2frequency := 0\<rparr>;
          s = s\<lparr>channel3canPlay := False, channel3totalLength := 0, channel3patternType := 4,
                channel3frequency := 0, channel3consecutive := True, channel3Counter := 0x800\<rparr>;
          s = s\<lparr>channel4FrequencyPeriod := 8, channel4totalLength := 0,
                channel4envelopeVolume := 0, channel4currentVolume := 0,
                channel4envelopeType := False, channel4envelopeSweeps := 0,
                channel4envelopeSweepsLast := 0, channel4consecutive := True,
                channel4BitRange := 0x7fff, noiseSampleTable := LSFR15,
                channel4VolumeShifter := 15\<rparr>;
          s = s\<lparr>channel1FrequencyCounter := 0x2000, channel2FrequencyCounter := 0x2000,
                channel3Counter := 0x800, channel3FrequencyPeriod := 0x800,
                channel3lastSampleLookup := 0, channel4lastSampleLookup := 0,
                VinLeftChannelMasterVolume := 8, VinRightChannelMasterVolume := 8,
                mixerOutputCache := 0, sequencerClocks := 0x2000, sequencePosition := 0,
                channel4FrequencyPeriod := 8, channel4Counter := 8,
                cachedChannel3Sample := 0, cachedChannel4Sample := 0\<rparr>;
          s = s\<lparr>channel1Enabled := False, channel2Enabled := False, channel3Enabled := False,
                channel4Enabled := False, channel1canPlay := False, channel2canPlay := False,
                channel4canPlay := False, audioClocksUntilNextEvent := 1,
                audioClocksUntilNextEventCounter := 1\<rparr>;
          s = channel1OutputLevelCache e s;
          s = channel2OutputLevelCache e s;
          s = channel3OutputLevelCache e s;
          s = channel4OutputLevelCache e s
      in s\<lparr>noiseSampleTable := LSFR15\<rparr>)"

text \<open>
  The write handlers of the sound registers, named after the register. Each flushes the
  pending audio first (\<open>audioJIT\<close>), so each returns \<open>None\<close> when that flush does not
  return.
\<close>

definition NR10_write :: "env \<Rightarrow> core \<Rightarrow> int \<Rightarrow> core option" where
  "NR10_write e s0 data =
     (if soundMasterEnabled s0 then
        map_option
          (\<lambda>s. let s = (if channel1decreaseSweep s \<and> js_and data 0x08 = 0 then
                           (if channel1Swept s then s\<lparr>channel1SweepFault := True\<rparr> else s)
                         else s);
                    s = s\<lparr>channel1lastTimeSweep := js_sar (js_and data 0x70) 4,
                          channel1frequencySweepDivider := js_and data 0x07,
                          channel1decreaseSweep := (js_and data 0x08 = 0x08)\<rparr>;
                    s = memory_set s 0xff10 data
                in channel1EnableCheck e s)
          (audioJIT e s0)
      else Some s0)"

definition NR11_write :: "env \<Rightarrow> core \<Rightarrow> int \<Rightarrow> core option" where
  "NR11_write e s0 data0 =
     (if soundMasterEnabled s0 \<or> \<not> useGBCMode (cartridgeSlot s0) then
        map_option
          (\<lambda>s. let data = (if soundMasterEnabled s0 then data0 else js_and data0 0x3f);
                    s = s\<lparr>channel1CachedDuty := dutyLookup e (js_sar data 6),
                          channel1totalLength := 0x40 - js_and data 0x3f\<rparr>;
                    s = memory_set s 0xff11 data
                in channel1EnableCheck e s)
          (if soundMasterEnabled s0 then audioJIT e s0 else Some s0)
      else Some s0)"

definition NR12_write :: "env \<Rightarrow> core \<Rightarrow> int \<Rightarrow> core option" where
  "NR12_write e s0 data =
     (if soundMasterEnabled s0 then
        map_option
          (\<lambda>s. (let s = (if channel1Enabled s \<and> channel1envelopeSweeps s = 0 then
                       (let s = (if js_and (js_xor (memory s 0xff12) data) 0x8 = 0x8 then
                                   (let s = (if js_and (memory s 0xff12) 0x8 = 0 then
                                               (if js_and (memory s 0xff12) 0x7 = 0x7
                                                then s\<lparr>channel1envelopeVolume :=
                                                         channel1envelopeVolume s + 2\<rparr>
                                                else s\<lparr>channel1envelopeVolume :=
                                                         channel1envelopeVolume s + 1\<rparr>)
                                             else s)
                                    in s\<lparr>channel1envelopeVolume :=
                                            js_and (16 - channel1envelopeVolume s) 0xf\<rparr>)
                                 else if js_and (memory s 0xff12) 0xf = 0x8 then
                                   s\<lparr>channel1envelopeVolume :=
                                       js_and (1 + channel1envelopeVolume s) 0xf\<rparr>
                                 else s)
                        in channel1OutputLevelCache e s)
                     else s);
                s = s\<lparr>channel1envelopeType := (js_and data 0x08 = 0x08)\<rparr>;
                s = memory_set s 0xff12 data
            in channel1VolumeEnableCheck e s))
          (audioJIT e s0)
      else Some s0)"

definition NR13_write :: "env \<Rightarrow> core \<Rightarrow> int \<Rightarrow> core option" where
  "NR13_write e s0 data =
     (if soundMasterEnabled s0 then
        map_option
          (\<lambda>s. let s = s\<lparr>channel1frequency :=
                              js_or (js_and (channel1frequency s) 0x700) data\<rparr>
                in s\<lparr>channel1FrequencyTracker := js_shl (0x800 - channel1frequency s) 2\<rparr>)
          (audioJIT e s0)
      else Some s0)"

definition NR14_write :: "env \<Rightarrow> core \<Rightarrow> int \<Rightarrow> core option" where
  "NR14_write e s0 data =
     (if soundMasterEnabled s0 then
        map_option
          (\<lambda>s. let s = s\<lparr>channel1consecutive := (js_and data 0x40 = 0x0)\<rparr>;
                    s = s\<lparr>channel1frequency :=
                            js_or (js_shl (js_and data 0x7) 8)
                                  (js_and (channel1frequency s) 0xff)\<rparr>;
                    s = s\<lparr>channel1FrequencyTracker := js_shl (0x800 - channel1frequency s) 2\<rparr>;
                    s = (if data > 0x7f then
                           (let s = s\<lparr>channel1timeSweep := channel1lastTimeSweep s,
                                        channel1Swept := False\<rparr>;
                                nr12 = memory s 0xff12;
                                s = channel1OutputLevelCache e
                                      (s\<lparr>channel1envelopeVolume := js_sar nr12 4\<rparr>);
                                s = s\<lparr>channel1envelopeSweepsLast := js_and nr12 0x7 - 1\<rparr>;
                                s = (if channel1totalLength s = 0
                                     then s\<lparr>channel1totalLength := 0x40\<rparr> else s);
                                s = (if channel1lastTimeSweep s > 0 \<or>
                                        channel1frequencySweepDivider s > 0
                                     then memory_set s 0xff26 (js_or (memory s 0xff26) 0x1)
                                     else memory_set s 0xff26 (js_and (memory s 0xff26) 0xfe));
                                s = (if js_and data 0x40 = 0x40
                                     then memory_set s 0xff26 (js_or (memory s 0xff26) 0x1)
                                     else s);
                                s = s\<lparr>channel1ShadowFrequency := channel1frequency s,
                                      channel1SweepFault := False\<rparr>
                            in channel1AudioSweepPerformDummy e s)
                         else s);
                    s = channel1EnableCheck e s
                in memory_set s 0xff14 data)
          (audioJIT e s0)
      else Some s0)"

definition NR21_write :: "env \<Rightarrow> core \<Rightarrow> int \<Rightarrow> core option" where
  "NR21_write e s0 data0 =
     (if soundMasterEnabled s0 \<or> \<not> useGBCMode (cartridgeSlot s0) then
        map_option
          (\<lambda>s. let data = (if soundMasterEnabled s0 then data0 else js_and data0 0x3f);
                    s = s\<lparr>channel2CachedDuty := dutyLookup e (js_sar data 6),
                          channel2totalLength := 0x40 - js_and data 0x3f\<rparr>;
                    s = memory_set s 0xff16 data
                in channel2EnableCheck e s)
          (if soundMasterEnabled s0 then audioJIT e s0 else Some s0)
      else Some s0)"

definition NR22_write :: "env \<Rightarrow> core \<Rightarrow> int \<Rightarrow> core option" where
  "NR22_write e s0 data =
     (if soundMasterEnabled s0 then
        map_option
          (\<lambda>s. (let s = (if channel2Enabled s \<and> channel2envelopeSweeps s = 0 then
                       (let s = (if js_and (js_xor (memory s 0xff17) data) 0x8 = 0x8 then
                                   (let s = (if js_and (memory s 0xff17) 0x8 = 0 then
                                               (if js_and (memory s 0xff17) 0x7 = 0x7
                                                then s\<lparr>channel2envelopeVolume :=
                                                         channel2envelopeVolume s + 2\<rparr>
                                                else s\<lparr>channel2envelopeVolume :=
                                                         channel2envelopeVolume s + 1\<rparr>)
                                             else s)
                                    in s\<lparr>channel2envelopeVolume :=
                                            js_and (16 - channel2envelopeVolume s) 0xf\<rparr>)
                                 else if js_and (memory s 0xff17) 0xf = 0x8 then
                                   s\<lparr>channel2envelopeVolume :=
                                       js_and (1 + channel2envelopeVolume s) 0xf\<rparr>
                                 else s)
                        in channel2OutputLevelCache e s)
                     else s);
                s = s\<lparr>channel2envelopeType := (js_and data 0x08 = 0x08)\<rparr>;
                s = memory_set s 0xff17 data
            in channel2VolumeEnableCheck e s))
          (audioJIT e s0)
      else Some s0)"

definition NR23_write :: "env \<Rightarrow> core \<Rightarrow> int \<Rightarrow> core option" where
  "NR23_write e s0 data =
     (if soundMasterEnabled s0 then
        map_option
          (\<lambda>s. let s = s\<lparr>channel2frequency :=
                              js_or (js_and (channel2frequency s) 0x700) data\<rparr>
                in s\<lparr>channel2FrequencyTracker := js_shl (0x800 - channel2frequency s) 2\<rparr>)
          (audioJIT e s0)
      else Some s0)"

definition NR24_write :: "env \<Rightarrow> core \<Rightarrow> int \<Rightarrow> core option" where
  "NR24_write e s0 data =
     (if soundMasterEnabled s0 then
        map_option
          (\<lambda>s. let s = (if data > 0x7f then
                           (let nr22 = memory s 0xff17;
                                s = channel2OutputLevelCache e
                                      (s\<lparr>channel2envelopeVolume := js_sar nr22 4\<rparr>);
                                s = s\<lparr>channel2envelopeSweepsLast := js_and nr22 0x7 - 1\<rparr>;
                                s = (if channel2totalLength s = 0
                                     then s\<lparr>channel2totalLength := 0x40\<rparr> else s)
                            in if js_and data 0x40 = 0x40
                               then memory_set s 0xff26 (js_or (memory s 0xff26) 0x2) else s)
                         else s);
                    s = s\<lparr>channel2consecutive := (js_and data 0x40 = 0x0)\<rparr>;
                    s = s\<lparr>channel2frequency :=
                            js_or (js_shl (js_and data 0x7) 8)
                                  (js_and (channel2frequency s) 0xff)\<rparr>;
                    s = s\<lparr>channel2FrequencyTracker := js_shl (0x800 - channel2frequency s) 2\<rparr>;
                    s = memory_set s 0xff19 data
                in channel2EnableCheck e s)
          (audioJIT e s0)
      else Some s0)"

definition NR30_write :: "env \<Rightarrow> core \<Rightarrow> int \<Rightarrow> core option" where
  "NR30_write e s0 data =
     (if soundMasterEnabled s0 then
        map_option
          (\<lambda>s. let s = (if \<not> channel3canPlay s \<and> data \<ge> 0x80
                         then channel3UpdateCache e (s\<lparr>channel3lastSampleLookup := 0\<rparr>)
                         else s);
                    s = s\<lparr>channel3canPlay := (data > 0x7f)\<rparr>;
                    s = (if channel3canPlay s \<and> memory s 0xff1a > 0x7f \<and>
                            \<not> channel3consecutive s
                         then memory_set s 0xff26 (js_or (memory s 0xff26) 0x4) else s)
                in memory_set s 0xff1a data)
          (audioJIT e s0)
      else Some s0)"

definition NR31_write :: "env \<Rightarrow> core \<Rightarrow> int \<Rightarrow> core option" where
  "NR31_write e s0 data =
     (if soundMasterEnabled s0 \<or> \<not> useGBCMode (cartridgeSlot s0) then
        map_option
          (\<lambda>s. channel3EnableCheck e (s\<lparr>channel3totalLength := 0x100 - data\<rparr>))
          (if soundMasterEnabled s0 then audioJIT e s0 else Some s0)
      else Some s0)"

definition NR32_write :: "env \<Rightarrow> core \<Rightarrow> int \<Rightarrow> core option" where
  "NR32_write e s0 data0 =
     (if soundMasterEnabled s0 then
        map_option
          (\<lambda>s. let data = js_and data0 0x60;
                    s = memory_set s 0xff1c data
                in s\<lparr>channel3patternType := (if data = 0 then 4 else js_sar data 5 - 1)\<rparr>)
          (audioJIT e s0)
      else Some s0)"

definition NR33_write :: "env \<Rightarrow> core \<Rightarrow> int \<Rightarrow> core option" where
  "NR33_write e s0 data =
     (if soundMasterEnabled s0 then
        map_option
          (\<lambda>s. let s = s\<lparr>channel3frequency :=
                              js_or (js_and (channel3frequency s) 0x700) data\<rparr>
                in s\<lparr>channel3FrequencyPeriod := js_shl (0x800 - channel3frequency s) 1\<rparr>)
          (audioJIT e s0)
      else Some s0)"

definition NR34_write :: "env \<Rightarrow> core \<Rightarrow> int \<Rightarrow> core option" where
  "NR34_write e s0 data =
     (if soundMasterEnabled s0 then
        map_option
          (\<lambda>s. let s = (if data > 0x7f then
                           (let s = (if channel3totalLength s = 0
                                     then s\<lparr>channel3totalLength := 0x100\<rparr> else s);
                                s = s\<lparr>channel3lastSampleLookup := 0\<rparr>
                            in if js_and data 0x40 = 0x40
                               then memory_set s 0xff26 (js_or (memory s 0xff26) 0x4) else s)
                         else s);
                    s = s\<lparr>channel3consecutive := (js_and data 0x40 = 0x0)\<rparr>;
                    s = s\<lparr>channel3frequency :=
                            js_or (js_shl (js_and data 0x7) 8)
                                  (js_and (channel3frequency s) 0xff)\<rparr>;
                    s = s\<lparr>channel3FrequencyPeriod := js_shl (0x800 - channel3frequency s) 1\<rparr>;
                    s = memory_set s 0xff1e data
                in channel3EnableCheck e s)
          (audioJIT e s0)
      else Some s0)"

definition NR41_write :: "env \<Rightarrow> core \<Rightarrow> int \<Rightarrow> core option" where
  "NR41_write e s0 data =
     (if soundMasterEnabled s0 \<or> \<not> useGBCMode (cartridgeSlot s0) then
        map_option
          (\<lambda>s. channel4EnableCheck e (s\<lparr>channel4totalLength := 0x40 - js_and data 0x3f\<rparr>))
          (if soundMasterEnabled s0 then audioJIT e s0 else Some s0)
      else Some s0)"

definition NR42_write :: "env \<Rightarrow> core \<Rightarrow> int \<Rightarrow> core option" where
  "NR42_write e s0 data =
     (if soundMasterEnabled s0 then
        map_option
          (\<lambda>s. let s = (if channel4Enabled s \<and> channel4envelopeSweeps s = 0 then
                           (let s = (if js_and (js_xor (memory s 0xff21) data) 0x8 = 0x8 then
                                       (let s = (if js_and (memory s 0xff21) 0x8 = 0 then
                                                   (if js_and (memory s 0xff21) 0x7 = 0x7
                                                    then s\<lparr>channel4envelopeVolume :=
                                                             channel4envelopeVolume s + 2\<rparr>
                                                    else s\<lparr>channel4envelopeVolume :=
                                                             channel4envelopeVolume s + 1\<rparr>)
                                                 else s)
                                        in s\<lparr>channel4envelopeVolume :=
                                                js_and (16 - channel4envelopeVolume s) 0xf\<rparr>)
                                     else if js_and (memory s 0xff21) 0xf = 0x8 then
                                       s\<lparr>channel4envelopeVolume :=
                                           js_and (1 + channel4envelopeVolume s) 0xf\<rparr>
                                     else s)
                            in s\<lparr>channel4currentVolume :=
                                    js_shl (channel4envelopeVolume s) (channel4VolumeShifter s)\<rparr>)
                         else s);
                    s = s\<lparr>channel4envelopeType := (js_and data 0x08 = 0x08)\<rparr>;
                    s = memory_set s 0xff21 data;
                    s = channel4UpdateCache e s
                in channel4VolumeEnableCheck e s)
          (audioJIT e s0)
      else Some s0)"

definition NR43_write :: "env \<Rightarrow> core \<Rightarrow> int \<Rightarrow> core option" where
  "NR43_write e s0 data =
     (if soundMasterEnabled s0 then
        map_option
          (\<lambda>s. let s = s\<lparr>channel4FrequencyPeriod :=
                              js_shl (max (js_shl (js_and data 0x7) 4) 8) (js_sar data 4)\<rparr>;
                    bitWidth = js_and data 0x8;
                    s = (if (bitWidth = 0x8 \<and> channel4BitRange s = 0x7fff) \<or>
                            (bitWidth = 0 \<and> channel4BitRange s = 0x7f) then
                           (let s = s\<lparr>channel4lastSampleLookup := 0,
                                        channel4BitRange :=
                                          (if bitWidth = 0x8 then 0x7f else 0x7fff),
                                        channel4VolumeShifter :=
                                          (if bitWidth = 0x8 then 7 else 15)\<rparr>;
                                s = s\<lparr>channel4currentVolume :=
                                        js_shl (channel4envelopeVolume s)
                                               (channel4VolumeShifter s)\<rparr>
                            in s\<lparr>noiseSampleTable :=
                                    (if bitWidth = 0x8 then LSFR7 else LSFR15)\<rparr>)
                         else s);
                    s = memory_set s 0xff22 data
                in channel4UpdateCache e s)
          (audioJIT e s0)
      else Some s0)"

definition NR44_write :: "env \<Rightarrow> core \<Rightarrow> int \<Rightarrow> core option" where
  "NR44_write e s0 data =
     (if soundMasterEnabled s0 then
        map_option
          (\<lambda>s. let s = memory_set s 0xff23 data;
                    s = s\<lparr>channel4consecutive := (js_and data 0x40 = 0x0)\<rparr>;
                    s = (if data > 0x7f then
                           (let nr42 = memory s 0xff21;
                                s = s\<lparr>channel4envelopeVolume := js_sar nr42 4\<rparr>;
                                s = s\<lparr>channel4currentVolume :=
                                        js_shl (channel4envelopeVolume s)
                                               (channel4VolumeShifter s)\<rparr>;
                                s = s\<lparr>channel4envelopeSweepsLast := js_and nr42 0x7 - 1\<rparr>;
                                s = (if channel4totalLength s = 0
                                     then s\<lparr>channel4totalLength := 0x40\<rparr> else s)
                            in if js_and data 0x40 = 0x40
                               then memory_set s 0xff26 (js_or (memory s 0xff26) 0x8) else s)
                         else s)
                in channel4EnableCheck e s)
          (audioJIT e s0)
      else Some s0)"

definition NR50_write :: "env \<Rightarrow> core \<Rightarrow> int \<Rightarrow> core option" where
  "NR50_write e s0 data =
     (if soundMasterEnabled s0 \<and> memory s0 0xff24 \<noteq> data then
        map_option
          (\<lambda>s. let s = memory_set s 0xff24 data;
                    s = s\<lparr>VinLeftChannelMasterVolume := js_and (js_sar data 4) 0x07 + 1,
                          VinRightChannelMasterVolume := js_and data 0x07 + 1\<rparr>
                in mixerOutputLevelCache s)
          (audioJIT e s0)
      else Some s0)"

definition NR51_write :: "env \<Rightarrow> core \<Rightarrow> int \<Rightarrow> core option" where
  "NR51_write e s0 data =
     (if soundMasterEnabled s0 \<and> memory s0 0xff25 \<noteq> data then
        map_option
          (\<lambda>s. let s = memory_set s 0xff25 data;
                    s = s\<lparr>rightChannel1 := (js_and data 0x01 = 0x01),
                          rightChannel2 := (js_and data 0x02 = 0x02),
                          rightChannel3 := (js_and data 0x04 = 0x04),
                          rightChannel4 := (js_and data 0x08 = 0x08),
                          leftChannel1 := (js_and data 0x10 = 0x10),
                          leftChannel2 := (js_and data 0x20 = 0x20),
                          leftChannel3 := (js_and data 0x40 = 0x40),
                          leftChannel4 := (data > 0x7f)\<rparr>;
                    s = channel1OutputLevelCache e s;
                    s = channel2OutputLevelCache e s;
                    s = channel3OutputLevelCache e s
                in channel4OutputLevelCache e s)
          (audioJIT e s0)
      else Some s0)"

text \<open>
  The entries \<open>0xFF10\<close> to \<open>0xFF25\<close> of the table \<open>memoryWriter\<close>, as
  \<open>registerWriteJumpCompile\<close> fills them: \<open>0xFF15\<close> and \<open>0xFF1F\<close> hold
  \<open>cartIgnoreWrite\<close>. The function is meant for these addresses only.
\<close>

definition cartIgnoreWrite :: "core \<Rightarrow> int \<Rightarrow> int \<Rightarrow> core" where
  "cartIgnoreWrite s address data = s"

definition memoryWriter_sound :: "env \<Rightarrow> core \<Rightarrow> int \<Rightarrow> int \<Rightarrow> core option" where
  "memoryWriter_sound e s address data =
     (if address = 0xff10 then NR10_write e s data
      else if address = 0xff11 then NR11_write e s data
      else if address = 0xff12 then NR12_write e s data
      else if address = 0xff13 then NR13_write e s data
      else if address = 0xff14 then NR14_write e s data
      else if address = 0xff15 then Some (cartIgnoreWrite s address data)
      else if address = 0xff16 then NR21_write e s data
      else if address = 0xff17 then NR22_write e s data
      else if address = 0xff18 then NR23_write e s data
      else if address = 0xff19 then NR24_write e s data
      else if address = 0xff1a then NR30_write e s data
      else if address = 0xff1b then NR31_write e s data
      else if address = 0xff1c then NR32_write e s data
      else if address = 0xff1d then NR33_write e s data
      else if address = 0xff1e then NR34_write e s data
      else if address = 0xff1f then Some (cartIgnoreWrite s address data)
      else if address = 0xff20 then NR41_write e s data
      else if address = 0xff21 then NR42_write e s data
      else if address = 0xff22 then NR43_write e s data
      else if address = 0xff23 then NR44_write e s data
      else if address = 0xff24 then NR50_write e s data
      else NR51_write e s data)"

text \<open>The loop of the power-off branch of NR52: zero is written to each register.\<close>

function NR52_clear :: "env \<Rightarrow> core \<Rightarrow> int \<Rightarrow> core option" where
  "NR52_clear e s index =
     (if index < 0xff26 then
        (case memoryWriter_sound e s index 0 of
           None \<Rightarrow> None
         | Some s1 \<Rightarrow> NR52_clear e s1 (index + 1))
      else Some s)"
  by pat_completeness auto
termination
  by (relation "measure (\<lambda>(e, s, index). nat (0xff26 - index))") auto

declare NR52_clear.simps [simp del]

definition NR52_write :: "env \<Rightarrow> core \<Rightarrow> int \<Rightarrow> core option" where
  "NR52_write e s0 data =
     (case audioJIT e s0 of
        None \<Rightarrow> None
      | Some s \<Rightarrow>
          if \<not> soundMasterEnabled s \<and> data > 0x7f then
            Some (initializeAudioStartState e
                    ((memory_set s 0xff26 0x80)\<lparr>soundMasterEnabled := True\<rparr>))
          else if soundMasterEnabled s \<and> data < 0x80 then
            NR52_clear e ((memory_set s 0xff26 0)\<lparr>soundMasterEnabled := False\<rparr>) 0xff10
          else Some s)"

text \<open>
  Wave RAM: the handlers at \<open>0xFF30\<close> to \<open>0xFF3F\<close> call \<open>channel3WriteRAM\<close> with the
  offset 0 to 15. \<open>channel3PCM\<close> is an \<open>Int8Array\<close>. The read handlers are the two
  closures that \<open>memoryReadJumpCompile\<close> installs for each of these addresses, the second
  one in the table of the \<open>0xFFxx\<close> fast path, which is called with the low byte.
\<close>

definition channel3WriteRAM :: "env \<Rightarrow> core \<Rightarrow> int \<Rightarrow> int \<Rightarrow> core option" where
  "channel3WriteRAM e s0 address data =
     map_option
       (\<lambda>s. let s = memory_set s (js_or 0xff30 address) data;
                 a = js_shl address 1
             in s\<lparr>channel3PCM :=
                    (channel3PCM s)(a := toInt8 (js_sar data 4),
                                    js_or a 1 := toInt8 (js_and data 0xf))\<rparr>)
       (if channel3canPlay s0 then audioJIT e s0 else Some s0)"

definition memoryWriter_waveRAM :: "env \<Rightarrow> core \<Rightarrow> int \<Rightarrow> int \<Rightarrow> core option" where
  "memoryWriter_waveRAM e s address data = channel3WriteRAM e s (address - 0xff30) data"

definition memoryReader_waveRAM :: "core \<Rightarrow> int \<Rightarrow> int" where
  "memoryReader_waveRAM s address =
     (if channel3canPlay s
      then memory s (js_or 0xff00 (js_sar (channel3lastSampleLookup s) 1))
      else memory s address)"

definition memoryHighReader_waveRAM :: "core \<Rightarrow> int \<Rightarrow> int" where
  "memoryHighReader_waveRAM s address =
     (if channel3canPlay s
      then memory s (js_or 0xff00 (js_sar (channel3lastSampleLookup s) 1))
      else memory s (js_or 0xff00 address))"


section \<open>Timer: DIV\<close>

text \<open>
  \<open>DIVTicks\<close> counts CPU cycles; \<open>memory[0xFF04]\<close> is the byte a read of DIV returns.
  The read handler first moves the whole increments of 256 cycles from \<open>DIVTicks\<close> into
  the byte, and returns the byte and the new state.
\<close>

definition memoryWriter_FF04 :: "core \<Rightarrow> int \<Rightarrow> int \<Rightarrow> core" where
  "memoryWriter_FF04 s address data =
     memory_set (s\<lparr>DIVTicks := js_and (DIVTicks s) 0xff\<rparr>) 0xff04 0"

definition memoryReader_FF04 :: "core \<Rightarrow> int \<Rightarrow> int \<times> core" where
  "memoryReader_FF04 s0 address =
     (let s = memory_set s0 0xff04
                (js_and (memory s0 0xff04 + js_sar (DIVTicks s0) 8) 0xff);
          s = s\<lparr>DIVTicks := js_and (DIVTicks s) 0xff\<rparr>
      in (memory s 0xff04, s))"

section \<open>Interrupt line and joypad\<close>

definition checkIRQMatching :: "core \<Rightarrow> core" where
  "checkIRQMatching s =
     (if IME s
      then s\<lparr>IRQLineMatched :=
               js_and (js_and (interruptsEnabled s) (interruptsRequested s)) 0x1f\<rparr>
      else s)"

text \<open>The class \<open>Joypad\<close>; its field \<open>value\<close> is \<open>joypad_value\<close>.\<close>

definition writeToMemory :: "core \<Rightarrow> core" where
  "writeToMemory s0 =
     (let s = memory_set s0 0xff00
                (js_and (memory s0 0xff00) 0x30 +
                 js_and (if js_and (memory s0 0xff00) 0x20 = 0
                         then js_sar (joypad_value s0) 4 else 0xf)
                        (if js_and (memory s0 0xff00) 0x10 = 0
                         then js_and (joypad_value s0) 0xf else 0xf))
      in s\<lparr>CPUStopped := False\<rparr>)"

definition down :: "core \<Rightarrow> int \<Rightarrow> core" where
  "down s0 key =
     (let s = s0\<lparr>joypad_value := js_and (joypad_value s0) (js_xor 0xff (js_shl 1 key))\<rparr>;
          s = (if (case cartridge s of None \<Rightarrow> False
                   | Some c \<Rightarrow> \<not> useGBCMode c \<and> (\<not> usedBootROM s \<or> \<not> usedGBCBootROM s))
               then checkIRQMatching
                      (s\<lparr>interruptsRequested := js_or (interruptsRequested s) 0x10,
                         remainingClocks := 0\<rparr>)
               else s)
      in writeToMemory s)"

definition up :: "core \<Rightarrow> int \<Rightarrow> core" where
  "up s key = writeToMemory (s\<lparr>joypad_value := js_or (joypad_value s) (js_shl 1 key)\<rparr>)"

definition memoryWriter_FF00 :: "core \<Rightarrow> int \<Rightarrow> int \<Rightarrow> core" where
  "memoryWriter_FF00 s address data =
     memory_set s 0xff00
       (js_or (js_and data 0x30)
              (js_and (if js_and data 0x20 = 0 then js_sar (joypad_value s) 4 else 0xf)
                      (if js_and data 0x10 = 0 then js_and (joypad_value s) 0xf else 0xf)))"

definition memoryReader_FF00 :: "core \<Rightarrow> int \<Rightarrow> int" where
  "memoryReader_FF00 s address = js_or 0xc0 (memory s 0xff00)"

section \<open>The iteration loop and STOP\<close>

text \<open>JavaScript's \<open>%\<close> takes the sign of the dividend.\<close>

definition js_rem :: "int \<Rightarrow> int \<Rightarrow> int" where
  "js_rem a b = sgn a * (\<bar>a\<bar> mod \<bar>b\<bar>)"

definition recalculateIterationClockLimit :: "core \<Rightarrow> core" where
  "recalculateIterationClockLimit s =
     (let endModulus = js_rem (cpu_cyclesTotalCurrent s) 4
      in s\<lparr>cpu_cyclesTotal := cpu_cyclesTotalBase s + cpu_cyclesTotalCurrent s - endModulus,
            cpu_cyclesTotalCurrent := endModulus\<rparr>)"

definition recalculateIterationClockLimitForAudio :: "core \<Rightarrow> int \<Rightarrow> core" where
  "recalculateIterationClockLimitForAudio s audioClocking =
     s\<lparr>cpu_cyclesTotal :=
         cpu_cyclesTotal s +
         min (js_shl (js_sar audioClocking 2) 2) (js_shl (cpu_cyclesTotalBase s) 1)\<rparr>"

text \<open>
  \<open>remainingBuffer\<close> is what the host's audio server answers; \<open>None\<close> is an answer that
  is not a number.
\<close>

definition audioUnderrunAdjustment :: "env \<Rightarrow> int option \<Rightarrow> core \<Rightarrow> core" where
  "audioUnderrunAdjustment e remainingBuffer s =
     (if \<not> soundOn (cfg e) then s
      else case remainingBuffer of
             None \<Rightarrow> s
           | Some r \<Rightarrow>
               (let underrunAmount = bufferContainAmount s - max r 0
                in if underrunAmount > 0
                   then recalculateIterationClockLimitForAudio s
                          (js_sar underrunAmount 1 * audioResamplerFirstPassFactor s)
                   else s))"

definition iterationEndRoutine :: "env \<Rightarrow> core \<Rightarrow> core option" where
  "iterationEndRoutine e s0 =
     (if js_and (stopEmulator s0) 0x1 = 0 then
        map_option
          (\<lambda>s. let s = memory_set s 0xff04
                          (js_and (memory s 0xff04 + js_sar (DIVTicks s) 8) 0xff);
                    s = s\<lparr>DIVTicks := js_and (DIVTicks s) 0xff\<rparr>;
                    s = s\<lparr>stopEmulator := js_or (stopEmulator s) 1\<rparr>;
                    s = s\<lparr>cpu_ticks := cpu_ticks s - cpu_cyclesTotal s\<rparr>;
                    s = s\<lparr>cpu_cyclesTotalCurrent :=
                            cpu_cyclesTotalCurrent s + cpu_cyclesTotalRoundoff s\<rparr>
                in recalculateIterationClockLimit s)
          (audioJIT e s0)
      else Some s0)"

definition handleSTOP :: "env \<Rightarrow> core \<Rightarrow> core option" where
  "handleSTOP e s0 =
     (case iterationEndRoutine e (s0\<lparr>CPUStopped := True\<rparr>) of
        None \<Rightarrow> None
      | Some s \<Rightarrow>
          if cpu_ticks s < 0
          then audioJIT e (s\<lparr>audioTicks := audioTicks s - cpu_ticks s\<rparr>)
          else Some s)"

text \<open>
  \<open>run\<close>. The branch taken while the CPU runs (the clock update of the cartridge, the
  interpreter loop or the HALT rundown, the draw request) is the parameter \<open>execute\<close>:
  the instruction tables are not among the sources. The last branch logs and calls the
  host's \<open>pause\<close>.
\<close>

definition run :: "env \<Rightarrow> int option \<Rightarrow> (core \<Rightarrow> core option) \<Rightarrow> core \<Rightarrow> core option" where
  "run e remainingBuffer execute s =
     (if js_and (stopEmulator s) 2 = 0 then
        (if js_and (stopEmulator s) 1 = 1 then
           (if \<not> CPUStopped s then
              execute (audioUnderrunAdjustment e remainingBuffer (s\<lparr>stopEmulator := 0\<rparr>))
            else
              (let s1 = audioUnderrunAdjustment e remainingBuffer s;
                   s2 = s1\<lparr>audioTicks := audioTicks s1 + cpu_cyclesTotal s1\<rparr>
               in map_option (\<lambda>s3. s3\<lparr>stopEmulator := js_or (stopEmulator s3) 1\<rparr>)
                    (audioJIT e s2)))
         else Some s)
      else Some s)"

section \<open>OAM and VRAM as the CPU sees them\<close>

definition memoryReadOAM :: "core \<Rightarrow> int \<Rightarrow> int" where
  "memoryReadOAM s address = (if modeSTAT s > 1 then 0xff else memory s address)"

definition VRAMDATAReadCGBCPU :: "core \<Rightarrow> int \<Rightarrow> int" where
  "VRAMDATAReadCGBCPU s address =
     (if modeSTAT s > 2 then 0xff
      else if currVRAMBank s = 0 then memory s address
      else VRAM s (js_and address 0x1fff))"

definition VRAMDATAReadDMGCPU :: "core \<Rightarrow> int \<Rightarrow> int" where
  "VRAMDATAReadDMGCPU s address = (if modeSTAT s > 2 then 0xff else memory s address)"

definition BGCHRCurrentBank_get :: "core \<Rightarrow> int \<Rightarrow> int" where
  "BGCHRCurrentBank_get s i =
     (case BGCHRCurrentBank s of Bank1 \<Rightarrow> BGCHRBank1 s i | Bank2 \<Rightarrow> BGCHRBank2 s i)"

definition BGCHRCurrentBank_set :: "core \<Rightarrow> int \<Rightarrow> int \<Rightarrow> core" where
  "BGCHRCurrentBank_set s i v =
     (case BGCHRCurrentBank s of
        Bank1 \<Rightarrow> s\<lparr>BGCHRBank1 := (BGCHRBank1 s)(i := toUint8 v)\<rparr>
      | Bank2 \<Rightarrow> s\<lparr>BGCHRBank2 := (BGCHRBank2 s)(i := toUint8 v)\<rparr>)"

definition VRAMCHRReadCGBCPU :: "core \<Rightarrow> int \<Rightarrow> int" where
  "VRAMCHRReadCGBCPU s address =
     (if modeSTAT s > 2 then 0xff else BGCHRCurrentBank_get s (js_and address 0x7ff))"

definition VRAMCHRReadDMGCPU :: "core \<Rightarrow> int \<Rightarrow> int" where
  "VRAMCHRReadDMGCPU s address =
     (if modeSTAT s > 2 then 0xff else BGCHRBank1 s (js_and address 0x7ff))"

text \<open>
  The entries of \<open>memoryReader\<close> for \<open>0x8000\<close> to \<open>0x9FFF\<close>, as
  \<open>memoryReadJumpCompile\<close> fills them.
\<close>

definition memoryReader_VRAM :: "core \<Rightarrow> int \<Rightarrow> int" where
  "memoryReader_VRAM s address =
     (if address < 0x9800
      then (if useGBCMode (cartridgeSlot s) then VRAMDATAReadCGBCPU s address
            else VRAMDATAReadDMGCPU s address)
      else (if useGBCMode (cartridgeSlot s) then VRAMCHRReadCGBCPU s address
            else VRAMCHRReadDMGCPU s address))"

text \<open>
  The tile cache: one array of 64 bytes for each tile. The line generators decode the
  two bytes of a tile line into eight pixels; the variants for the sprite-visible range
  and for the Color banks also store the three flipped copies.
\<close>

definition tileCache_set :: "core \<Rightarrow> int \<Rightarrow> int \<Rightarrow> int \<Rightarrow> core" where
  "tileCache_set s t i v = s\<lparr>tileCache := (tileCache s)(t := (tileCache s t)(i := toUint8 v))\<rparr>"

definition tilePixel :: "int \<Rightarrow> int \<Rightarrow> int" where
  "tilePixel lineCopy k =
     js_or (js_sar (js_and lineCopy (js_shl 0x100 k)) (7 + k))
           (js_sar (js_and lineCopy (js_shl 0x1 k)) k)"

definition generateGBTileLine :: "core \<Rightarrow> int \<Rightarrow> core" where
  "generateGBTileLine s0 address =
     (let lineCopy = js_or (js_shl (memory s0 (js_or 0x1 address)) 8)
                           (memory s0 (js_and 0x9ffe address));
          t = js_sar (js_and address 0x1ff0) 4;
          a = js_shl (js_and address 0xe) 2;
          s = s0;
          s = tileCache_set s t (js_or a 7) (tilePixel lineCopy 0);
          s = tileCache_set s t (js_or a 6) (tilePixel lineCopy 1);
          s = tileCache_set s t (js_or a 5) (tilePixel lineCopy 2);
          s = tileCache_set s t (js_or a 4) (tilePixel lineCopy 3);
          s = tileCache_set s t (js_or a 3) (tilePixel lineCopy 4);
          s = tileCache_set s t (js_or a 2) (tilePixel lineCopy 5);
          s = tileCache_set s t (js_or a 1) (tilePixel lineCopy 6);
          s = tileCache_set s t a (tilePixel lineCopy 7)
      in s)"

definition tileLineStore4 :: "core \<Rightarrow> int \<Rightarrow> int \<Rightarrow> int \<Rightarrow> int \<Rightarrow> int \<Rightarrow> int \<Rightarrow> core" where
  "tileLineStore4 s0 lineCopy t1 t2 t3 t4 a =
     (let af = 0x38 - a;
          s = s0;
          s = tileCache_set s t1 (js_or a 7) (tilePixel lineCopy 0);
          s = tileCache_set s t3 (js_or af 7) (tilePixel lineCopy 0);
          s = tileCache_set s t2 a (tilePixel lineCopy 0);
          s = tileCache_set s t4 af (tilePixel lineCopy 0);
          s = tileCache_set s t1 (js_or a 6) (tilePixel lineCopy 1);
          s = tileCache_set s t3 (js_or af 6) (tilePixel lineCopy 1);
          s = tileCache_set s t2 (js_or a 1) (tilePixel lineCopy 1);
          s = tileCache_set s t4 (js_or af 1) (tilePixel lineCopy 1);
          s = tileCache_set s t1 (js_or a 5) (tilePixel lineCopy 2);
          s = tileCache_set s t3 (js_or af 5) (tilePixel lineCopy 2);
          s = tileCache_set s t2 (js_or a 2) (tilePixel lineCopy 2);
          s = tileCache_set s t4 (js_or af 2) (tilePixel lineCopy 2);
          s = tileCache_set s t1 (js_or a 4) (tilePixel lineCopy 3);
          s = tileCache_set s t3 (js_or af 4) (tilePixel lineCopy 3);
          s = tileCache_set s t2 (js_or a 3) (tilePixel lineCopy 3);
          s = tileCache_set s t4 (js_or af 3) (tilePixel lineCopy 3);
          s = tileCache_set s t1 (js_or a 3) (tilePixel lineCopy 4);
          s = tileCache_set s t3 (js_or af 3) (tilePixel lineCopy 4);
          s = tileCache_set s t2 (js_or a 4) (tilePixel lineCopy 4);
          s = tileCache_set s t4 (js_or af 4) (tilePixel lineCopy 4);
          s = tileCache_set s t1 (js_or a 2) (tilePixel lineCopy 5);
          s = tileCache_set s t3 (js_or af 2) (tilePixel lineCopy 5);
          s = tileCache_set s t2 (js_or a 5) (tilePixel lineCopy 5);
          s = tileCache_set s t4 (js_or af 5) (tilePixel lineCopy 5);
          s = tileCache_set s t1 (js_or a 1) (tilePixel lineCopy 6);
          s = tileCache_set s t3 (js_or af 1) (tilePixel lineCopy 6);
          s = tileCache_set s t2 (js_or a 6) (tilePixel lineCopy 6);
          s = tileCache_set s t4 (js_or af 6) (tilePixel lineCopy 6);
          s = tileCache_set s t1 a (tilePixel lineCopy 7);
          s = tileCache_set s t3 af (tilePixel lineCopy 7);
          s = tileCache_set s t2 (js_or a 7) (tilePixel lineCopy 7);
          s = tileCache_set s t4 (js_or af 7) (tilePixel lineCopy 7)
      in s)"

definition generateGBCTileLineBank1 :: "core \<Rightarrow> int \<Rightarrow> core" where
  "generateGBCTileLineBank1 s address0 =
     (let lineCopy = js_or (js_shl (memory s (js_or 0x1 address0)) 8)
                           (memory s (js_and 0x9ffe address0));
          address = js_and address0 0x1ffe
      in tileLineStore4 s lineCopy (js_sar address 4) (js_or 0x200 (js_sar address 4))
           (js_or 0x400 (js_sar address 4)) (js_or 0x600 (js_sar address 4))
           (js_shl (js_and address 0xe) 2))"

definition generateGBCTileLineBank2 :: "core \<Rightarrow> int \<Rightarrow> core" where
  "generateGBCTileLineBank2 s address =
     (let lineCopy = js_or (js_shl (VRAM s (js_or 0x1 address)) 8)
                           (VRAM s (js_and 0x1ffe address))
      in tileLineStore4 s lineCopy (js_or 0x800 (js_sar address 4))
           (js_or 0xa00 (js_sar address 4)) (js_or 0xc00 (js_sar address 4))
           (js_or 0xe00 (js_sar address 4)) (js_shl (js_and address 0xe) 2))"

definition generateGBOAMTileLine :: "core \<Rightarrow> int \<Rightarrow> core" where
  "generateGBOAMTileLine s address0 =
     (let lineCopy = js_or (js_shl (memory s (js_or 0x1 address0)) 8)
                           (memory s (js_and 0x9ffe address0));
          address = js_and address0 0x1ffe
      in tileLineStore4 s lineCopy (js_sar address 4) (js_or 0x200 (js_sar address 4))
           (js_or 0x400 (js_sar address 4)) (js_or 0x600 (js_sar address 4))
           (js_shl (js_and address 0xe) 2))"

text \<open>
  The write handlers. Each renders the queued scan lines before it changes a byte
  (\<open>graphicsJIT\<close>); the scan-line renderer is not part of this model and is passed in as
  the parameter \<open>jit\<close>, an arbitrary transformer of the core.
\<close>

definition memoryWriteOAMRAM :: "(core \<Rightarrow> core) \<Rightarrow> core \<Rightarrow> int \<Rightarrow> int \<Rightarrow> core" where
  "memoryWriteOAMRAM jit s address data =
     (if modeSTAT s < 2 then
        (if memory s address \<noteq> data then memory_set (jit s) address data else s)
      else s)"

definition VRAMGBDATAWrite :: "(core \<Rightarrow> core) \<Rightarrow> core \<Rightarrow> int \<Rightarrow> int \<Rightarrow> core" where
  "VRAMGBDATAWrite jit s address data =
     (if modeSTAT s < 3 then
        (if memory s address \<noteq> data
         then generateGBOAMTileLine (memory_set (jit s) address data) address else s)
      else s)"

definition VRAMGBDATAUpperWrite :: "(core \<Rightarrow> core) \<Rightarrow> core \<Rightarrow> int \<Rightarrow> int \<Rightarrow> core" where
  "VRAMGBDATAUpperWrite jit s address data =
     (if modeSTAT s < 3 then
        (if memory s address \<noteq> data
         then generateGBTileLine (memory_set (jit s) address data) address else s)
      else s)"

definition VRAMGBCDATAWrite :: "(core \<Rightarrow> core) \<Rightarrow> core \<Rightarrow> int \<Rightarrow> int \<Rightarrow> core" where
  "VRAMGBCDATAWrite jit s address0 data =
     (if modeSTAT s < 3 then
        (if currVRAMBank s = 0 then
           (if memory s address0 \<noteq> data
            then generateGBCTileLineBank1 (memory_set (jit s) address0 data) address0 else s)
         else
           (let address = js_and address0 0x1fff
            in if VRAM s address \<noteq> data
               then (let s1 = jit s
                     in generateGBCTileLineBank2
                          (s1\<lparr>VRAM := (VRAM s1)(address := toUint8 data)\<rparr>) address)
               else s))
      else s)"

definition VRAMGBCHRMAPWrite :: "(core \<Rightarrow> core) \<Rightarrow> core \<Rightarrow> int \<Rightarrow> int \<Rightarrow> core" where
  "VRAMGBCHRMAPWrite jit s address0 data =
     (if modeSTAT s < 3 then
        (let address = js_and address0 0x7ff
         in if BGCHRBank1 s address \<noteq> data
            then (let s1 = jit s
                  in s1\<lparr>BGCHRBank1 := (BGCHRBank1 s1)(address := toUint8 data)\<rparr>)
            else s)
      else s)"

definition VRAMGBCCHRMAPWrite :: "(core \<Rightarrow> core) \<Rightarrow> core \<Rightarrow> int \<Rightarrow> int \<Rightarrow> core" where
  "VRAMGBCCHRMAPWrite jit s address0 data =
     (if modeSTAT s < 3 then
        (let address = js_and address0 0x7ff
         in if BGCHRCurrentBank_get s address \<noteq> data
            then BGCHRCurrentBank_set (jit s) address data
            else s)
      else s)"

text \<open>
  The entries of \<open>memoryWriter\<close> for \<open>0x8000\<close> to \<open>0x9FFF\<close>, as
  \<open>memoryWriteJumpCompile\<close> fills them.
\<close>

definition memoryWriter_VRAM :: "(core \<Rightarrow> core) \<Rightarrow> core \<Rightarrow> int \<Rightarrow> int \<Rightarrow> core" where
  "memoryWriter_VRAM jit s address data =
     (if address < 0x9000
      then (if useGBCMode (cartridgeSlot s) then VRAMGBCDATAWrite jit s address data
            else VRAMGBDATAWrite jit s address data)
      else if address < 0x9800
      then (if useGBCMode (cartridgeSlot s) then VRAMGBCDATAWrite jit s address data
            else VRAMGBDATAUpperWrite jit s address data)
      else (if useGBCMode (cartridgeSlot s) then VRAMGBCCHRMAPWrite jit s address data
            else VRAMGBCHRMAPWrite jit s address data))"

section \<open>Loading the ROM\<close>

text \<open>
  \<open>parseROM\<close> (called by \<open>connect\<close>). It throws on a ROM shorter than one bank; the
  error value carries the core as the exception leaves it. With a boot ROM in use the
  body is commented out in the source and nothing is copied.
\<close>

datatype error = Error string

function parseROM_copy :: "ROM \<Rightarrow> int \<Rightarrow> core \<Rightarrow> core" where
  "parseROM_copy r romIndex s =
     (if romIndex < 0x4000
      then parseROM_copy r (romIndex + 1)
             (memory_set s romIndex (js_and (getByte r romIndex) 0xff))
      else s)"
  by pat_completeness auto
termination
  by (relation "measure (\<lambda>(r, romIndex, s). nat (0x4000 - romIndex))") auto

declare parseROM_copy.simps [simp del]

definition parseROM :: "settings \<Rightarrow> cartridge \<Rightarrow> core \<Rightarrow> (error \<times> core) + core" where
  "parseROM st c s0 =
     (let s = s0\<lparr>usedBootROM :=
                   (bootBootRomFirst st \<and>
                    ((\<not> forceGBBootRom st \<and> int (length (GBCBOOTROM s0)) = 0x800) \<or>
                     (forceGBBootRom st \<and> int (length (GBBOOTROM s0)) = 0x100)))\<rparr>
      in if length_rom (rom c) < 0x4000 then Inl (Error ''ROM size too small.'', s)
         else if usedBootROM s then Inr s
         else Inr (parseROM_copy (rom c) 0 s))"


section \<open>Example states\<close>

text \<open>
  Concrete inputs on which the theorems below are exercised: a ROM of two banks whose
  cartridge-type byte is \<open>0x04\<close>, a value the switch of \<open>setTypeName\<close> does not list,
  a core with every field zero, and the core as it stands after power-on with sound
  enabled and a monochrome cartridge in the slot.
\<close>

definition emptyROM :: ROM where
  "emptyROM = \<lparr> length_rom = 0, getByte = (\<lambda>i. 0), getString = (\<lambda>a b. []) \<rparr>"

definition unknownTypeROM :: ROM where
  "unknownTypeROM =
     \<lparr> length_rom = 0x8000, getByte = (\<lambda>i. if i = 0x147 then 0x04 else 0),
       getString = (\<lambda>a b. []) \<rparr>"

definition exampleSettings :: settings where
  "exampleSettings =
     \<lparr> soundOn = True, enabledChannels = [True, True, True, True], bootBootRomFirst = False,
       forceGBBootRom = False, gbHasPriority = False, enableMBC1Override = False \<rparr>"

definition exampleEnv :: env where
  "exampleEnv =
     \<lparr> cfg = exampleSettings,
       dutyLookup = (\<lambda>i. if i = 0 then [False, False, False, False, False, False, False, True]
                          else if i = 1 then [True, False, False, False, False, False, False, True]
                          else if i = 2 then [True, False, False, False, False, True, True, True]
                          else [False, True, True, True, True, True, True, False]) \<rparr>"

definition zeroCore :: core where
  "zeroCore =
     \<lparr> memory = (\<lambda>i. 0), cartridge = None,
       cartridgeSlot = newCartridge emptyROM, usedBootROM = False, usedGBCBootROM = False,
       GBBOOTROM = [], GBCBOOTROM = [], stopEmulator = 0, CPUStopped = False,
       cpu_ticks = 0, cpu_cyclesTotal = 0, cpu_cyclesTotalBase = 0,
       cpu_cyclesTotalCurrent = 0, cpu_cyclesTotalRoundoff = 0, DIVTicks = 0, IME = False,
       interruptsRequested = 0, interruptsEnabled = 0, IRQLineMatched = 0,
       remainingClocks = 0, joypad_value = 0, modeSTAT = 0, currVRAMBank = 0,
       VRAM = (\<lambda>i. 0), BGCHRBank1 = (\<lambda>i. 0), BGCHRBank2 = (\<lambda>i. 0),
       BGCHRCurrentBank = Bank1, tileCache = (\<lambda>t i. 0), soundMasterEnabled = False,
       audioTicks = 0, audioIndex = 0, downsampleInput = 0, audioDestinationPosition = 0,
       audioResamplerFirstPassFactor = 0, downSampleInputDivider = 0, numSamplesTotal = 0,
       bufferContainAmount = 0, audioBuffer = (\<lambda>i. 0), audioServer = [],
       channel1FrequencyTracker = 0, channel1DutyTracker = 0, channel1CachedDuty = [],
       channel1totalLength = 0, channel1envelopeVolume = 0, channel1envelopeType = False,
       channel1envelopeSweeps = 0, channel1envelopeSweepsLast = 0,
       channel1consecutive = False, channel1frequency = 0, channel1SweepFault = False,
       channel1ShadowFrequency = 0, channel1timeSweep = 0, channel1lastTimeSweep = 0,
       channel1Swept = False, channel1frequencySweepDivider = 0,
       channel1decreaseSweep = False, channel2FrequencyTracker = 0,
       channel2DutyTracker = 0, channel2CachedDuty = [], channel2totalLength = 0,
       channel2envelopeVolume = 0, channel2envelopeType = False,
       channel2envelopeSweeps = 0, channel2envelopeSweepsLast = 0,
       channel2consecutive = False, channel2frequency = 0, channel3canPlay = False,
       channel3totalLength = 0, channel3patternType = 0, channel3frequency = 0,
       channel3consecutive = False, channel3Counter = 0, channel3PCM = (\<lambda>i. 0),
       channel4FrequencyPeriod = 0, channel4totalLength = 0, channel4envelopeVolume = 0,
       channel4currentVolume = 0, channel4envelopeType = False, channel4envelopeSweeps = 0,
       channel4envelopeSweepsLast = 0, channel4consecutive = False, channel4BitRange = 0,
       noiseSampleTable = LSFR15, channel4VolumeShifter = 0, channel1FrequencyCounter = 0,
       channel2FrequencyCounter = 0, channel3FrequencyPeriod = 0,
       channel3lastSampleLookup = 0, channel4lastSampleLookup = 0,
       VinLeftChannelMasterVolume = 0, VinRightChannelMasterVolume = 0,
       mixerOutputCache = 0, sequencerClocks = 0, sequencePosition = 0,
       channel4Counter = 0, cachedChannel3Sample = 0, cachedChannel4Sample = 0,
       channel1Enabled = False, channel2Enabled = False, channel3Enabled = False,
       channel4Enabled = False, channel1canPlay = False, channel2canPlay = False,
       channel4canPlay = False, audioClocksUntilNextEvent = 0,
       audioClocksUntilNextEventCounter = 0, leftChannel1 = False, leftChannel2 = False,
       leftChannel3 = False, leftChannel4 = False, rightChannel1 = False,
       rightChannel2 = False, rightChannel3 = False, rightChannel4 = False,
       channel1currentSampleLeft = 0, channel1currentSampleRight = 0,
       channel1currentSampleLeftSecondary = 0, channel1currentSampleRightSecondary = 0,
       channel1currentSampleLeftTrimary = 0, channel1currentSampleRightTrimary = 0,
       channel2currentSampleLeft = 0, channel2currentSampleRight = 0,
       channel2currentSampleLeftSecondary = 0, channel2currentSampleRightSecondary = 0,
       channel2currentSampleLeftTrimary = 0, channel2currentSampleRightTrimary = 0,
       channel3currentSampleLeft = 0, channel3currentSampleRight = 0,
       channel3currentSampleLeftSecondary = 0, channel3currentSampleRightSecondary = 0,
       channel4currentSampleLeft = 0, channel4currentSampleRight = 0,
       channel4currentSampleLeftSecondary = 0,
       channel4currentSampleRightSecondary = 0 \<rparr>"

definition exampleCore :: core where
  "exampleCore =
     initializeAudioStartState exampleEnv
       (zeroCore\<lparr>cartridge := Some (newCartridge emptyROM), stopEmulator := 1,
                 cpu_cyclesTotal := 33552, cpu_cyclesTotalBase := 33552, IME := True,
                 interruptsEnabled := 0x1f, joypad_value := 0xff, soundMasterEnabled := True,
                 audioResamplerFirstPassFactor := 95, downSampleInputDivider := 1 / 22800,
                 numSamplesTotal := 706, bufferContainAmount := 8192\<rparr>)"

text \<open>
  States for the single subsystems: channel 3 playing at sample 4 with distinct bytes
  in wave RAM and in the serial control register; DIV at \<open>0x55\<close>; a monochrome and a
  Color cartridge with no key held; the display in mode 3 and in mode 2.
\<close>

definition waveCore :: core where
  "waveCore =
     zeroCore\<lparr>memory := (\<lambda>i. 0)(0xff02 := 0x7e, 0xff32 := 0xab), channel3canPlay := True,
               channel3lastSampleLookup := 4\<rparr>"

definition divCore :: core where
  "divCore = zeroCore\<lparr>memory := (\<lambda>i. 0)(0xff04 := 0x55), DIVTicks := 0x34\<rparr>"

definition joypadCore :: core where
  "joypadCore =
     zeroCore\<lparr>cartridge := Some (newCartridge emptyROM), IME := True,
               interruptsEnabled := 0x1f, joypad_value := 0xff\<rparr>"

definition cgbCore :: core where
  "cgbCore = joypadCore\<lparr>cartridge := Some ((newCartridge emptyROM)\<lparr>useGBCMode := True\<rparr>)\<rparr>"

definition drawCore :: core where
  "drawCore = zeroCore\<lparr>modeSTAT := 3\<rparr>"

definition searchCore :: core where
  "searchCore = zeroCore\<lparr>modeSTAT := 2\<rparr>"

text \<open>
  States of the audio unit, all made from \<open>exampleCore\<close>: the sweep unit of channel 1 in
  negate mode after a sweep, with 100 clocks of audio pending; the CPU stopped; the master
  switch off, on a monochrome and on a Color cartridge.
\<close>

definition sweepCore :: core where
  "sweepCore = exampleCore\<lparr>audioTicks := 100, channel1Swept := True, channel1decreaseSweep := True\<rparr>"

definition frozenCore :: core where
  "frozenCore = exampleCore\<lparr>CPUStopped := True\<rparr>"

definition offCore :: core where
  "offCore = exampleCore\<lparr>soundMasterEnabled := False\<rparr>"

definition offColorCore :: core where
  "offColorCore = offCore\<lparr>cartridgeSlot := (newCartridge emptyROM)\<lparr>useGBCMode := True\<rparr>\<rparr>"

section \<open>Views used in the proofs\<close>

text \<open>
  What the write handlers of OAM and VRAM need of the scan-line renderer for a byte
  written to be read back: it leaves the mode, the VRAM bank selection and the cartridge
  alone.
\<close>

definition lcdFrame :: "(core \<Rightarrow> core) \<Rightarrow> bool" where
  "lcdFrame jit =
     (\<forall>s. modeSTAT (jit s) = modeSTAT s \<and> currVRAMBank (jit s) = currVRAMBank s \<and>
          cartridgeSlot (jit s) = cartridgeSlot s \<and>
          BGCHRCurrentBank (jit s) = BGCHRCurrentBank s)"


text \<open>The fields behind the CPU-side handlers of OAM and VRAM.\<close>

definition lcdView ::
  "core \<Rightarrow> (int \<Rightarrow> int) \<times> (int \<Rightarrow> int) \<times> (int \<Rightarrow> int) \<times> (int \<Rightarrow> int) \<times> bankRef \<times> int \<times> int \<times>
     cartridge" where
  "lcdView s =
     (memory s, VRAM s, BGCHRBank1 s, BGCHRBank2 s, BGCHRCurrentBank s, modeSTAT s,
      currVRAMBank s, cartridgeSlot s)"

text \<open>
  Four groups of fields of the audio unit: the resampler and its output; the event
  counters; the sweep unit of channel 1; and what sample generation never changes.
  \<open>viewCPU\<close> is what the CPU sees outside the audio unit.
\<close>

definition viewRes :: "core \<Rightarrow> int \<times> int \<times> rat list" where
  "viewRes s = (audioIndex s, audioDestinationPosition s, audioServer s)"

definition viewClk :: "core \<Rightarrow> int \<times> int \<times> int \<times> int \<times> int \<times> int \<times> int" where
  "viewClk s =
     (sequencerClocks s, audioClocksUntilNextEvent s, audioClocksUntilNextEventCounter s,
      channel1FrequencyCounter s, channel2FrequencyCounter s, channel3Counter s,
      channel4Counter s)"

definition viewSwp :: "core \<Rightarrow> int \<times> int \<times> bool \<times> bool \<times> int" where
  "viewSwp s =
     (channel1FrequencyTracker s, channel1ShadowFrequency s, channel1SweepFault s,
      channel1Swept s, channel1timeSweep s)"

definition viewCfg ::
  "core \<Rightarrow> int \<times> int \<times> int \<times> int \<times> int \<times> bool \<times> bool \<times> int \<times> bool \<times> int \<times> int \<times> cartridge" where
  "viewCfg s =
     (audioResamplerFirstPassFactor s, numSamplesTotal s, channel2FrequencyTracker s,
      channel3FrequencyPeriod s, channel4FrequencyPeriod s, soundMasterEnabled s,
      CPUStopped s, stopEmulator s, channel1decreaseSweep s,
      channel1frequencySweepDivider s, channel1lastTimeSweep s, cartridgeSlot s)"

definition viewCPU ::
  "core \<Rightarrow> (int \<Rightarrow> int) \<times> int \<times> bool \<times> int \<times> int \<times> int \<times> int \<times> cartridge option" where
  "viewCPU s =
     (memory s, DIVTicks s, IME s, interruptsRequested s, interruptsEnabled s,
      IRQLineMatched s, joypad_value s, cartridge s)"

definition viewAll ::
  "core \<Rightarrow> (int \<times> int \<times> rat list) \<times> (int \<times> int \<times> int \<times> int \<times> int \<times> int \<times> int) \<times>
     (int \<times> int \<times> bool \<times> bool \<times> int) \<times>
     (int \<times> int \<times> int \<times> int \<times> int \<times> bool \<times> bool \<times> int \<times> bool \<times> int \<times> int \<times> cartridge)" where
  "viewAll s = (viewRes s, viewClk s, viewSwp s, viewCfg s)"

text \<open>
  The number of samples handed to the host or waiting in the buffer; a stereo pair is
  two of them.
\<close>

definition samplesEmitted :: "core \<Rightarrow> int" where
  "samplesEmitted s = int (length (audioServer s)) + audioDestinationPosition s"

text \<open>
  The states in which sample generation is known to return. The resampler is aligned
  below its factor and the output position is an even index inside a buffer of even
  length; the counters have not run past the next event and reload with positive
  periods; the sweep unit holds a frequency in range unless it has faulted.
\<close>

definition resampleInv :: "core \<Rightarrow> bool" where
  "resampleInv s =
     (1 \<le> audioResamplerFirstPassFactor s \<and> 0 \<le> audioIndex s \<and>
      audioIndex s < audioResamplerFirstPassFactor s \<and> 0 \<le> audioDestinationPosition s \<and>
      audioDestinationPosition s < numSamplesTotal s \<and> even (audioDestinationPosition s) \<and>
      even (numSamplesTotal s))"

definition clockInv :: "core \<Rightarrow> bool" where
  "clockInv s =
     (0 < sequencerClocks s \<and> 0 < audioClocksUntilNextEventCounter s \<and>
      audioClocksUntilNextEvent s \<le> channel1FrequencyCounter s \<and>
      audioClocksUntilNextEvent s \<le> channel2FrequencyCounter s \<and>
      audioClocksUntilNextEvent s \<le> channel3Counter s \<and>
      audioClocksUntilNextEvent s \<le> channel4Counter s \<and>
      0 < channel2FrequencyTracker s \<and> 0 < channel3FrequencyPeriod s \<and>
      0 < channel4FrequencyPeriod s)"

definition sweepInv :: "core \<Rightarrow> bool" where
  "sweepInv s =
     (0 < channel1FrequencyTracker s \<and>
      (channel1SweepFault s \<or>
       (0 \<le> channel1ShadowFrequency s \<and> channel1ShadowFrequency s \<le> 0x7ff)))"

definition audioInv :: "core \<Rightarrow> bool" where
  "audioInv s = (resampleInv s \<and> clockInv s \<and> sweepInv s)"

text \<open>
  \<open>resampled s n s'\<close>: the state \<open>s'\<close> is what the resampler makes of \<open>s\<close> in \<open>n\<close> clocks.
\<close>

definition resampled :: "core \<Rightarrow> int \<Rightarrow> core \<Rightarrow> bool" where
  "resampled s n s' =
     (resampleInv s' \<and>
      audioIndex s' = (audioIndex s + n) mod audioResamplerFirstPassFactor s \<and>
      samplesEmitted s' =
        samplesEmitted s + 2 * ((audioIndex s + n) div audioResamplerFirstPassFactor s) \<and>
      viewCfg s' = viewCfg s)"

text \<open>
  The state with the sample caches of the mixer blanked: two states equal under
  \<open>withoutMixerCaches\<close> differ at most in these caches.
\<close>

definition withoutMixerCaches :: "core \<Rightarrow> core" where
  "withoutMixerCaches s =
     s\<lparr>channel1currentSampleLeftSecondary := 0, channel1currentSampleRightSecondary := 0,
       channel1currentSampleLeftTrimary := 0, channel1currentSampleRightTrimary := 0,
       channel2currentSampleLeftSecondary := 0, channel2currentSampleRightSecondary := 0,
       channel2currentSampleLeftTrimary := 0, channel2currentSampleRightTrimary := 0,
       channel3currentSampleLeftSecondary := 0, channel3currentSampleRightSecondary := 0,
       channel4currentSampleLeftSecondary := 0, channel4currentSampleRightSecondary := 0,
       mixerOutputCache := 0\<rparr>"

text \<open>The cartridge fields that \<open>setupRAM\<close> reads.\<close>

definition ramFlags :: "cartridge \<Rightarrow> bool \<times> bool \<times> bool \<times> bool \<times> bool \<times> bool \<times> bool \<times> rat" where
  "ramFlags c = (hasMBC1 c, hasMBC2 c, hasMBC3 c, hasMBC5 c, cRUMBLE c, cHuC3 c, hasSRAM c,
     numRAMBanks c)"

section \<open>Properties\<close>

subsection \<open>Cartridge RAM and cartridge types\<close>


lemma setupRAM_allocated:
  "allocatedRamBytes (setupRAM ld c) =
     (if hasMBC2 c then 0x200
      else if hasMBC1 c \<or> cRUMBLE c \<or> hasMBC3 c \<or> cHuC3 c then 0x8000
      else if hasMBC5 c then 0x20000
      else if hasSRAM c then 0x2000
      else numRAMBanks c * 0x2000)"
  by (simp add: setupRAM_def Let_def split: option.split)

lemma setupRAM_MBCRam_length:
  "length (MBCRam (setupRAM None c)) =
     (if 0 < allocatedRamBytes (setupRAM None c)
      then nat \<lfloor>allocatedRamBytes (setupRAM None c)\<rfloor> else length (MBCRam c))"
  by (simp add: setupRAM_def Let_def zero_less_mult_iff)

lemma setTypeName_switch_MBCRam: "MBCRam (setTypeName_switch st c) = MBCRam c"
  by (simp add: setTypeName_switch_def Let_def)

lemma setTypeName_switch_unknown:
  "typeByte c = 0x04 \<Longrightarrow> setTypeName_switch st c = c\<lparr>typeName := ''Unknown''\<rparr>"
  by (simp add: setTypeName_switch_def)

lemma setTypeName_flags: "ramFlags (setTypeName st c) = ramFlags (setTypeName_switch st c)"
  by (simp add: setTypeName_def ramFlags_def Let_def)

lemma header_steps_flags:
  "ramFlags (interpretHeader_license c) = ramFlags c"
  "ramFlags (interpretHeader_setMode st ub ugb c) = ramFlags c"
  "ramFlags (interpretHeader_sizes c) = ramFlags c"
  by (simp_all add: ramFlags_def interpretHeader_license_def interpretHeader_setMode_def
      interpretHeader_sizes_def Let_def)

lemma header_steps_MBCRam:
  "MBCRam (interpretHeader_license c) = MBCRam c"
  "MBCRam (interpretHeader_setMode st ub ugb c) = MBCRam c"
  "MBCRam (interpretHeader_sizes c) = MBCRam c"
  "MBCRam (setTypeName st c) = MBCRam (setTypeName_switch st c)"
  "MBCRam (interpretHeader_fields c) = MBCRam c"
  by (simp_all add: interpretHeader_license_def interpretHeader_setMode_def
      interpretHeader_sizes_def interpretHeader_fields_def setTypeName_def Let_def)

lemma header_steps_typeName:
  "typeName (interpretHeader_license c) = typeName c"
  "typeName (interpretHeader_setMode st ub ugb c) = typeName c"
  "typeName (interpretHeader_sizes c) = typeName c"
  "typeName (setTypeName st c) = typeName (setTypeName_switch st c)"
  by (simp_all add: interpretHeader_license_def interpretHeader_setMode_def
      interpretHeader_sizes_def setTypeName_def Let_def)

lemma header_steps_mbc:
  "mbc (interpretHeader_license c) = mbc c"
  "mbc (interpretHeader_setMode st ub ugb c) = mbc c"
  "mbc (interpretHeader_sizes c) = mbc c"
  by (simp_all add: interpretHeader_license_def interpretHeader_setMode_def
      interpretHeader_sizes_def Let_def)

lemma ramFlags_interpretHeader:
  "ramFlags (interpretHeader st ub ugb c0) =
   ramFlags (setTypeName_switch st (interpretHeader_fields c0))"
  by (simp add: interpretHeader_def header_steps_flags setTypeName_flags)


lemma specRamBytes_switch:
  assumes "ramFlags c = (False, False, False, False, False, False, False, 0)"
  shows "specRamBytes (setTypeName_switch st c) =
     (if hasMBC2 (setTypeName_switch st c) then 0x200
      else if hasMBC1 (setTypeName_switch st c) \<or> cRUMBLE (setTypeName_switch st c) \<or>
              hasMBC3 (setTypeName_switch st c) \<or> cHuC3 (setTypeName_switch st c) then 0x8000
      else if hasMBC5 (setTypeName_switch st c) then 0x20000
      else if hasSRAM (setTypeName_switch st c) then 0x2000
      else numRAMBanks (setTypeName_switch st c) * 0x2000)"
  using assms
  by (simp add: setTypeName_switch_def specRamBytes_def Let_def ramFlags_def)

lemma ramFlags_switch_typeByte:
  assumes "ramFlags c = ramFlags c'" and "typeByte c = typeByte c'"
  shows "ramFlags (setTypeName_switch st c) = ramFlags (setTypeName_switch st' c')"
  using assms by (simp add: setTypeName_switch_def Let_def ramFlags_def)

lemma setupRAM_allocated_flags:
  "ramFlags c = ramFlags c' \<Longrightarrow>
   allocatedRamBytes (setupRAM ld c) = allocatedRamBytes (setupRAM ld' c')"
  by (simp add: setupRAM_allocated ramFlags_def)

lemma specRamBytes_flags: "ramFlags c = ramFlags c' \<Longrightarrow> specRamBytes c = specRamBytes c'"
  by (simp add: specRamBytes_def ramFlags_def)

lemma ramFlags_fields_new:
  "ramFlags (interpretHeader_fields (newCartridge r)) =
     (False, False, False, False, False, False, False, 0)"
  by (simp add: ramFlags_def interpretHeader_fields_def newCartridge_def)

lemma allocated_header:
  "allocatedRamBytes (setupRAM ld (interpretHeader st ub ugb (newCartridge r))) =
   specRamBytes (interpretHeader st ub ugb (newCartridge r))"
proof -
  let ?sw = "setTypeName_switch st (interpretHeader_fields (newCartridge r))"
  have flags: "ramFlags (interpretHeader st ub ugb (newCartridge r)) = ramFlags ?sw"
    by (rule ramFlags_interpretHeader)
  have "allocatedRamBytes (setupRAM ld (interpretHeader st ub ugb (newCartridge r))) =
        allocatedRamBytes (setupRAM ld ?sw)"
    by (rule setupRAM_allocated_flags [OF flags])
  also have "\<dots> = specRamBytes ?sw"
    by (simp only: setupRAM_allocated specRamBytes_switch [OF ramFlags_fields_new])
  also have "\<dots> = specRamBytes (interpretHeader st ub ugb (newCartridge r))"
    by (rule specRamBytes_flags [OF flags [symmetric]])
  finally show ?thesis .
qed

text \<open>
  Claim C10. For every ROM, the bytes of switchable RAM that \<open>setupRAM\<close> allocates for
  the cartridge read from it are those the controller family calls for (\<open>0x8000\<close> for
  MBC1, RUMBLE, MBC3 and HuC3, sixteen banks for MBC5, \<open>0x200\<close> for MBC2, one bank when
  only SRAM is flagged, none otherwise); with no saved image the array has that length;
  changing the RAM-size byte at \<open>0x149\<close> of the header, or the field \<open>ramSize\<close> of any
  cartridge, changes nothing.
\<close>

theorem setupRAM_allocation_by_flags:
  "allocatedRamBytes (setupRAM ld (interpretHeader st ub ugb (newCartridge r))) =
     specRamBytes (interpretHeader st ub ugb (newCartridge r)) \<and>
   length (MBCRam (setupRAM None (interpretHeader st ub ugb (newCartridge r)))) =
     nat \<lfloor>specRamBytes (interpretHeader st ub ugb (newCartridge r))\<rfloor> \<and>
   allocatedRamBytes (setupRAM ld (interpretHeader st ub ugb
       (newCartridge (r\<lparr>getByte := (getByte r)(0x149 := v)\<rparr>)))) =
     allocatedRamBytes (setupRAM ld (interpretHeader st ub ugb (newCartridge r))) \<and>
   allocatedRamBytes (setupRAM ld (c\<lparr>ramSize := v\<rparr>)) = allocatedRamBytes (setupRAM ld c)"
proof (intro conjI)
  show "allocatedRamBytes (setupRAM ld (interpretHeader st ub ugb (newCartridge r))) =
     specRamBytes (interpretHeader st ub ugb (newCartridge r))"
    by (rule allocated_header)
next
  let ?c = "interpretHeader st ub ugb (newCartridge r)"
  have empty: "MBCRam ?c = []"
    by (simp add: interpretHeader_def header_steps_MBCRam setTypeName_switch_MBCRam
        newCartridge_def)
  have nonneg: "0 \<le> specRamBytes ?c" by (simp add: specRamBytes_def)
  show "length (MBCRam (setupRAM None ?c)) = nat \<lfloor>specRamBytes ?c\<rfloor>"
    using nonneg by (simp add: setupRAM_MBCRam_length allocated_header empty)
next
  let ?r' = "r\<lparr>getByte := (getByte r)(0x149 := v)\<rparr>"
  have "ramFlags (setTypeName_switch st (interpretHeader_fields (newCartridge ?r'))) =
        ramFlags (setTypeName_switch st (interpretHeader_fields (newCartridge r)))"
    by (rule ramFlags_switch_typeByte)
       (simp_all add: ramFlags_fields_new, simp add: interpretHeader_fields_def newCartridge_def)
  then have "ramFlags (interpretHeader st ub ugb (newCartridge ?r')) =
       ramFlags (interpretHeader st ub ugb (newCartridge r))"
    by (simp add: ramFlags_interpretHeader)
  then show "allocatedRamBytes (setupRAM ld (interpretHeader st ub ugb (newCartridge ?r'))) =
     allocatedRamBytes (setupRAM ld (interpretHeader st ub ugb (newCartridge r)))"
    by (rule setupRAM_allocated_flags)
next
  show "allocatedRamBytes (setupRAM ld (c\<lparr>ramSize := v\<rparr>)) = allocatedRamBytes (setupRAM ld c)"
    by (rule setupRAM_allocated_flags) (simp add: ramFlags_def)
qed

lemma typeByte_unknownTypeROM:
  "typeByte (interpretHeader_fields (newCartridge unknownTypeROM)) = 0x04"
  by (simp add: interpretHeader_fields_def newCartridge_def unknownTypeROM_def)

text \<open>
  Claim C9, evaluated. A ROM of two banks whose type byte is \<open>0x04\<close> passes \<open>parseROM\<close>,
  and \<open>interpretHeader\<close> names it \<open>Unknown\<close> with no controller and returns: nothing rejects
  it. The same ROM cut to \<open>0x3FFF\<close> bytes is rejected by \<open>parseROM\<close>.
\<close>

theorem unknown_type_not_rejected:
  "\<not> isl (parseROM st (newCartridge unknownTypeROM) s) \<and>
   typeName (interpretHeader st ub ugb (newCartridge unknownTypeROM)) = ''Unknown'' \<and>
   mbc (interpretHeader st ub ugb (newCartridge unknownTypeROM)) = None \<and>
   isl (parseROM st (newCartridge (unknownTypeROM\<lparr>length_rom := 0x3fff\<rparr>)) s)"
proof (intro conjI)
  show "\<not> isl (parseROM st (newCartridge unknownTypeROM) s)"
    by (simp add: parseROM_def newCartridge_def unknownTypeROM_def Let_def)
  show "isl (parseROM st (newCartridge (unknownTypeROM\<lparr>length_rom := 0x3fff\<rparr>)) s)"
    by (simp add: parseROM_def newCartridge_def unknownTypeROM_def Let_def)
  show "typeName (interpretHeader st ub ugb (newCartridge unknownTypeROM)) = ''Unknown''"
    by (simp add: interpretHeader_def header_steps_typeName
        setTypeName_switch_unknown [OF typeByte_unknownTypeROM])
  have "mbc (interpretHeader st ub ugb (newCartridge unknownTypeROM)) =
        mbc (setTypeName st (interpretHeader_fields (newCartridge unknownTypeROM)))"
    by (simp only: interpretHeader_def header_steps_mbc)
  also have "\<dots> = None"
    unfolding setTypeName_def Let_def setTypeName_switch_unknown [OF typeByte_unknownTypeROM]
    by (simp add: interpretHeader_fields_def newCartridge_def)
  finally show "mbc (interpretHeader st ub ugb (newCartridge unknownTypeROM)) = None" .
qed

subsection \<open>The JavaScript operators on small numbers\<close>

lemma toInt32_id: "0 \<le> x \<Longrightarrow> x < 2 ^ 31 \<Longrightarrow> toInt32 x = x"
  by (simp add: toInt32_def signed_take_bit_int_eq_self)

lemma js_and_ff_bounds: "0 \<le> js_and x 0xff \<and> js_and x 0xff \<le> 0xff"
  by (simp add: js_and_def toInt32_def AND_upper2')

lemma js_and_ff_mod: "0 \<le> x \<Longrightarrow> x < 2 ^ 31 \<Longrightarrow> js_and x 0xff = x mod 256"
proof -
  assume "0 \<le> x" "x < 2 ^ 31"
  then have "js_and x 0xff = x AND mask 8"
    by (simp add: js_and_def toInt32_id mask_eq_exp_minus_1)
  then show ?thesis by (simp add: take_bit_eq_mod flip: take_bit_eq_mask)
qed

lemma js_sar_8_div: "0 \<le> x \<Longrightarrow> x < 2 ^ 31 \<Longrightarrow> js_sar x 8 = x div 256"
  by (simp add: js_sar_def toInt32_id drop_bit_eq_div)

lemma toUint8_id: "0 \<le> x \<Longrightarrow> x \<le> 0xff \<Longrightarrow> toUint8 x = x"
  by (simp add: toUint8_def)

lemma toInt32_or: "toInt32 (toInt32 x OR toInt32 y) = toInt32 x OR toInt32 y"
  by (rule bit_eqI) (simp add: toInt32_def bit_simps)

lemma toInt32_small: "toInt32 1 = 1" "toInt32 2 = 2" "toInt32 0x10 = 0x10"
  by (simp_all add: toInt32_def)

lemma or_and_same: "(a OR b) AND (b::int) = b"
  by (rule bit_eqI) (auto simp: bit_simps)

lemma or1_and2: "(a OR 1) AND (2::int) = a AND 2"
proof -
  have "(a OR 1) AND (2::int) = (a AND 2) OR (1 AND 2)" by (rule bit.conj_disj_distrib2)
  then show ?thesis by simp
qed

lemma js_or_and_same: "js_and (js_or x 0x10) 0x10 = 0x10"
proof -
  have "js_and (js_or x 0x10) 0x10 = (toInt32 x OR toInt32 0x10) AND toInt32 0x10"
    unfolding js_and_def js_or_def by (simp only: toInt32_or)
  also have "\<dots> = toInt32 0x10" by (rule or_and_same)
  finally show ?thesis by (simp only: toInt32_small)
qed

lemma js_or1_and1: "js_and (js_or x 1) 1 = 1"
proof -
  have "js_and (js_or x 1) 1 = (toInt32 x OR toInt32 1) AND toInt32 1"
    unfolding js_and_def js_or_def by (simp only: toInt32_or)
  also have "\<dots> = toInt32 1" by (rule or_and_same)
  finally show ?thesis by (simp only: toInt32_small)
qed

lemma js_or1_and2: "js_and (js_or x 1) 2 = js_and x 2"
proof -
  have "js_and (js_or x 1) 2 = (toInt32 x OR toInt32 1) AND toInt32 2"
    unfolding js_and_def js_or_def by (simp only: toInt32_or)
  also have "\<dots> = toInt32 x AND toInt32 2"
    by (simp only: toInt32_small or1_and2)
  finally show ?thesis by (simp only: js_and_def)
qed

lemma js_and_7ff_bounds: "0 \<le> js_and x 0x7ff \<and> js_and x 0x7ff \<le> 0x7ff"
  by (simp add: js_and_def toInt32_def AND_upper2')

lemma js_shl_2: "0 \<le> y \<Longrightarrow> y < 2 ^ 29 \<Longrightarrow> js_shl y 2 = 4 * y"
  by (simp add: js_shl_def toInt32_id push_bit_eq_mult)

lemma js_sar_bounds:
  assumes "0 \<le> x" and "x < 2 ^ 31"
  shows "0 \<le> js_sar x d \<and> js_sar x d \<le> x"
proof -
  have "js_sar x d = x div 2 ^ nat (d mod 32)"
    using assms by (simp add: js_sar_def toInt32_id drop_bit_eq_div)
  moreover have "0 \<le> x div 2 ^ nat (d mod 32)"
    using assms by (simp add: pos_imp_zdiv_nonneg_iff)
  moreover have "x div 2 ^ nat (d mod 32) \<le> x"
    using zdiv_mono2 [of x 1 "2 ^ nat (d mod 32)"] assms by simp
  ultimately show ?thesis by simp
qed

subsection \<open>Wave RAM\<close>

text \<open>
  Claim C1, evaluated. Channel 3 is playing at sample 4, the byte \<open>0xAB\<close> is stored in wave
  RAM at \<open>0xFF32 = 0xFF30 | (4 >> 1)\<close> and \<open>0x7E\<close> in the serial control register at
  \<open>0xFF02 = 0xFF00 | (4 >> 1)\<close>. Both readers of \<open>0xFF30\<close> return \<open>0x7E\<close>: the read goes to
  the page of the I/O registers, not to wave RAM. With the channel not playing, the read
  returns the addressed byte.
\<close>

theorem waveRAM_read_while_playing:
  "memoryReader_waveRAM waveCore 0xff30 = 0x7e \<and>
   memoryHighReader_waveRAM waveCore 0x30 = 0x7e \<and>
   memory waveCore 0xff02 = 0x7e \<and>
   memory waveCore (js_or 0xff30 (js_sar (channel3lastSampleLookup waveCore) 1)) = 0xab \<and>
   memoryReader_waveRAM (waveCore\<lparr>channel3canPlay := False\<rparr>) 0xff32 = 0xab"
  by (simp add: memoryReader_waveRAM_def memoryHighReader_waveRAM_def waveCore_def zeroCore_def
      js_ops)

subsection \<open>The divider register\<close>

text \<open>
  Claim C2, refuted on an example. With \<open>0x55\<close> readable at \<open>FF04\<close>, a write of 0 makes the
  next read return 0: the readable byte is reset.
\<close>

theorem FF04_write_zeroes_read:
  "fst (memoryReader_FF04 divCore 0xff04) = 0x55 \<and>
   fst (memoryReader_FF04 (memoryWriter_FF04 divCore 0xff04 0) 0xff04) = 0"
  by (simp add: memoryReader_FF04_def memoryWriter_FF04_def memory_set_def divCore_def
      zeroCore_def js_ops Let_def)

text \<open>
  Claim C2, amended. A write of any value to \<open>FF04\<close> resets the readable byte: the stored byte
  is 0, the tick counter keeps only its low byte, and a read straight after the write
  returns 0. After \<open>t\<close> further ticks the read returns the high byte of the kept low byte
  plus \<open>t\<close>: the register counts on from zero, not from its value before the write.
\<close>

theorem FF04_write_resets_readable_byte:
  "fst (memoryReader_FF04 (memoryWriter_FF04 s a d) a') = 0 \<and>
   memory (memoryWriter_FF04 s a d) 0xff04 = 0 \<and>
   DIVTicks (memoryWriter_FF04 s a d) = js_and (DIVTicks s) 0xff \<and>
   (0 \<le> t \<and> t < 2 ^ 30 \<longrightarrow>
      fst (memoryReader_FF04
             ((memoryWriter_FF04 s a d)\<lparr>DIVTicks := DIVTicks (memoryWriter_FF04 s a d) + t\<rparr>) a') =
      ((js_and (DIVTicks s) 0xff + t) div 256) mod 256)"
proof (intro conjI impI)
  let ?w = "memoryWriter_FF04 s a d"
  have mem: "memory ?w 0xff04 = 0"
    by (simp add: memoryWriter_FF04_def memory_set_def toUint8_def)
  have ticks: "DIVTicks ?w = js_and (DIVTicks s) 0xff"
    by (simp add: memoryWriter_FF04_def memory_set_def)
  show "memory ?w 0xff04 = 0" by (rule mem)
  show "DIVTicks ?w = js_and (DIVTicks s) 0xff" by (rule ticks)
  have read: "fst (memoryReader_FF04 s1 a') =
              toUint8 (js_and (memory s1 0xff04 + js_sar (DIVTicks s1) 8) 0xff)" for s1
    by (simp add: memoryReader_FF04_def memory_set_def Let_def)
  have low: "0 \<le> js_and (DIVTicks s) 0xff" "js_and (DIVTicks s) 0xff \<le> 0xff"
    using js_and_ff_bounds [of "DIVTicks s"] by simp_all
  have "js_sar (js_and (DIVTicks s) 0xff) 8 = 0"
    using low by (simp add: js_sar_8_div)
  then show "fst (memoryReader_FF04 ?w a') = 0"
    by (simp add: read mem ticks js_and_def toInt32_def toUint8_def)
  assume t: "0 \<le> t \<and> t < 2 ^ 30"
  let ?n = "js_and (DIVTicks s) 0xff + t"
  have n: "0 \<le> ?n" "?n < 2 ^ 31" using low t by simp_all
  have q: "0 \<le> ?n div 256" "?n div 256 < 2 ^ 31" using n by simp_all
  have "fst (memoryReader_FF04 (?w\<lparr>DIVTicks := DIVTicks ?w + t\<rparr>) a') =
        toUint8 (js_and (js_sar ?n 8) 0xff)"
    by (simp add: read mem ticks)
  also have "\<dots> = toUint8 ((?n div 256) mod 256)"
    using n q by (simp add: js_sar_8_div js_and_ff_mod)
  also have "\<dots> = (?n div 256) mod 256" by (simp add: toUint8_def)
  finally show "fst (memoryReader_FF04 (?w\<lparr>DIVTicks := DIVTicks ?w + t\<rparr>) a') =
      (?n div 256) mod 256" .
qed

theorem FF04_write_resets_readable_byte_witness:
  "(0::int) \<le> 0x300 \<and> (0x300::int) < 2 ^ 30 \<and>
   fst (memoryReader_FF04
          ((memoryWriter_FF04 divCore 0xff04 0)
             \<lparr>DIVTicks := DIVTicks (memoryWriter_FF04 divCore 0xff04 0) + 0x300\<rparr>) 0xff04) = 3"
  using FF04_write_resets_readable_byte [of divCore "0xff04" 0 "0xff04" "0x300"]
  by (simp add: memoryReader_FF04_def memoryWriter_FF04_def memory_set_def divCore_def
      zeroCore_def js_ops Let_def)

subsection \<open>The joypad\<close>

text \<open>
  Claim C3, refuted on an example. On a DMG cartridge with no key held, after \<open>0x10\<close> is
  written to \<open>FF00\<close> and the Right key (index 0) goes down, \<open>FF00\<close> reads \<open>0xDF\<close>, not
  \<open>0xDE\<close>: with bit 4 set the low nibble shows the buttons, none of which is held.
\<close>

theorem joypad_Right_reads_DF:
  "memoryReader_FF00 (down (memoryWriter_FF00 joypadCore 0xff00 0x10) 0) 0xff00 = 0xdf \<and>
   memoryReader_FF00 (down (memoryWriter_FF00 joypadCore 0xff00 0x10) 0) 0xff00 \<noteq> 0xde"
  by (simp add: memoryReader_FF00_def memoryWriter_FF00_def down_def writeToMemory_def
      checkIRQMatching_def memory_set_def joypadCore_def zeroCore_def newCartridge_def js_ops Let_def)

text \<open>
  Claim C3, amended. On a DMG cartridge started without the CGB boot ROM and with no key
  held: after \<open>0x10\<close> is written to \<open>FF00\<close> (bit 5 clear, the buttons selected) and Right goes
  down, \<open>FF00\<close> reads \<open>0xDF\<close>; after \<open>0x20\<close> is written (bit 4 clear, the directions
  selected) it reads \<open>0xEE\<close>. Every key-down raises interrupt \<open>0x10\<close>, whatever lines are
  selected; in CGB mode no key-down changes the requested interrupts.
\<close>

theorem joypad_buttons_selected:
  assumes "joypad_value s = 0xff" and "cartridge s = Some c" and "\<not> useGBCMode c"
    and "\<not> usedBootROM s \<or> \<not> usedGBCBootROM s"
  shows "memoryReader_FF00 (down (memoryWriter_FF00 s 0xff00 0x10) 0) 0xff00 = 0xdf \<and>
         memoryReader_FF00 (down (memoryWriter_FF00 s 0xff00 0x20) 0) 0xff00 = 0xee \<and>
         interruptsRequested (down (memoryWriter_FF00 s 0xff00 0x10) 0) =
           js_or (interruptsRequested s) 0x10 \<and>
         js_and (interruptsRequested (down s key)) 0x10 = 0x10 \<and>
         (cartridge s' = Some c' \<and> useGBCMode c' \<longrightarrow>
            interruptsRequested (down s' key) = interruptsRequested s')"
proof (intro conjI impI)
  show "memoryReader_FF00 (down (memoryWriter_FF00 s 0xff00 0x10) 0) 0xff00 = 0xdf"
    using assms
    by (simp add: memoryReader_FF00_def memoryWriter_FF00_def down_def writeToMemory_def
        checkIRQMatching_def memory_set_def js_ops Let_def)
  show "memoryReader_FF00 (down (memoryWriter_FF00 s 0xff00 0x20) 0) 0xff00 = 0xee"
    using assms
    by (simp add: memoryReader_FF00_def memoryWriter_FF00_def down_def writeToMemory_def
        checkIRQMatching_def memory_set_def js_ops Let_def)
  show "interruptsRequested (down (memoryWriter_FF00 s 0xff00 0x10) 0) =
           js_or (interruptsRequested s) 0x10"
    using assms
    by (simp add: memoryWriter_FF00_def down_def writeToMemory_def
        checkIRQMatching_def memory_set_def Let_def)
  have "interruptsRequested (down s key) = js_or (interruptsRequested s) 0x10"
    using assms
    by (simp add: down_def writeToMemory_def checkIRQMatching_def memory_set_def Let_def)
  then show "js_and (interruptsRequested (down s key)) 0x10 = 0x10"
    by (simp only: js_or_and_same)
  assume "cartridge s' = Some c' \<and> useGBCMode c'"
  then show "interruptsRequested (down s' key) = interruptsRequested s'"
    by (simp add: down_def writeToMemory_def checkIRQMatching_def memory_set_def Let_def)
qed

theorem joypad_buttons_selected_witness:
  "memoryReader_FF00 (down (memoryWriter_FF00 joypadCore 0xff00 0x10) 0) 0xff00 = 0xdf \<and>
   memoryReader_FF00 (down (memoryWriter_FF00 joypadCore 0xff00 0x20) 0) 0xff00 = 0xee \<and>
   interruptsRequested (down (memoryWriter_FF00 joypadCore 0xff00 0x10) 0) = 0x10 \<and>
   js_and (interruptsRequested (down joypadCore 0)) 0x10 = 0x10 \<and>
   interruptsRequested (down cgbCore 0) = 0"
  using joypad_buttons_selected [where s = joypadCore and c = "newCartridge emptyROM"
      and s' = cgbCore and c' = "(newCartridge emptyROM)\<lparr>useGBCMode := True\<rparr>" and key = 0]
  by (simp add: joypadCore_def cgbCore_def zeroCore_def newCartridge_def js_ops)

subsection \<open>OAM and VRAM\<close>

lemma lcdView_tileCache_set: "lcdView (tileCache_set s t i v) = lcdView s"
  by (simp add: lcdView_def tileCache_set_def)

lemma lcdView_tileLineStore4: "lcdView (tileLineStore4 s l t1 t2 t3 t4 a) = lcdView s"
  by (simp add: tileLineStore4_def Let_def lcdView_tileCache_set)

lemma lcdView_generators:
  "lcdView (generateGBTileLine s a) = lcdView s"
  "lcdView (generateGBCTileLineBank1 s a) = lcdView s"
  "lcdView (generateGBCTileLineBank2 s a) = lcdView s"
  "lcdView (generateGBOAMTileLine s a) = lcdView s"
  by (simp_all add: generateGBTileLine_def generateGBCTileLineBank1_def
      generateGBCTileLineBank2_def generateGBOAMTileLine_def Let_def
      lcdView_tileCache_set lcdView_tileLineStore4)

lemma lcdView_fields:
  assumes "lcdView s' = lcdView s"
  shows "memory s' = memory s" "VRAM s' = VRAM s" "BGCHRBank1 s' = BGCHRBank1 s"
    "BGCHRBank2 s' = BGCHRBank2 s" "BGCHRCurrentBank s' = BGCHRCurrentBank s"
    "modeSTAT s' = modeSTAT s" "currVRAMBank s' = currVRAMBank s"
    "cartridgeSlot s' = cartridgeSlot s"
  using assms by (simp_all add: lcdView_def)

lemmas generators_fields =
  lcdView_generators(1) [THEN lcdView_fields(1)] lcdView_generators(1) [THEN lcdView_fields(2)]
  lcdView_generators(1) [THEN lcdView_fields(3)] lcdView_generators(1) [THEN lcdView_fields(4)]
  lcdView_generators(1) [THEN lcdView_fields(5)] lcdView_generators(1) [THEN lcdView_fields(6)]
  lcdView_generators(1) [THEN lcdView_fields(7)] lcdView_generators(1) [THEN lcdView_fields(8)]
  lcdView_generators(2) [THEN lcdView_fields(1)] lcdView_generators(2) [THEN lcdView_fields(2)]
  lcdView_generators(2) [THEN lcdView_fields(3)] lcdView_generators(2) [THEN lcdView_fields(4)]
  lcdView_generators(2) [THEN lcdView_fields(5)] lcdView_generators(2) [THEN lcdView_fields(6)]
  lcdView_generators(2) [THEN lcdView_fields(7)] lcdView_generators(2) [THEN lcdView_fields(8)]
  lcdView_generators(3) [THEN lcdView_fields(1)] lcdView_generators(3) [THEN lcdView_fields(2)]
  lcdView_generators(3) [THEN lcdView_fields(3)] lcdView_generators(3) [THEN lcdView_fields(4)]
  lcdView_generators(3) [THEN lcdView_fields(5)] lcdView_generators(3) [THEN lcdView_fields(6)]
  lcdView_generators(3) [THEN lcdView_fields(7)] lcdView_generators(3) [THEN lcdView_fields(8)]
  lcdView_generators(4) [THEN lcdView_fields(1)] lcdView_generators(4) [THEN lcdView_fields(2)]
  lcdView_generators(4) [THEN lcdView_fields(3)] lcdView_generators(4) [THEN lcdView_fields(4)]
  lcdView_generators(4) [THEN lcdView_fields(5)] lcdView_generators(4) [THEN lcdView_fields(6)]
  lcdView_generators(4) [THEN lcdView_fields(7)] lcdView_generators(4) [THEN lcdView_fields(8)]

lemma OAM_written_read_back:
  assumes "modeSTAT s < 2" and "0 \<le> d" and "d \<le> 0xff" and "lcdFrame jit"
  shows "memoryReadOAM (memoryWriteOAMRAM jit s a d) a = d"
  using assms
  by (simp add: memoryReadOAM_def memoryWriteOAMRAM_def memory_set_def lcdFrame_def toUint8_id)

lemma VRAM_written_read_back:
  assumes "modeSTAT s < 3" and "0 \<le> d" and "d \<le> 0xff" and "lcdFrame jit"
  shows "memoryReader_VRAM (memoryWriter_VRAM jit s a d) a = d"
proof -
  have jit: "modeSTAT (jit s) = modeSTAT s" "currVRAMBank (jit s) = currVRAMBank s"
    "cartridgeSlot (jit s) = cartridgeSlot s" "BGCHRCurrentBank (jit s) = BGCHRCurrentBank s"
    using assms(4) by (simp_all add: lcdFrame_def)
  show ?thesis
    using assms(1-3) jit
    by (auto simp add: memoryReader_VRAM_def memoryWriter_VRAM_def VRAMGBCDATAWrite_def
        VRAMGBDATAWrite_def VRAMGBDATAUpperWrite_def VRAMGBCCHRMAPWrite_def
        VRAMGBCHRMAPWrite_def VRAMDATAReadCGBCPU_def VRAMDATAReadDMGCPU_def
        VRAMCHRReadCGBCPU_def VRAMCHRReadDMGCPU_def BGCHRCurrentBank_get_def
        BGCHRCurrentBank_set_def memory_set_def generators_fields toUint8_id Let_def
        split: bankRef.splits)
qed

text \<open>
  Claim C4, refuted on an example. In mode 3, which is not the mode 2 of the claim, a
  write to OAM is dropped.
\<close>

theorem OAM_write_dropped_in_mode_3:
  "modeSTAT drawCore = 3 \<and> memory drawCore 0xfe00 \<noteq> 0x12 \<and>
   memoryWriteOAMRAM (\<lambda>s. s) drawCore 0xfe00 0x12 = drawCore"
  by (simp add: memoryWriteOAMRAM_def drawCore_def zeroCore_def)

text \<open>
  Claim C4, amended. OAM is closed to the CPU in modes 2 and 3 and VRAM in mode 3: there a
  read returns \<open>0xFF\<close> and a write leaves the whole state unchanged. In the other modes a
  byte written is the byte read back, provided the renderer leaves the mode and the bank
  selection alone.
\<close>

theorem OAM_VRAM_gate:
  "(modeSTAT s \<ge> 2 \<longrightarrow> memoryReadOAM s a = 0xff \<and> memoryWriteOAMRAM jit s a d = s) \<and>
   (modeSTAT s \<ge> 3 \<longrightarrow> memoryReader_VRAM s a = 0xff \<and> memoryWriter_VRAM jit s a d = s) \<and>
   (modeSTAT s < 2 \<and> 0 \<le> d \<and> d \<le> 0xff \<and> lcdFrame jit \<longrightarrow>
      memoryReadOAM (memoryWriteOAMRAM jit s a d) a = d) \<and>
   (modeSTAT s < 3 \<and> 0 \<le> d \<and> d \<le> 0xff \<and> lcdFrame jit \<longrightarrow>
      memoryReader_VRAM (memoryWriter_VRAM jit s a d) a = d)"
proof (intro conjI impI)
  assume "2 \<le> modeSTAT s"
  then show "memoryReadOAM s a = 0xff" "memoryWriteOAMRAM jit s a d = s"
    by (simp_all add: memoryReadOAM_def memoryWriteOAMRAM_def)
next
  assume "3 \<le> modeSTAT s"
  then show "memoryReader_VRAM s a = 0xff" "memoryWriter_VRAM jit s a d = s"
    by (simp_all add: memoryReader_VRAM_def memoryWriter_VRAM_def VRAMGBCDATAWrite_def
        VRAMGBDATAWrite_def VRAMGBDATAUpperWrite_def VRAMGBCCHRMAPWrite_def
        VRAMGBCHRMAPWrite_def VRAMDATAReadCGBCPU_def VRAMDATAReadDMGCPU_def
        VRAMCHRReadCGBCPU_def VRAMCHRReadDMGCPU_def)
next
  assume "modeSTAT s < 2 \<and> 0 \<le> d \<and> d \<le> 0xff \<and> lcdFrame jit"
  then show "memoryReadOAM (memoryWriteOAMRAM jit s a d) a = d"
    by (simp add: OAM_written_read_back)
next
  assume "modeSTAT s < 3 \<and> 0 \<le> d \<and> d \<le> 0xff \<and> lcdFrame jit"
  then show "memoryReader_VRAM (memoryWriter_VRAM jit s a d) a = d"
    by (simp add: VRAM_written_read_back)
qed

theorem OAM_VRAM_gate_witness:
  "modeSTAT searchCore = 2 \<and> memoryReadOAM searchCore 0xfe00 = 0xff \<and>
   memoryWriteOAMRAM (\<lambda>s. s) searchCore 0xfe00 0x12 = searchCore \<and>
   modeSTAT drawCore = 3 \<and> memoryReader_VRAM drawCore 0x8000 = 0xff \<and>
   memoryWriter_VRAM (\<lambda>s. s) drawCore 0x8000 0x12 = drawCore \<and>
   modeSTAT zeroCore = 0 \<and> lcdFrame (\<lambda>s. s) \<and>
   memoryReadOAM (memoryWriteOAMRAM (\<lambda>s. s) zeroCore 0xfe00 0x12) 0xfe00 = 0x12 \<and>
   memoryReader_VRAM (memoryWriter_VRAM (\<lambda>s. s) zeroCore 0x8000 0x12) 0x8000 = 0x12"
proof -
  have m: "modeSTAT searchCore = 2" "modeSTAT drawCore = 3" "modeSTAT zeroCore = 0"
    by (simp_all add: searchCore_def drawCore_def zeroCore_def)
  have f: "lcdFrame (\<lambda>s. s)"
    by (simp add: lcdFrame_def)
  show ?thesis
    using OAM_VRAM_gate [where s = searchCore and a = "0xfe00" and d = "0x12" and jit = "\<lambda>s. s"]
      OAM_VRAM_gate [where s = drawCore and a = "0x8000" and d = "0x12" and jit = "\<lambda>s. s"]
      OAM_VRAM_gate [where s = zeroCore and a = "0xfe00" and d = "0x12" and jit = "\<lambda>s. s"]
      OAM_VRAM_gate [where s = zeroCore and a = "0x8000" and d = "0x12" and jit = "\<lambda>s. s"]
      m f
    by simp
qed

subsection \<open>Audio: what the mixer caches and the frame sequencer leave alone\<close>

lemma viewAll_mixerOutputLevelCache: "viewAll (mixerOutputLevelCache s) = viewAll s"
  by (simp only: mixerOutputLevelCache_def if_distrib [of viewAll]  Let_def)
     (simp add: viewAll_def viewRes_def viewClk_def viewSwp_def viewCfg_def)

lemma viewAll_channel1OutputLevelTrimaryCache: "viewAll (channel1OutputLevelTrimaryCache e s) = viewAll s"
  by (simp only: channel1OutputLevelTrimaryCache_def if_distrib [of viewAll] viewAll_mixerOutputLevelCache Let_def)
     (simp add: viewAll_def viewRes_def viewClk_def viewSwp_def viewCfg_def)

lemma viewAll_channel1OutputLevelSecondaryCache: "viewAll (channel1OutputLevelSecondaryCache e s) = viewAll s"
  by (simp only: channel1OutputLevelSecondaryCache_def if_distrib [of viewAll] viewAll_channel1OutputLevelTrimaryCache Let_def)
     (simp add: viewAll_def viewRes_def viewClk_def viewSwp_def viewCfg_def)

lemma viewAll_channel1OutputLevelCache: "viewAll (channel1OutputLevelCache e s) = viewAll s"
  by (simp only: channel1OutputLevelCache_def if_distrib [of viewAll] viewAll_channel1OutputLevelSecondaryCache Let_def)
     (simp add: viewAll_def viewRes_def viewClk_def viewSwp_def viewCfg_def)

lemma viewAll_channel1EnableCheck: "viewAll (channel1EnableCheck e s) = viewAll s"
  by (simp only: channel1EnableCheck_def if_distrib [of viewAll] viewAll_channel1OutputLevelSecondaryCache Let_def)
     (simp add: viewAll_def viewRes_def viewClk_def viewSwp_def viewCfg_def)

lemma viewAll_channel1VolumeEnableCheck: "viewAll (channel1VolumeEnableCheck e s) = viewAll s"
  by (simp only: channel1VolumeEnableCheck_def if_distrib [of viewAll] viewAll_channel1OutputLevelSecondaryCache viewAll_channel1EnableCheck Let_def)
     (simp add: viewAll_def viewRes_def viewClk_def viewSwp_def viewCfg_def)

lemma viewAll_channel2OutputLevelTrimaryCache: "viewAll (channel2OutputLevelTrimaryCache e s) = viewAll s"
  by (simp only: channel2OutputLevelTrimaryCache_def if_distrib [of viewAll] viewAll_mixerOutputLevelCache Let_def)
     (simp add: viewAll_def viewRes_def viewClk_def viewSwp_def viewCfg_def)

lemma viewAll_channel2OutputLevelSecondaryCache: "viewAll (channel2OutputLevelSecondaryCache e s) = viewAll s"
  by (simp only: channel2OutputLevelSecondaryCache_def if_distrib [of viewAll] viewAll_channel2OutputLevelTrimaryCache Let_def)
     (simp add: viewAll_def viewRes_def viewClk_def viewSwp_def viewCfg_def)

lemma viewAll_channel2OutputLevelCache: "viewAll (channel2OutputLevelCache e s) = viewAll s"
  by (simp only: channel2OutputLevelCache_def if_distrib [of viewAll] viewAll_channel2OutputLevelSecondaryCache Let_def)
     (simp add: viewAll_def viewRes_def viewClk_def viewSwp_def viewCfg_def)

lemma viewAll_channel2EnableCheck: "viewAll (channel2EnableCheck e s) = viewAll s"
  by (simp only: channel2EnableCheck_def if_distrib [of viewAll] viewAll_channel2OutputLevelSecondaryCache Let_def)
     (simp add: viewAll_def viewRes_def viewClk_def viewSwp_def viewCfg_def)

lemma viewAll_channel2VolumeEnableCheck: "viewAll (channel2VolumeEnableCheck e s) = viewAll s"
  by (simp only: channel2VolumeEnableCheck_def if_distrib [of viewAll] viewAll_channel2OutputLevelSecondaryCache viewAll_channel2EnableCheck Let_def)
     (simp add: viewAll_def viewRes_def viewClk_def viewSwp_def viewCfg_def)

lemma viewAll_channel3OutputLevelSecondaryCache: "viewAll (channel3OutputLevelSecondaryCache e s) = viewAll s"
  by (simp only: channel3OutputLevelSecondaryCache_def if_distrib [of viewAll] viewAll_mixerOutputLevelCache Let_def)
     (simp add: viewAll_def viewRes_def viewClk_def viewSwp_def viewCfg_def)

lemma viewAll_channel3OutputLevelCache: "viewAll (channel3OutputLevelCache e s) = viewAll s"
  by (simp only: channel3OutputLevelCache_def if_distrib [of viewAll] viewAll_channel3OutputLevelSecondaryCache Let_def)
     (simp add: viewAll_def viewRes_def viewClk_def viewSwp_def viewCfg_def)

lemma viewAll_channel3EnableCheck: "viewAll (channel3EnableCheck e s) = viewAll s"
  by (simp only: channel3EnableCheck_def if_distrib [of viewAll] viewAll_channel3OutputLevelSecondaryCache Let_def)
     (simp add: viewAll_def viewRes_def viewClk_def viewSwp_def viewCfg_def)

lemma viewAll_channel3UpdateCache: "viewAll (channel3UpdateCache e s) = viewAll s"
  by (simp only: channel3UpdateCache_def if_distrib [of viewAll] viewAll_channel3OutputLevelCache Let_def)
     (simp add: viewAll_def viewRes_def viewClk_def viewSwp_def viewCfg_def)

lemma viewAll_channel4OutputLevelSecondaryCache: "viewAll (channel4OutputLevelSecondaryCache e s) = viewAll s"
  by (simp only: channel4OutputLevelSecondaryCache_def if_distrib [of viewAll] viewAll_mixerOutputLevelCache Let_def)
     (simp add: viewAll_def viewRes_def viewClk_def viewSwp_def viewCfg_def)

lemma viewAll_channel4OutputLevelCache: "viewAll (channel4OutputLevelCache e s) = viewAll s"
  by (simp only: channel4OutputLevelCache_def if_distrib [of viewAll] viewAll_channel4OutputLevelSecondaryCache Let_def)
     (simp add: viewAll_def viewRes_def viewClk_def viewSwp_def viewCfg_def)

lemma viewAll_channel4EnableCheck: "viewAll (channel4EnableCheck e s) = viewAll s"
  by (simp only: channel4EnableCheck_def if_distrib [of viewAll] viewAll_channel4OutputLevelSecondaryCache Let_def)
     (simp add: viewAll_def viewRes_def viewClk_def viewSwp_def viewCfg_def)

lemma viewAll_channel4UpdateCache: "viewAll (channel4UpdateCache e s) = viewAll s"
  by (simp only: channel4UpdateCache_def if_distrib [of viewAll] viewAll_channel4OutputLevelCache Let_def)
     (simp add: viewAll_def viewRes_def viewClk_def viewSwp_def viewCfg_def)

lemma viewAll_channel4VolumeEnableCheck: "viewAll (channel4VolumeEnableCheck e s) = viewAll s"
  by (simp only: channel4VolumeEnableCheck_def if_distrib [of viewAll] viewAll_channel4OutputLevelSecondaryCache viewAll_channel4EnableCheck Let_def)
     (simp add: viewAll_def viewRes_def viewClk_def viewSwp_def viewCfg_def)

lemma viewAll_memory_set: "viewAll (memory_set s a v) = viewAll s"
  by (simp add: memory_set_def viewAll_def viewRes_def viewClk_def viewSwp_def viewCfg_def)

lemma viewAll_memory_and: "viewAll (memory_and s a m) = viewAll s"
  by (simp add: memory_and_def viewAll_memory_set)

lemma viewAll_memory_or: "viewAll (memory_or s a m) = viewAll s"
  by (simp add: memory_or_def viewAll_memory_set)

lemma viewAll_clockAudioLength_channel1: "viewAll (clockAudioLength_channel1 e s) = viewAll s"
  by (simp only: clockAudioLength_channel1_def if_distrib [of viewAll] viewAll_memory_and viewAll_channel1EnableCheck Let_def)
     (simp add: viewAll_def viewRes_def viewClk_def viewSwp_def viewCfg_def)

lemma viewAll_clockAudioLength_channel2: "viewAll (clockAudioLength_channel2 e s) = viewAll s"
  by (simp only: clockAudioLength_channel2_def if_distrib [of viewAll] viewAll_memory_and viewAll_channel2EnableCheck Let_def)
     (simp add: viewAll_def viewRes_def viewClk_def viewSwp_def viewCfg_def)

lemma viewAll_clockAudioLength_channel3: "viewAll (clockAudioLength_channel3 e s) = viewAll s"
  by (simp only: clockAudioLength_channel3_def if_distrib [of viewAll] viewAll_memory_and viewAll_channel3EnableCheck Let_def)
     (simp add: viewAll_def viewRes_def viewClk_def viewSwp_def viewCfg_def)

lemma viewAll_clockAudioLength_channel4: "viewAll (clockAudioLength_channel4 e s) = viewAll s"
  by (simp only: clockAudioLength_channel4_def if_distrib [of viewAll] viewAll_memory_and viewAll_channel4EnableCheck Let_def)
     (simp add: viewAll_def viewRes_def viewClk_def viewSwp_def viewCfg_def)

lemma viewAll_clockAudioLength: "viewAll (clockAudioLength e s) = viewAll s"
  by (simp only: clockAudioLength_def if_distrib [of viewAll] viewAll_clockAudioLength_channel1 viewAll_clockAudioLength_channel2 viewAll_clockAudioLength_channel3 viewAll_clockAudioLength_channel4 Let_def)

lemma viewAll_clockAudioEnvelope_channel1: "viewAll (clockAudioEnvelope_channel1 e s) = viewAll s"
  by (simp only: clockAudioEnvelope_channel1_def if_distrib [of viewAll] viewAll_channel1OutputLevelCache Let_def)
     (simp add: viewAll_def viewRes_def viewClk_def viewSwp_def viewCfg_def)

lemma viewAll_clockAudioEnvelope_channel2: "viewAll (clockAudioEnvelope_channel2 e s) = viewAll s"
  by (simp only: clockAudioEnvelope_channel2_def if_distrib [of viewAll] viewAll_channel2OutputLevelCache Let_def)
     (simp add: viewAll_def viewRes_def viewClk_def viewSwp_def viewCfg_def)

lemma viewAll_channel4SetVolume: "viewAll (channel4SetVolume s v) = viewAll s"
  by (simp add: channel4SetVolume_def viewAll_def viewRes_def viewClk_def viewSwp_def viewCfg_def)

lemma viewAll_clockAudioEnvelope_channel4:
  "viewAll (clockAudioEnvelope_channel4 e s) = viewAll s"
proof -
  have upd: "viewAll (x\<lparr>channel4envelopeSweeps := v\<rparr>) = viewAll x" for x v
    by (simp add: viewAll_def viewRes_def viewClk_def viewSwp_def viewCfg_def)
  have upd2: "viewAll (x\<lparr>channel4envelopeSweepsLast := v\<rparr>) = viewAll x" for x v
    by (simp add: viewAll_def viewRes_def viewClk_def viewSwp_def viewCfg_def)
  show ?thesis
    by (simp only: clockAudioEnvelope_channel4_def if_distrib [of viewAll]
        viewAll_channel4UpdateCache upd upd2 viewAll_channel4SetVolume if_cancel)
qed

lemma viewAll_clockAudioEnvelope: "viewAll (clockAudioEnvelope e s) = viewAll s"
  by (simp only: clockAudioEnvelope_def if_distrib [of viewAll] viewAll_clockAudioEnvelope_channel1 viewAll_clockAudioEnvelope_channel2 viewAll_clockAudioEnvelope_channel4 Let_def)

lemma viewAll_fields:
  assumes "viewAll a = viewAll b"
  shows "audioIndex a = audioIndex b" "audioDestinationPosition a = audioDestinationPosition b"
    "audioServer a = audioServer b" "sequencerClocks a = sequencerClocks b"
    "audioClocksUntilNextEvent a = audioClocksUntilNextEvent b"
    "audioClocksUntilNextEventCounter a = audioClocksUntilNextEventCounter b"
    "channel1FrequencyCounter a = channel1FrequencyCounter b"
    "channel2FrequencyCounter a = channel2FrequencyCounter b"
    "channel3Counter a = channel3Counter b" "channel4Counter a = channel4Counter b"
    "channel1FrequencyTracker a = channel1FrequencyTracker b"
    "channel1ShadowFrequency a = channel1ShadowFrequency b"
    "channel1SweepFault a = channel1SweepFault b" "channel1Swept a = channel1Swept b"
    "channel1timeSweep a = channel1timeSweep b"
    "audioResamplerFirstPassFactor a = audioResamplerFirstPassFactor b"
    "numSamplesTotal a = numSamplesTotal b"
    "channel2FrequencyTracker a = channel2FrequencyTracker b"
    "channel3FrequencyPeriod a = channel3FrequencyPeriod b"
    "channel4FrequencyPeriod a = channel4FrequencyPeriod b"
    "soundMasterEnabled a = soundMasterEnabled b" "CPUStopped a = CPUStopped b"
    "stopEmulator a = stopEmulator b" "channel1decreaseSweep a = channel1decreaseSweep b"
    "channel1frequencySweepDivider a = channel1frequencySweepDivider b"
    "channel1lastTimeSweep a = channel1lastTimeSweep b" "cartridgeSlot a = cartridgeSlot b"
  using assms
  by (simp_all add: viewAll_def viewRes_def viewClk_def viewSwp_def viewCfg_def)

lemma viewAll_parts:
  assumes "viewAll a = viewAll b"
  shows "viewRes a = viewRes b" "viewClk a = viewClk b" "viewSwp a = viewSwp b"
    "viewCfg a = viewCfg b"
  using assms by (simp_all add: viewAll_def)

lemma inv_cong:
  "viewRes a = viewRes b \<Longrightarrow> viewCfg a = viewCfg b \<Longrightarrow> resampleInv a = resampleInv b"
  "viewClk a = viewClk b \<Longrightarrow> viewCfg a = viewCfg b \<Longrightarrow> clockInv a = clockInv b"
  "viewSwp a = viewSwp b \<Longrightarrow> sweepInv a = sweepInv b"
  "viewRes a = viewRes b \<Longrightarrow> samplesEmitted a = samplesEmitted b"
  by (simp_all add: resampleInv_def clockInv_def sweepInv_def samplesEmitted_def
      viewRes_def viewClk_def viewSwp_def viewCfg_def)

lemmas cache_fields =
  viewAll_fields [OF viewAll_mixerOutputLevelCache]
  viewAll_fields [OF viewAll_channel1OutputLevelTrimaryCache]
  viewAll_fields [OF viewAll_channel1OutputLevelSecondaryCache]
  viewAll_fields [OF viewAll_channel1OutputLevelCache]
  viewAll_fields [OF viewAll_channel1EnableCheck]
  viewAll_fields [OF viewAll_channel1VolumeEnableCheck]
  viewAll_fields [OF viewAll_channel2OutputLevelTrimaryCache]
  viewAll_fields [OF viewAll_channel2OutputLevelSecondaryCache]
  viewAll_fields [OF viewAll_channel2OutputLevelCache]
  viewAll_fields [OF viewAll_channel2EnableCheck]
  viewAll_fields [OF viewAll_channel2VolumeEnableCheck]
  viewAll_fields [OF viewAll_channel3OutputLevelSecondaryCache]
  viewAll_fields [OF viewAll_channel3OutputLevelCache]
  viewAll_fields [OF viewAll_channel3EnableCheck]
  viewAll_fields [OF viewAll_channel3UpdateCache]
  viewAll_fields [OF viewAll_channel4OutputLevelSecondaryCache]
  viewAll_fields [OF viewAll_channel4OutputLevelCache]
  viewAll_fields [OF viewAll_channel4EnableCheck]
  viewAll_fields [OF viewAll_channel4UpdateCache]
  viewAll_fields [OF viewAll_channel4VolumeEnableCheck]
  viewAll_fields [OF viewAll_memory_set]
  viewAll_fields [OF viewAll_memory_and]
  viewAll_fields [OF viewAll_memory_or]
  viewAll_fields [OF viewAll_clockAudioLength]
  viewAll_fields [OF viewAll_clockAudioEnvelope]

subsection \<open>Audio: the sweep unit\<close>

lemmas views = viewRes_def viewClk_def viewSwp_def viewCfg_def

lemma channel1SweepOverflow_views:
  "viewRes (channel1SweepOverflow e s) = viewRes s"
  "viewClk (channel1SweepOverflow e s) = viewClk s"
  "viewCfg (channel1SweepOverflow e s) = viewCfg s"
  "channel1SweepFault (channel1SweepOverflow e s)"
  "channel1FrequencyTracker (channel1SweepOverflow e s) = channel1FrequencyTracker s"
  "channel1ShadowFrequency (channel1SweepOverflow e s) = channel1ShadowFrequency s"
  "channel1Swept (channel1SweepOverflow e s) = channel1Swept s"
  "channel1timeSweep (channel1SweepOverflow e s) = channel1timeSweep s"
  by (simp_all add: views channel1SweepOverflow_def cache_fields)

lemma runAudioSweep_decrease_views:
  "viewRes (runAudioSweep_decrease s) = viewRes s"
  "viewClk (runAudioSweep_decrease s) = viewClk s"
  "viewCfg (runAudioSweep_decrease s) = viewCfg s"
  "channel1Swept (runAudioSweep_decrease s) = channel1Swept s"
  "channel1SweepFault (runAudioSweep_decrease s) = channel1SweepFault s"
  by (simp_all add: views runAudioSweep_decrease_def Let_def)

lemma runAudioSweep_decrease_inv:
  assumes "0 \<le> channel1ShadowFrequency s" and "channel1ShadowFrequency s \<le> 0x7ff"
  shows "0 < channel1FrequencyTracker (runAudioSweep_decrease s)"
    "0 \<le> channel1ShadowFrequency (runAudioSweep_decrease s)"
    "channel1ShadowFrequency (runAudioSweep_decrease s) \<le> 0x7ff"
proof -
  let ?x = "channel1ShadowFrequency s"
  let ?d = "channel1frequencySweepDivider s"
  have b: "0 \<le> js_sar ?x ?d \<and> js_sar ?x ?d \<le> ?x"
    using assms by (intro js_sar_bounds) simp_all
  have f: "0 \<le> js_and (?x - js_sar ?x ?d) 0x7ff \<and> js_and (?x - js_sar ?x ?d) 0x7ff \<le> 0x7ff"
    by (rule js_and_7ff_bounds)
  then have "js_shl (0x800 - js_and (?x - js_sar ?x ?d) 0x7ff) 2 =
             4 * (0x800 - js_and (?x - js_sar ?x ?d) 0x7ff)"
    by (intro js_shl_2) simp_all
  with f show "0 < channel1FrequencyTracker (runAudioSweep_decrease s)"
    by (simp add: runAudioSweep_decrease_def Let_def)
  show "0 \<le> channel1ShadowFrequency (runAudioSweep_decrease s)"
    "channel1ShadowFrequency (runAudioSweep_decrease s) \<le> 0x7ff"
    using b assms by (simp_all add: runAudioSweep_decrease_def Let_def)
qed

lemma runAudioSweep_increase_views:
  "viewRes (runAudioSweep_increase e s) = viewRes s"
  "viewClk (runAudioSweep_increase e s) = viewClk s"
  "viewCfg (runAudioSweep_increase e s) = viewCfg s"
  "channel1Swept (runAudioSweep_increase e s) = channel1Swept s"
  by (simp_all add: runAudioSweep_increase_def Let_def channel1SweepOverflow_views)
     (simp_all add: views)

lemma runAudioSweep_increase_inv:
  assumes "0 \<le> channel1ShadowFrequency s" and "channel1ShadowFrequency s \<le> 0x7ff"
    and "0 < channel1FrequencyTracker s"
  shows "sweepInv (runAudioSweep_increase e s)"
proof -
  let ?x = "channel1ShadowFrequency s"
  let ?d = "channel1frequencySweepDivider s"
  let ?y = "?x + js_sar ?x ?d"
  have b: "0 \<le> js_sar ?x ?d \<and> js_sar ?x ?d \<le> ?x"
    using assms by (intro js_sar_bounds) simp_all
  have tr: "?y \<le> 0x7ff \<Longrightarrow> js_shl (0x800 - ?y) 2 = 4 * (0x800 - ?y)"
    using b assms by (intro js_shl_2) simp_all
  show ?thesis
    using b assms tr
    by (simp add: sweepInv_def runAudioSweep_increase_def Let_def channel1SweepOverflow_views)
qed

lemma runAudioSweep_reload_views:
  "viewRes (runAudioSweep_reload s) = viewRes s"
  "viewClk (runAudioSweep_reload s) = viewClk s"
  "viewCfg (runAudioSweep_reload s) = viewCfg s"
  "channel1Swept (runAudioSweep_reload s) = channel1Swept s"
  "sweepInv (runAudioSweep_reload s) = sweepInv s"
  by (simp_all add: views sweepInv_def runAudioSweep_reload_def)

lemma runAudioSweep_views:
  "viewRes (runAudioSweep e s) = viewRes s"
  "viewClk (runAudioSweep e s) = viewClk s"
  "viewCfg (runAudioSweep e s) = viewCfg s"
  "channel1Swept s \<Longrightarrow> channel1Swept (runAudioSweep e s)"
  by (simp_all add: runAudioSweep_def runAudioSweep_reload_views runAudioSweep_increase_views
      runAudioSweep_decrease_views)
     (simp_all add: cache_fields views)

lemma runAudioSweep_inv:
  assumes "sweepInv s" and "\<not> channel1SweepFault s"
  shows "sweepInv (runAudioSweep e s)"
proof -
  have sh: "0 \<le> channel1ShadowFrequency s" "channel1ShadowFrequency s \<le> 0x7ff"
    "0 < channel1FrequencyTracker s"
    using assms by (simp_all add: sweepInv_def)
  have dec: "sweepInv (runAudioSweep_decrease (s\<lparr>channel1Swept := True\<rparr>))"
    using runAudioSweep_decrease_inv [of "s\<lparr>channel1Swept := True\<rparr>"] sh
    by (simp add: sweepInv_def)
  have inc: "sweepInv (runAudioSweep_increase e (s\<lparr>channel1Swept := True\<rparr>))"
    using runAudioSweep_increase_inv [of "s\<lparr>channel1Swept := True\<rparr>"] sh by simp
  show ?thesis
    using dec inc assms(1)
    by (simp add: runAudioSweep_def runAudioSweep_reload_views)
       (simp add: sweepInv_def cache_fields)
qed

lemma clockAudioSweep_views:
  "viewRes (clockAudioSweep e s) = viewRes s"
  "viewClk (clockAudioSweep e s) = viewClk s"
  "viewCfg (clockAudioSweep e s) = viewCfg s"
  "channel1Swept s \<Longrightarrow> channel1Swept (clockAudioSweep e s)"
  by (simp_all add: clockAudioSweep_def runAudioSweep_views) (simp_all add: views)

lemma clockAudioSweep_inv: "sweepInv s \<Longrightarrow> sweepInv (clockAudioSweep e s)"
proof -
  assume inv: "sweepInv s"
  have run: "sweepInv (runAudioSweep e (s\<lparr>channel1timeSweep := t\<rparr>))"
    if "\<not> channel1SweepFault s" for t
    using that inv by (intro runAudioSweep_inv) (simp_all add: sweepInv_def)
  have upd: "sweepInv (s\<lparr>channel1timeSweep := t\<rparr>)" for t
    using inv by (simp add: sweepInv_def)
  show ?thesis
    unfolding clockAudioSweep_def using inv run upd by (simp only: split: if_split) blast
qed

subsection \<open>Audio: the events of the sample loop\<close>

lemma viewRes_fields:
  assumes "viewRes a = viewRes b"
  shows "audioIndex a = audioIndex b" "audioDestinationPosition a = audioDestinationPosition b"
    "audioServer a = audioServer b"
  using assms by (simp_all add: viewRes_def)

lemma viewClk_fields:
  assumes "viewClk a = viewClk b"
  shows "sequencerClocks a = sequencerClocks b"
    "audioClocksUntilNextEvent a = audioClocksUntilNextEvent b"
    "audioClocksUntilNextEventCounter a = audioClocksUntilNextEventCounter b"
    "channel1FrequencyCounter a = channel1FrequencyCounter b"
    "channel2FrequencyCounter a = channel2FrequencyCounter b"
    "channel3Counter a = channel3Counter b" "channel4Counter a = channel4Counter b"
  using assms by (simp_all add: viewClk_def)

lemma viewSwp_fields:
  assumes "viewSwp a = viewSwp b"
  shows "channel1FrequencyTracker a = channel1FrequencyTracker b"
    "channel1ShadowFrequency a = channel1ShadowFrequency b"
    "channel1SweepFault a = channel1SweepFault b" "channel1Swept a = channel1Swept b"
    "channel1timeSweep a = channel1timeSweep b"
  using assms by (simp_all add: viewSwp_def)

lemma viewCfg_fields:
  assumes "viewCfg a = viewCfg b"
  shows "audioResamplerFirstPassFactor a = audioResamplerFirstPassFactor b"
    "numSamplesTotal a = numSamplesTotal b"
    "channel2FrequencyTracker a = channel2FrequencyTracker b"
    "channel3FrequencyPeriod a = channel3FrequencyPeriod b"
    "channel4FrequencyPeriod a = channel4FrequencyPeriod b"
    "soundMasterEnabled a = soundMasterEnabled b" "CPUStopped a = CPUStopped b"
    "stopEmulator a = stopEmulator b" "channel1decreaseSweep a = channel1decreaseSweep b"
    "channel1frequencySweepDivider a = channel1frequencySweepDivider b"
    "channel1lastTimeSweep a = channel1lastTimeSweep b" "cartridgeSlot a = cartridgeSlot b"
  using assms by (simp_all add: viewCfg_def)

lemmas length_parts = viewAll_parts [OF viewAll_clockAudioLength]
lemmas envelope_parts = viewAll_parts [OF viewAll_clockAudioEnvelope]

lemma view_sequencePosition:
  "viewRes (s\<lparr>sequencePosition := p\<rparr>) = viewRes s"
  "viewClk (s\<lparr>sequencePosition := p\<rparr>) = viewClk s"
  "viewSwp (s\<lparr>sequencePosition := p\<rparr>) = viewSwp s"
  "viewCfg (s\<lparr>sequencePosition := p\<rparr>) = viewCfg s"
  by (simp_all add: views)

lemma audioComputeSequencer_views:
  "viewRes (audioComputeSequencer e s) = viewRes s"
  "viewClk (audioComputeSequencer e s) = viewClk s"
  "viewCfg (audioComputeSequencer e s) = viewCfg s"
  by (simp_all add: audioComputeSequencer_def clockAudioSweep_views length_parts envelope_parts
      view_sequencePosition)

lemma audioComputeSequencer_sweep:
  "sweepInv s \<Longrightarrow> sweepInv (audioComputeSequencer e s)"
  "channel1Swept s \<Longrightarrow> channel1Swept (audioComputeSequencer e s)"
  by (simp_all add: audioComputeSequencer_def clockAudioSweep_inv clockAudioSweep_views
      inv_cong(3) [OF length_parts(3)] inv_cong(3) [OF envelope_parts(3)]
      inv_cong(3) [OF view_sequencePosition(3)]
      viewSwp_fields(4) [OF length_parts(3)] viewSwp_fields(4) [OF envelope_parts(3)])

lemmas sequencer_fields =
  viewRes_fields [OF audioComputeSequencer_views(1)]
  viewClk_fields [OF audioComputeSequencer_views(2)]
  viewCfg_fields [OF audioComputeSequencer_views(3)]

lemma generateAudio_sequencerEvent_views:
  "viewRes (generateAudio_sequencerEvent e s) = viewRes s"
  "viewCfg (generateAudio_sequencerEvent e s) = viewCfg s"
  "viewClk (generateAudio_sequencerEvent e s) =
     viewClk (s\<lparr>sequencerClocks :=
                (if sequencerClocks s = 0 then 0x2000 else sequencerClocks s)\<rparr>)"
  by (simp_all add: generateAudio_sequencerEvent_def views sequencer_fields)

lemma generateAudio_sequencerEvent_sweep:
  "sweepInv s \<Longrightarrow> sweepInv (generateAudio_sequencerEvent e s)"
  "channel1Swept s \<Longrightarrow> channel1Swept (generateAudio_sequencerEvent e s)"
  using audioComputeSequencer_sweep [of s e]
  by (simp_all add: generateAudio_sequencerEvent_def sweepInv_def)

lemma computeAudioChannels_clock_views:
  "viewRes (computeAudioChannels_clock s) = viewRes s"
  "viewSwp (computeAudioChannels_clock s) = viewSwp s"
  "viewCfg (computeAudioChannels_clock s) = viewCfg s"
  by (simp_all add: computeAudioChannels_clock_def views)

lemma computeAudioChannels_channel1_views:
  "viewRes (computeAudioChannels_channel1 e s) = viewRes s"
  "viewSwp (computeAudioChannels_channel1 e s) = viewSwp s"
  "viewCfg (computeAudioChannels_channel1 e s) = viewCfg s"
  "viewClk (computeAudioChannels_channel1 e s) =
     viewClk (s\<lparr>channel1FrequencyCounter :=
        (if channel1FrequencyCounter s = 0 then channel1FrequencyTracker s
         else channel1FrequencyCounter s)\<rparr>)"
  by (simp_all add: computeAudioChannels_channel1_def views cache_fields)

lemma computeAudioChannels_channel2_views:
  "viewRes (computeAudioChannels_channel2 e s) = viewRes s"
  "viewSwp (computeAudioChannels_channel2 e s) = viewSwp s"
  "viewCfg (computeAudioChannels_channel2 e s) = viewCfg s"
  "viewClk (computeAudioChannels_channel2 e s) =
     viewClk (s\<lparr>channel2FrequencyCounter :=
        (if channel2FrequencyCounter s = 0 then channel2FrequencyTracker s
         else channel2FrequencyCounter s)\<rparr>)"
  by (simp_all add: computeAudioChannels_channel2_def views cache_fields)

lemma computeAudioChannels_channel3_views:
  "viewRes (computeAudioChannels_channel3 e s) = viewRes s"
  "viewSwp (computeAudioChannels_channel3 e s) = viewSwp s"
  "viewCfg (computeAudioChannels_channel3 e s) = viewCfg s"
  "viewClk (computeAudioChannels_channel3 e s) =
     viewClk (s\<lparr>channel3Counter :=
        (if channel3Counter s = 0 then channel3FrequencyPeriod s else channel3Counter s)\<rparr>)"
  by (simp_all add: computeAudioChannels_channel3_def views cache_fields)

lemma computeAudioChannels_channel4_views:
  "viewRes (computeAudioChannels_channel4 e s) = viewRes s"
  "viewSwp (computeAudioChannels_channel4 e s) = viewSwp s"
  "viewCfg (computeAudioChannels_channel4 e s) = viewCfg s"
  "viewClk (computeAudioChannels_channel4 e s) =
     viewClk (s\<lparr>channel4Counter :=
        (if channel4Counter s = 0 then channel4FrequencyPeriod s else channel4Counter s)\<rparr>)"
  by (simp_all add: computeAudioChannels_channel4_def views cache_fields)

lemma computeAudioChannels_next_views:
  "viewRes (computeAudioChannels_next s) = viewRes s"
  "viewSwp (computeAudioChannels_next s) = viewSwp s"
  "viewCfg (computeAudioChannels_next s) = viewCfg s"
  by (simp_all add: computeAudioChannels_next_def views Let_def)

lemma computeAudioChannels_views:
  "viewRes (computeAudioChannels e s) = viewRes s"
  "viewSwp (computeAudioChannels e s) = viewSwp s"
  "viewCfg (computeAudioChannels e s) = viewCfg s"
  by (simp_all only: computeAudioChannels_def computeAudioChannels_next_views
      computeAudioChannels_channel4_views computeAudioChannels_channel3_views
      computeAudioChannels_channel2_views computeAudioChannels_channel1_views
      computeAudioChannels_clock_views)

lemmas channel_step_fields =
  viewClk_fields [OF computeAudioChannels_channel1_views(4)]
  viewClk_fields [OF computeAudioChannels_channel2_views(4)]
  viewClk_fields [OF computeAudioChannels_channel3_views(4)]
  viewClk_fields [OF computeAudioChannels_channel4_views(4)]
  viewSwp_fields [OF computeAudioChannels_channel1_views(2)]
  viewSwp_fields [OF computeAudioChannels_channel2_views(2)]
  viewSwp_fields [OF computeAudioChannels_channel3_views(2)]
  viewSwp_fields [OF computeAudioChannels_channel4_views(2)]
  viewCfg_fields [OF computeAudioChannels_channel1_views(3)]
  viewCfg_fields [OF computeAudioChannels_channel2_views(3)]
  viewCfg_fields [OF computeAudioChannels_channel3_views(3)]
  viewCfg_fields [OF computeAudioChannels_channel4_views(3)]

lemma clock_counters:
  "sequencerClocks (computeAudioChannels_clock s) = sequencerClocks s"
  "audioClocksUntilNextEvent (computeAudioChannels_clock s) = audioClocksUntilNextEvent s"
  "channel1FrequencyCounter (computeAudioChannels_clock s) =
     channel1FrequencyCounter s - audioClocksUntilNextEvent s"
  "channel2FrequencyCounter (computeAudioChannels_clock s) =
     channel2FrequencyCounter s - audioClocksUntilNextEvent s"
  "channel3Counter (computeAudioChannels_clock s) = channel3Counter s - audioClocksUntilNextEvent s"
  "channel4Counter (computeAudioChannels_clock s) = channel4Counter s - audioClocksUntilNextEvent s"
  by (simp_all add: computeAudioChannels_clock_def)

lemma channel1_counters:
  "sequencerClocks (computeAudioChannels_channel1 e s) = sequencerClocks s"
  "channel1FrequencyCounter (computeAudioChannels_channel1 e s) =
     (if channel1FrequencyCounter s = 0 then channel1FrequencyTracker s
      else channel1FrequencyCounter s)"
  "channel2FrequencyCounter (computeAudioChannels_channel1 e s) = channel2FrequencyCounter s"
  "channel3Counter (computeAudioChannels_channel1 e s) = channel3Counter s"
  "channel4Counter (computeAudioChannels_channel1 e s) = channel4Counter s"
  by (simp_all add: viewClk_fields [OF computeAudioChannels_channel1_views(4)])

lemma channel2_counters:
  "sequencerClocks (computeAudioChannels_channel2 e s) = sequencerClocks s"
  "channel1FrequencyCounter (computeAudioChannels_channel2 e s) = channel1FrequencyCounter s"
  "channel2FrequencyCounter (computeAudioChannels_channel2 e s) =
     (if channel2FrequencyCounter s = 0 then channel2FrequencyTracker s
      else channel2FrequencyCounter s)"
  "channel3Counter (computeAudioChannels_channel2 e s) = channel3Counter s"
  "channel4Counter (computeAudioChannels_channel2 e s) = channel4Counter s"
  by (simp_all add: viewClk_fields [OF computeAudioChannels_channel2_views(4)])

lemma channel3_counters:
  "sequencerClocks (computeAudioChannels_channel3 e s) = sequencerClocks s"
  "channel1FrequencyCounter (computeAudioChannels_channel3 e s) = channel1FrequencyCounter s"
  "channel2FrequencyCounter (computeAudioChannels_channel3 e s) = channel2FrequencyCounter s"
  "channel3Counter (computeAudioChannels_channel3 e s) =
     (if channel3Counter s = 0 then channel3FrequencyPeriod s else channel3Counter s)"
  "channel4Counter (computeAudioChannels_channel3 e s) = channel4Counter s"
  by (simp_all add: viewClk_fields [OF computeAudioChannels_channel3_views(4)])

lemma channel4_counters:
  "sequencerClocks (computeAudioChannels_channel4 e s) = sequencerClocks s"
  "channel1FrequencyCounter (computeAudioChannels_channel4 e s) = channel1FrequencyCounter s"
  "channel2FrequencyCounter (computeAudioChannels_channel4 e s) = channel2FrequencyCounter s"
  "channel3Counter (computeAudioChannels_channel4 e s) = channel3Counter s"
  "channel4Counter (computeAudioChannels_channel4 e s) =
     (if channel4Counter s = 0 then channel4FrequencyPeriod s else channel4Counter s)"
  by (simp_all add: viewClk_fields [OF computeAudioChannels_channel4_views(4)])

lemma next_counters:
  "sequencerClocks (computeAudioChannels_next s) = sequencerClocks s"
  "channel1FrequencyCounter (computeAudioChannels_next s) = channel1FrequencyCounter s"
  "channel2FrequencyCounter (computeAudioChannels_next s) = channel2FrequencyCounter s"
  "channel3Counter (computeAudioChannels_next s) = channel3Counter s"
  "channel4Counter (computeAudioChannels_next s) = channel4Counter s"
  "audioClocksUntilNextEvent (computeAudioChannels_next s) =
     min (min (channel1FrequencyCounter s) (channel2FrequencyCounter s))
         (min (channel3Counter s) (channel4Counter s))"
  "audioClocksUntilNextEventCounter (computeAudioChannels_next s) =
     min (min (channel1FrequencyCounter s) (channel2FrequencyCounter s))
         (min (channel3Counter s) (channel4Counter s))"
  by (simp_all add: computeAudioChannels_next_def Let_def)

lemmas step_trackers =
  viewSwp_fields(1) [OF computeAudioChannels_channel1_views(2)]
  viewSwp_fields(1) [OF computeAudioChannels_channel2_views(2)]
  viewSwp_fields(1) [OF computeAudioChannels_channel3_views(2)]
  viewSwp_fields(1) [OF computeAudioChannels_clock_views(2)]
  viewCfg_fields(3-5) [OF computeAudioChannels_channel1_views(3)]
  viewCfg_fields(3-5) [OF computeAudioChannels_channel2_views(3)]
  viewCfg_fields(3-5) [OF computeAudioChannels_channel3_views(3)]
  viewCfg_fields(3-5) [OF computeAudioChannels_clock_views(3)]

text \<open>The counters after a channel event, in closed form.\<close>

lemma computeAudioChannels_counters:
  "sequencerClocks (computeAudioChannels e s) = sequencerClocks s"
  "channel1FrequencyCounter (computeAudioChannels e s) =
     (if channel1FrequencyCounter s - audioClocksUntilNextEvent s = 0
      then channel1FrequencyTracker s
      else channel1FrequencyCounter s - audioClocksUntilNextEvent s)"
  "channel2FrequencyCounter (computeAudioChannels e s) =
     (if channel2FrequencyCounter s - audioClocksUntilNextEvent s = 0
      then channel2FrequencyTracker s
      else channel2FrequencyCounter s - audioClocksUntilNextEvent s)"
  "channel3Counter (computeAudioChannels e s) =
     (if channel3Counter s - audioClocksUntilNextEvent s = 0 then channel3FrequencyPeriod s
      else channel3Counter s - audioClocksUntilNextEvent s)"
  "channel4Counter (computeAudioChannels e s) =
     (if channel4Counter s - audioClocksUntilNextEvent s = 0 then channel4FrequencyPeriod s
      else channel4Counter s - audioClocksUntilNextEvent s)"
  by (simp_all only: computeAudioChannels_def next_counters channel4_counters channel3_counters
      channel2_counters channel1_counters clock_counters step_trackers)

lemma computeAudioChannels_next_event:
  "audioClocksUntilNextEvent (computeAudioChannels e s) =
     min (min (channel1FrequencyCounter (computeAudioChannels e s))
              (channel2FrequencyCounter (computeAudioChannels e s)))
         (min (channel3Counter (computeAudioChannels e s))
              (channel4Counter (computeAudioChannels e s)))"
  "audioClocksUntilNextEventCounter (computeAudioChannels e s) =
     audioClocksUntilNextEvent (computeAudioChannels e s)"
  by (simp_all only: computeAudioChannels_def next_counters)

lemma computeAudioChannels_clockInv:
  assumes "0 < sequencerClocks s"
    and "audioClocksUntilNextEvent s \<le> channel1FrequencyCounter s"
    and "audioClocksUntilNextEvent s \<le> channel2FrequencyCounter s"
    and "audioClocksUntilNextEvent s \<le> channel3Counter s"
    and "audioClocksUntilNextEvent s \<le> channel4Counter s"
    and "0 < channel1FrequencyTracker s" and "0 < channel2FrequencyTracker s"
    and "0 < channel3FrequencyPeriod s" and "0 < channel4FrequencyPeriod s"
  shows "clockInv (computeAudioChannels e s)"
proof -
  let ?t = "computeAudioChannels e s"
  have cfg: "channel2FrequencyTracker ?t = channel2FrequencyTracker s"
    "channel3FrequencyPeriod ?t = channel3FrequencyPeriod s"
    "channel4FrequencyPeriod ?t = channel4FrequencyPeriod s"
    by (simp_all add: viewCfg_fields [OF computeAudioChannels_views(3)])
  have pos: "0 < channel1FrequencyCounter ?t" "0 < channel2FrequencyCounter ?t"
    "0 < channel3Counter ?t" "0 < channel4Counter ?t"
    using assms by (simp_all add: computeAudioChannels_counters(2-5))
  have nxt: "audioClocksUntilNextEvent ?t =
     min (min (channel1FrequencyCounter ?t) (channel2FrequencyCounter ?t))
         (min (channel3Counter ?t) (channel4Counter ?t))"
    by (rule computeAudioChannels_next_event(1))
  have cnt: "audioClocksUntilNextEventCounter ?t = audioClocksUntilNextEvent ?t"
    by (rule computeAudioChannels_next_event(2))
  have seq: "sequencerClocks ?t = sequencerClocks s"
    by (rule computeAudioChannels_counters(1))
  show ?thesis
    unfolding clockInv_def cfg cnt seq using assms(1,7-9) pos nxt
    by (simp add: min_le_iff_disj)
qed

lemma generateAudio_channelEvent_views:
  "viewRes (generateAudio_channelEvent e s) = viewRes s"
  "viewSwp (generateAudio_channelEvent e s) = viewSwp s"
  "viewCfg (generateAudio_channelEvent e s) = viewCfg s"
  by (simp_all add: generateAudio_channelEvent_def computeAudioChannels_views)

lemma generateAudio_events_views:
  "viewRes (generateAudio_events e s) = viewRes s"
  "viewCfg (generateAudio_events e s) = viewCfg s"
  by (simp_all add: generateAudio_events_def generateAudio_channelEvent_views
      generateAudio_sequencerEvent_views)

lemma generateAudio_events_sweep:
  "sweepInv s \<Longrightarrow> sweepInv (generateAudio_events e s)"
  "channel1Swept s \<Longrightarrow> channel1Swept (generateAudio_events e s)"
  by (simp_all add: generateAudio_events_def generateAudio_sequencerEvent_sweep
      inv_cong(3) [OF generateAudio_channelEvent_views(2)]
      viewSwp_fields(4) [OF generateAudio_channelEvent_views(2)])

text \<open>After the countdown by a positive \<open>clockUpTo\<close>, the two events restore the invariant.\<close>

lemma generateAudio_events_clockInv:
  assumes "0 \<le> sequencerClocks s" and "0 \<le> audioClocksUntilNextEventCounter s"
    and "audioClocksUntilNextEvent s \<le> channel1FrequencyCounter s"
    and "audioClocksUntilNextEvent s \<le> channel2FrequencyCounter s"
    and "audioClocksUntilNextEvent s \<le> channel3Counter s"
    and "audioClocksUntilNextEvent s \<le> channel4Counter s"
    and "0 < channel2FrequencyTracker s"
    and "0 < channel3FrequencyPeriod s" and "0 < channel4FrequencyPeriod s"
    and "sweepInv s"
  shows "clockInv (generateAudio_events e s)"
proof -
  let ?q = "generateAudio_sequencerEvent e s"
  have clk: "sequencerClocks ?q = (if sequencerClocks s = 0 then 0x2000 else sequencerClocks s)"
    "audioClocksUntilNextEvent ?q = audioClocksUntilNextEvent s"
    "audioClocksUntilNextEventCounter ?q = audioClocksUntilNextEventCounter s"
    "channel1FrequencyCounter ?q = channel1FrequencyCounter s"
    "channel2FrequencyCounter ?q = channel2FrequencyCounter s"
    "channel3Counter ?q = channel3Counter s" "channel4Counter ?q = channel4Counter s"
    by (simp_all add: viewClk_fields [OF generateAudio_sequencerEvent_views(3)])
  have cfg: "channel2FrequencyTracker ?q = channel2FrequencyTracker s"
    "channel3FrequencyPeriod ?q = channel3FrequencyPeriod s"
    "channel4FrequencyPeriod ?q = channel4FrequencyPeriod s"
    by (simp_all add: viewCfg_fields [OF generateAudio_sequencerEvent_views(2)])
  have "sweepInv ?q" using assms(10) by (rule generateAudio_sequencerEvent_sweep(1))
  then have tr: "0 < channel1FrequencyTracker ?q" by (simp add: sweepInv_def)
  have seq: "0 < sequencerClocks ?q" using assms(1) by (simp add: clk)
  show ?thesis
  proof (cases "audioClocksUntilNextEventCounter ?q = 0")
    case True
    then have "generateAudio_events e s = computeAudioChannels e ?q"
      by (simp add: generateAudio_events_def generateAudio_channelEvent_def)
    moreover have "clockInv (computeAudioChannels e ?q)"
      using seq tr assms(3-9) by (intro computeAudioChannels_clockInv) (simp_all add: clk cfg)
    ultimately show ?thesis by simp
  next
    case False
    then have "generateAudio_events e s = ?q"
      by (simp add: generateAudio_events_def generateAudio_channelEvent_def)
    moreover have "clockInv ?q"
      using False seq assms(2-9) by (simp add: clockInv_def clk cfg)
    ultimately show ?thesis by simp
  qed
qed

subsection \<open>Audio: the resampler\<close>

lemma div_carry: "(a + b) div f = a div f + (a mod f + b) div (f::int)"
proof -
  have "(a + b) div f = (a mod f + b + (a div f) * f) div f"
    by (simp add: algebra_simps)
  also have "\<dots> = a div f + (a mod f + b) div f"
    using div_mult_self1 [of f "a mod f + b" "a div f"] by (cases "f = 0") simp_all
  finally show ?thesis .
qed

lemma resampled_refl: "resampleInv s \<Longrightarrow> resampled s 0 s"
  by (simp add: resampled_def resampleInv_def)

lemma resampled_trans:
  assumes "resampled s m s1" and "resampled s1 k s2"
  shows "resampled s (m + k) s2"
proof -
  let ?f = "audioResamplerFirstPassFactor s"
  have f: "audioResamplerFirstPassFactor s1 = ?f"
    using assms(1) by (simp add: resampled_def viewCfg_def)
  have i: "audioIndex s1 = (audioIndex s + m) mod ?f"
    using assms(1) by (simp add: resampled_def)
  have "audioIndex s2 = ((audioIndex s + m) mod ?f + k) mod ?f"
    using assms(2) by (simp add: resampled_def f i)
  then have idx: "audioIndex s2 = (audioIndex s + (m + k)) mod ?f"
    by (simp add: mod_add_left_eq add.assoc)
  have "samplesEmitted s2 =
        samplesEmitted s + 2 * ((audioIndex s + m) div ?f) +
        2 * (((audioIndex s + m) mod ?f + k) div ?f)"
    using assms by (simp add: resampled_def f i)
  also have "\<dots> = samplesEmitted s + 2 * ((audioIndex s + m + k) div ?f)"
    by (simp add: div_carry [of "audioIndex s + m" k ?f])
  finally have em: "samplesEmitted s2 = samplesEmitted s + 2 * ((audioIndex s + (m + k)) div ?f)"
    by (simp add: add.assoc)
  show ?thesis
    using assms idx em by (simp add: resampled_def)
qed

lemma resampled_cong:
  assumes "resampled s n s1" and "viewRes s1' = viewRes s1" and "viewCfg s1' = viewCfg s1"
  shows "resampled s n s1'"
  using assms inv_cong(1) [OF assms(2,3)] inv_cong(4) [OF assms(2)]
  by (simp add: resampled_def viewRes_def)

lemma resampled_cong_start:
  assumes "resampled s0 n s1" and "viewRes s0 = viewRes s" and "viewCfg s0 = viewCfg s"
  shows "resampled s n s1"
  using assms inv_cong(4) [OF assms(2)]
  by (simp add: resampled_def viewRes_def viewCfg_def)

lemma outputAudio_store_fields:
  "audioDestinationPosition (outputAudio_store s v) = audioDestinationPosition s + 1"
  "audioServer (outputAudio_store s v) = audioServer s"
  "audioIndex (outputAudio_store s v) = audioIndex s"
  "viewClk (outputAudio_store s v) = viewClk s"
  "viewSwp (outputAudio_store s v) = viewSwp s"
  "viewCfg (outputAudio_store s v) = viewCfg s"
  by (simp_all add: outputAudio_store_def audioBuffer_set_def views)

lemma outputAudio_flush_fields:
  "audioDestinationPosition (outputAudio_flush s) =
     (if audioDestinationPosition s = numSamplesTotal s then 0 else audioDestinationPosition s)"
  "int (length (audioServer (outputAudio_flush s))) =
     (if audioDestinationPosition s = numSamplesTotal s
      then int (length (audioServer s)) + max 0 (numSamplesTotal s)
      else int (length (audioServer s)))"
  "audioIndex (outputAudio_flush s) = audioIndex s"
  "viewClk (outputAudio_flush s) = viewClk s"
  "viewSwp (outputAudio_flush s) = viewSwp s"
  "viewCfg (outputAudio_flush s) = viewCfg s"
  by (simp_all add: outputAudio_flush_def writeAudio_def views)

lemma outputAudio_views:
  "audioIndex (outputAudio s) = audioIndex s"
  "viewClk (outputAudio s) = viewClk s"
  "viewSwp (outputAudio s) = viewSwp s"
  "viewCfg (outputAudio s) = viewCfg s"
proof -
  have upd: "audioIndex (x\<lparr>downsampleInput := 0\<rparr>) = audioIndex x"
    "viewClk (x\<lparr>downsampleInput := 0\<rparr>) = viewClk x"
    "viewSwp (x\<lparr>downsampleInput := 0\<rparr>) = viewSwp x"
    "viewCfg (x\<lparr>downsampleInput := 0\<rparr>) = viewCfg x" for x
    by (simp_all add: views)
  show "audioIndex (outputAudio s) = audioIndex s"
    "viewClk (outputAudio s) = viewClk s"
    "viewSwp (outputAudio s) = viewSwp s"
    "viewCfg (outputAudio s) = viewCfg s"
    by (simp_all only: outputAudio_def upd outputAudio_flush_fields outputAudio_store_fields)
qed

lemma outputAudio_emitted:
  assumes "0 \<le> audioDestinationPosition s"
    and "audioDestinationPosition s < numSamplesTotal s"
    and "even (audioDestinationPosition s)" and "even (numSamplesTotal s)"
  shows "samplesEmitted (outputAudio s) = samplesEmitted s + 2"
    "0 \<le> audioDestinationPosition (outputAudio s)"
    "audioDestinationPosition (outputAudio s) < numSamplesTotal s"
    "even (audioDestinationPosition (outputAudio s))"
proof -
  let ?a = "outputAudio_store s (of_int (js_shr (downsampleInput s) 16) * downSampleInputDivider s - 1)"
  let ?b = "outputAudio_store ?a (of_int (js_and (downsampleInput s) 0xffff) * downSampleInputDivider s - 1)"
  have total: "numSamplesTotal ?b = numSamplesTotal s"
    by (simp add: viewCfg_fields(2) [OF outputAudio_store_fields(6)])
  have pos: "audioDestinationPosition ?b = audioDestinationPosition s + 2"
    by (simp add: outputAudio_store_fields)
  have srv: "audioServer ?b = audioServer s"
    by (simp add: outputAudio_store_fields)
  have le: "audioDestinationPosition s + 2 \<le> numSamplesTotal s"
  proof (rule ccontr)
    assume "\<not> audioDestinationPosition s + 2 \<le> numSamplesTotal s"
    then have "numSamplesTotal s = audioDestinationPosition s + 1" using assms(2) by simp
    then show False using assms(3,4) by simp
  qed
  have out: "audioDestinationPosition (outputAudio s) = audioDestinationPosition (outputAudio_flush ?b)"
    "audioServer (outputAudio s) = audioServer (outputAudio_flush ?b)"
    by (simp_all add: outputAudio_def)
  show "samplesEmitted (outputAudio s) = samplesEmitted s + 2"
    using le assms(1)
    by (simp add: samplesEmitted_def out outputAudio_flush_fields total pos srv)
  show "0 \<le> audioDestinationPosition (outputAudio s)"
    using assms(1) by (simp add: out outputAudio_flush_fields total pos)
  show "audioDestinationPosition (outputAudio s) < numSamplesTotal s"
    using le assms(1) by (simp add: out outputAudio_flush_fields total pos)
  show "even (audioDestinationPosition (outputAudio s))"
    using assms(3) by (simp add: out outputAudio_flush_fields total pos)
qed

lemma generateAudio_emit_views:
  "viewClk (generateAudio_emit s) = viewClk s"
  "viewSwp (generateAudio_emit s) = viewSwp s"
  "viewCfg (generateAudio_emit s) = viewCfg s"
proof -
  have upd: "viewClk (x\<lparr>audioIndex := 0\<rparr>) = viewClk x"
    "viewSwp (x\<lparr>audioIndex := 0\<rparr>) = viewSwp x"
    "viewCfg (x\<lparr>audioIndex := 0\<rparr>) = viewCfg x" for x
    by (simp_all add: views)
  show "viewClk (generateAudio_emit s) = viewClk s"
    "viewSwp (generateAudio_emit s) = viewSwp s"
    "viewCfg (generateAudio_emit s) = viewCfg s"
    by (simp_all add: generateAudio_emit_def outputAudio_views upd)
qed

text \<open>One step of the resampler, from a state that is aligned except for its index.\<close>

lemma generateAudio_emit_resampled:
  assumes "resampleInv s" and "0 < m" and "m \<le> audioResamplerFirstPassFactor s - audioIndex s"
    and "viewRes x = viewRes (s\<lparr>audioIndex := audioIndex s + m\<rparr>)"
    and "viewCfg x = viewCfg s"
  shows "resampled s m (generateAudio_emit x)"
proof -
  let ?f = "audioResamplerFirstPassFactor s"
  have inv: "1 \<le> ?f" "0 \<le> audioIndex s" "audioIndex s < ?f"
    "0 \<le> audioDestinationPosition s" "audioDestinationPosition s < numSamplesTotal s"
    "even (audioDestinationPosition s)" "even (numSamplesTotal s)"
    using assms(1) by (simp_all add: resampleInv_def)
  have x: "audioIndex x = audioIndex s + m"
    "audioDestinationPosition x = audioDestinationPosition s" "audioServer x = audioServer s"
    "audioResamplerFirstPassFactor x = ?f" "numSamplesTotal x = numSamplesTotal s"
    using assms(4,5) by (simp_all add: viewRes_def viewCfg_def)
  have cfg: "viewCfg (generateAudio_emit x) = viewCfg s"
    by (simp add: generateAudio_emit_views assms(5))
  show ?thesis
  proof (cases "audioIndex s + m = ?f")
    case True
    let ?y = "x\<lparr>audioIndex := 0\<rparr>"
    have y: "audioDestinationPosition ?y = audioDestinationPosition s"
      "numSamplesTotal ?y = numSamplesTotal s" "samplesEmitted ?y = samplesEmitted s"
      by (simp_all add: x samplesEmitted_def)
    have e: "generateAudio_emit x = outputAudio ?y"
      using True by (simp add: generateAudio_emit_def x)
    have o: "samplesEmitted (outputAudio ?y) = samplesEmitted ?y + 2"
      "0 \<le> audioDestinationPosition (outputAudio ?y)"
      "audioDestinationPosition (outputAudio ?y) < numSamplesTotal ?y"
      "even (audioDestinationPosition (outputAudio ?y))"
      using outputAudio_emitted [of ?y] inv(4-7) by (simp_all only: y)
    have i: "audioIndex (outputAudio ?y) = 0" by (simp add: outputAudio_views)
    have c: "audioResamplerFirstPassFactor (outputAudio ?y) = ?f"
      "numSamplesTotal (outputAudio ?y) = numSamplesTotal s"
      using cfg by (simp_all add: e viewCfg_def)
    show ?thesis
      using True inv o i c cfg
      by (simp add: resampled_def resampleInv_def e y)
  next
    case False
    then have e: "generateAudio_emit x = x" by (simp add: generateAudio_emit_def x)
    have lt: "audioIndex s + m < ?f" using False assms(3) by simp
    have "(audioIndex s + m) mod ?f = audioIndex s + m" "(audioIndex s + m) div ?f = 0"
      using lt inv(2) assms(2) by simp_all
    then show ?thesis
      using inv lt assms(2,5)
      by (simp add: resampled_def resampleInv_def e x samplesEmitted_def)
  qed
qed

lemma generateAudio_accumulate_resampled:
  assumes "resampleInv s" and "0 < m" and "m \<le> audioResamplerFirstPassFactor s - audioIndex s"
  shows "resampled s m (generateAudio_accumulate s m)"
  unfolding generateAudio_accumulate_def
  using assms by (rule generateAudio_emit_resampled) (simp_all add: views)

lemma generateAudio_skip_resampled:
  assumes "resampleInv s" and "0 < m" and "m \<le> audioResamplerFirstPassFactor s - audioIndex s"
  shows "resampled s m (generateAudio_skip s m)"
  unfolding generateAudio_skip_def
  using assms by (rule generateAudio_emit_resampled) (simp_all add: views)

lemma generateAudio_accumulate_views:
  "viewClk (generateAudio_accumulate s m) = viewClk s"
  "viewSwp (generateAudio_accumulate s m) = viewSwp s"
  "viewCfg (generateAudio_accumulate s m) = viewCfg s"
  by (simp_all add: generateAudio_accumulate_def generateAudio_emit_views) (simp_all add: views)

lemma generateAudio_skip_views:
  "viewClk (generateAudio_skip s m) = viewClk s"
  "viewSwp (generateAudio_skip s m) = viewSwp s"
  "viewCfg (generateAudio_skip s m) = viewCfg s"
  by (simp_all add: generateAudio_skip_def generateAudio_emit_views) (simp_all add: views)

subsection \<open>Audio: the loops return\<close>

lemma generateAudio_resample_total:
  "resampleInv s \<Longrightarrow> 0 \<le> n \<Longrightarrow>
   \<exists>s'. generateAudio_resample s n = Some s' \<and> resampled s n s' \<and>
        viewClk s' = viewClk s \<and> viewSwp s' = viewSwp s"
proof (induction "nat n" arbitrary: s n rule: less_induct)
  case less
  show ?case
  proof (cases "n > 0")
    case False
    then have "n = 0" using less.prems by simp
    then show ?thesis
      using less.prems by (simp add: generateAudio_resample.simps [of s 0] resampled_refl)
  next
    case True
    let ?m = "min n (audioResamplerFirstPassFactor s - audioIndex s)"
    let ?s1 = "generateAudio_accumulate s ?m"
    have m: "0 < ?m" "?m \<le> audioResamplerFirstPassFactor s - audioIndex s" "?m \<le> n"
      using True less.prems(1) by (simp_all add: resampleInv_def)
    have r1: "resampled s ?m ?s1"
      using less.prems(1) m(1,2) by (rule generateAudio_accumulate_resampled)
    then have inv1: "resampleInv ?s1" by (simp add: resampled_def)
    have "nat (n - ?m) < nat n" using m True by simp
    then have "\<exists>s'. generateAudio_resample ?s1 (n - ?m) = Some s' \<and>
        resampled ?s1 (n - ?m) s' \<and> viewClk s' = viewClk ?s1 \<and> viewSwp s' = viewSwp ?s1"
      using inv1 m(3) by (intro less.hyps) simp_all
    then obtain s' where s': "generateAudio_resample ?s1 (n - ?m) = Some s'"
      "resampled ?s1 (n - ?m) s'" "viewClk s' = viewClk ?s1" "viewSwp s' = viewSwp ?s1"
      by blast
    have "resampled s (?m + (n - ?m)) s'" using r1 s'(2) by (rule resampled_trans)
    then have r: "resampled s n s'" by simp
    have "generateAudio_resample s n = generateAudio_resample ?s1 (n - ?m)"
      using True by (subst generateAudio_resample.simps) simp
    then have "generateAudio_resample s n = Some s'" using s'(1) by simp
    then show ?thesis
      using r s'(3,4) by (simp add: generateAudio_accumulate_views)
  qed
qed

lemma generateAudio_silent_total:
  "resampleInv s \<Longrightarrow> 0 \<le> n \<Longrightarrow>
   \<exists>s'. generateAudio_silent s n = Some s' \<and> resampled s n s' \<and>
        viewClk s' = viewClk s \<and> viewSwp s' = viewSwp s"
proof (induction "nat n" arbitrary: s n rule: less_induct)
  case less
  show ?case
  proof (cases "n > 0")
    case False
    then have "n = 0" using less.prems by simp
    then show ?thesis
      using less.prems by (simp add: generateAudio_silent.simps [of s 0] resampled_refl)
  next
    case True
    let ?m = "min n (audioResamplerFirstPassFactor s - audioIndex s)"
    let ?s1 = "generateAudio_skip s ?m"
    have m: "0 < ?m" "?m \<le> audioResamplerFirstPassFactor s - audioIndex s" "?m \<le> n"
      using True less.prems(1) by (simp_all add: resampleInv_def)
    have r1: "resampled s ?m ?s1"
      using less.prems(1) m(1,2) by (rule generateAudio_skip_resampled)
    then have inv1: "resampleInv ?s1" by (simp add: resampled_def)
    have "nat (n - ?m) < nat n" using m True by simp
    then have "\<exists>s'. generateAudio_silent ?s1 (n - ?m) = Some s' \<and>
        resampled ?s1 (n - ?m) s' \<and> viewClk s' = viewClk ?s1 \<and> viewSwp s' = viewSwp ?s1"
      using inv1 m(3) by (intro less.hyps) simp_all
    then obtain s' where s': "generateAudio_silent ?s1 (n - ?m) = Some s'"
      "resampled ?s1 (n - ?m) s'" "viewClk s' = viewClk ?s1" "viewSwp s' = viewSwp ?s1"
      by blast
    have "resampled s (?m + (n - ?m)) s'" using r1 s'(2) by (rule resampled_trans)
    then have r: "resampled s n s'" by simp
    have "generateAudio_silent s n = generateAudio_silent ?s1 (n - ?m)"
      using True by (subst generateAudio_silent.simps) simp
    then have "generateAudio_silent s n = Some s'" using s'(1) by simp
    then show ?thesis
      using r s'(3,4) by (simp add: generateAudio_skip_views)
  qed
qed

lemma generateAudio_clock_views:
  "viewRes (generateAudio_clock s c) = viewRes s"
  "viewSwp (generateAudio_clock s c) = viewSwp s"
  "viewCfg (generateAudio_clock s c) = viewCfg s"
  "viewClk (generateAudio_clock s c) =
     viewClk (s\<lparr>audioClocksUntilNextEventCounter := audioClocksUntilNextEventCounter s - c,
                sequencerClocks := sequencerClocks s - c\<rparr>)"
  by (simp_all add: generateAudio_clock_def views)

text \<open>
  One turn of the audible loop: the countdown, the resampling of \<open>clockUpTo\<close> clocks and
  the events.
\<close>

lemma generateAudio_loop_turn:
  assumes "audioInv s" and "0 < n"
  defines "c \<equiv> generateAudio_clockUpTo s n"
  shows "0 < c \<and> c \<le> n \<and>
    (\<exists>s2. generateAudio_resample (generateAudio_clock s c) c = Some s2 \<and>
       resampled s c (generateAudio_events e s2) \<and> audioInv (generateAudio_events e s2) \<and>
       (channel1Swept s \<longrightarrow> channel1Swept (generateAudio_events e s2)))"
proof -
  have inv: "resampleInv s" "clockInv s" "sweepInv s"
    using assms(1) by (simp_all add: audioInv_def)
  have clk: "0 < sequencerClocks s" "0 < audioClocksUntilNextEventCounter s"
    "audioClocksUntilNextEvent s \<le> channel1FrequencyCounter s"
    "audioClocksUntilNextEvent s \<le> channel2FrequencyCounter s"
    "audioClocksUntilNextEvent s \<le> channel3Counter s"
    "audioClocksUntilNextEvent s \<le> channel4Counter s"
    "0 < channel2FrequencyTracker s" "0 < channel3FrequencyPeriod s"
    "0 < channel4FrequencyPeriod s"
    using inv(2) by (simp_all add: clockInv_def)
  have c: "0 < c" "c \<le> n" "c \<le> sequencerClocks s" "c \<le> audioClocksUntilNextEventCounter s"
    using clk(1,2) assms(2) by (simp_all add: c_def generateAudio_clockUpTo_def)
  let ?s1 = "generateAudio_clock s c"
  have inv1: "resampleInv ?s1"
    using inv(1)
    by (simp add: inv_cong(1) [OF generateAudio_clock_views(1) generateAudio_clock_views(3)])
  have "\<exists>s2. generateAudio_resample ?s1 c = Some s2 \<and> resampled ?s1 c s2 \<and>
        viewClk s2 = viewClk ?s1 \<and> viewSwp s2 = viewSwp ?s1"
    using inv1 c(1) by (intro generateAudio_resample_total) simp_all
  then obtain s2 where s2: "generateAudio_resample ?s1 c = Some s2" "resampled ?s1 c s2"
    "viewClk s2 = viewClk ?s1" "viewSwp s2 = viewSwp ?s1"
    by blast
  let ?s3 = "generateAudio_events e s2"
  have cfg2: "viewCfg s2 = viewCfg s"
    using s2(2) by (simp add: resampled_def generateAudio_clock_views)
  have swp2: "viewSwp s2 = viewSwp s"
    using s2(4) by (simp add: generateAudio_clock_views)
  have clk2: "viewClk s2 =
     viewClk (s\<lparr>audioClocksUntilNextEventCounter := audioClocksUntilNextEventCounter s - c,
                sequencerClocks := sequencerClocks s - c\<rparr>)"
    using s2(3) by (simp add: generateAudio_clock_views)
  have sw2: "sweepInv s2" using inv(3) by (simp add: inv_cong(3) [OF swp2])
  have r: "resampled s c s2"
    using s2(2) generateAudio_clock_views(1) generateAudio_clock_views(3)
    by (rule resampled_cong_start)
  have r3: "resampled s c ?s3"
    using r generateAudio_events_views by (rule resampled_cong)
  have "clockInv ?s3"
    using c(3,4) clk(3-9) sw2
    by (intro generateAudio_events_clockInv)
       (simp_all add: viewClk_fields [OF clk2] viewCfg_fields [OF cfg2])
  moreover have "sweepInv ?s3" using sw2 by (rule generateAudio_events_sweep)
  moreover have "resampleInv ?s3" using r3 by (simp add: resampled_def)
  ultimately have inv3: "audioInv ?s3" by (simp add: audioInv_def)
  have "channel1Swept s \<longrightarrow> channel1Swept ?s3"
    using generateAudio_events_sweep(2) [of s2 e] by (simp add: viewSwp_fields(4) [OF swp2])
  then show ?thesis using c(1,2) s2(1) r3 inv3 by blast
qed

lemma generateAudio_loop_total:
  "audioInv s \<Longrightarrow> 0 \<le> n \<Longrightarrow>
   \<exists>s'. generateAudio_loop e s n = Some s' \<and> resampled s n s' \<and> audioInv s' \<and>
        (channel1Swept s \<longrightarrow> channel1Swept s')"
proof (induction "nat n" arbitrary: s n rule: less_induct)
  case less
  show ?case
  proof (cases "n > 0")
    case False
    then have "n = 0" using less.prems by simp
    then show ?thesis
      using less.prems
      by (simp add: generateAudio_loop.simps [of e s 0] resampled_refl audioInv_def)
  next
    case True
    let ?c = "generateAudio_clockUpTo s n"
    obtain s2 where c: "0 < ?c" "?c \<le> n"
      and s2: "generateAudio_resample (generateAudio_clock s ?c) ?c = Some s2"
        "resampled s ?c (generateAudio_events e s2)" "audioInv (generateAudio_events e s2)"
        "channel1Swept s \<longrightarrow> channel1Swept (generateAudio_events e s2)"
      using generateAudio_loop_turn [OF less.prems(1) True, of e] by blast
    let ?s3 = "generateAudio_events e s2"
    have "nat (n - ?c) < nat n" using c True by simp
    then have "\<exists>s'. generateAudio_loop e ?s3 (n - ?c) = Some s' \<and>
        resampled ?s3 (n - ?c) s' \<and> audioInv s' \<and> (channel1Swept ?s3 \<longrightarrow> channel1Swept s')"
      using s2(3) c(2) by (intro less.hyps) simp_all
    then obtain s' where s': "generateAudio_loop e ?s3 (n - ?c) = Some s'"
      "resampled ?s3 (n - ?c) s'" "audioInv s'" "channel1Swept ?s3 \<longrightarrow> channel1Swept s'"
      by blast
    have "resampled s (?c + (n - ?c)) s'" using s2(2) s'(2) by (rule resampled_trans)
    then have r: "resampled s n s'" by simp
    have "generateAudio_loop e s n = generateAudio_loop e ?s3 (n - ?c)"
      using True s2(1) by (subst generateAudio_loop.simps) simp
    then have "generateAudio_loop e s n = Some s'" using s'(1) by simp
    then show ?thesis using r s'(3,4) s2(4) by blast
  qed
qed

subsection \<open>Audio: what a flush leaves alone\<close>

lemma outputAudio_viewCPU: "viewCPU (outputAudio s) = viewCPU s"
  by (simp add: outputAudio_def outputAudio_flush_def outputAudio_store_def audioBuffer_set_def
      writeAudio_def viewCPU_def)

lemma generateAudio_emit_viewCPU: "viewCPU (generateAudio_emit s) = viewCPU s"
  by (simp add: generateAudio_emit_def outputAudio_viewCPU) (simp add: viewCPU_def)

lemma generateAudio_step_viewCPU:
  "viewCPU (generateAudio_accumulate s m) = viewCPU s"
  "viewCPU (generateAudio_skip s m) = viewCPU s"
  by (simp_all add: generateAudio_accumulate_def generateAudio_skip_def
      generateAudio_emit_viewCPU) (simp_all add: viewCPU_def)

lemma generateAudio_resample_frame:
  assumes "generateAudio_resample s n = Some s'"
  shows "viewClk s' = viewClk s \<and> viewSwp s' = viewSwp s \<and> viewCfg s' = viewCfg s \<and>
         viewCPU s' = viewCPU s"
proof (rule generateAudio_resample.raw_induct [where P = "\<lambda>s n s'. viewClk s' = viewClk s \<and>
         viewSwp s' = viewSwp s \<and> viewCfg s' = viewCfg s \<and> viewCPU s' = viewCPU s", OF _ assms])
  fix f s n sa
  assume IH: "\<And>s n y. f s n = Some y \<Longrightarrow>
      viewClk y = viewClk s \<and> viewSwp y = viewSwp s \<and> viewCfg y = viewCfg s \<and>
      viewCPU y = viewCPU s"
    and step: "(if 0 < n
       then f (generateAudio_accumulate s (min n (audioResamplerFirstPassFactor s - audioIndex s)))
              (n - min n (audioResamplerFirstPassFactor s - audioIndex s))
       else Some s) = Some sa"
  let ?m = "min n (audioResamplerFirstPassFactor s - audioIndex s)"
  show "viewClk sa = viewClk s \<and> viewSwp sa = viewSwp s \<and> viewCfg sa = viewCfg s \<and>
        viewCPU sa = viewCPU s"
  proof (cases "0 < n")
    case True
    with step have "f (generateAudio_accumulate s ?m) (n - ?m) = Some sa" by simp
    from IH [OF this] show ?thesis
      by (simp add: generateAudio_accumulate_views generateAudio_step_viewCPU)
  next
    case False
    with step show ?thesis by simp
  qed
qed

lemma generateAudio_silent_frame:
  assumes "generateAudio_silent s n = Some s'"
  shows "viewClk s' = viewClk s \<and> viewSwp s' = viewSwp s \<and> viewCfg s' = viewCfg s \<and>
         viewCPU s' = viewCPU s"
proof (rule generateAudio_silent.raw_induct [where P = "\<lambda>s n s'. viewClk s' = viewClk s \<and>
         viewSwp s' = viewSwp s \<and> viewCfg s' = viewCfg s \<and> viewCPU s' = viewCPU s", OF _ assms])
  fix f s n sa
  assume IH: "\<And>s n y. f s n = Some y \<Longrightarrow>
      viewClk y = viewClk s \<and> viewSwp y = viewSwp s \<and> viewCfg y = viewCfg s \<and>
      viewCPU y = viewCPU s"
    and step: "(if 0 < n
       then f (generateAudio_skip s (min n (audioResamplerFirstPassFactor s - audioIndex s)))
              (n - min n (audioResamplerFirstPassFactor s - audioIndex s))
       else Some s) = Some sa"
  let ?m = "min n (audioResamplerFirstPassFactor s - audioIndex s)"
  show "viewClk sa = viewClk s \<and> viewSwp sa = viewSwp s \<and> viewCfg sa = viewCfg s \<and>
        viewCPU sa = viewCPU s"
  proof (cases "0 < n")
    case True
    with step have "f (generateAudio_skip s ?m) (n - ?m) = Some sa" by simp
    from IH [OF this] show ?thesis
      by (simp add: generateAudio_skip_views generateAudio_step_viewCPU)
  next
    case False
    with step show ?thesis by simp
  qed
qed

lemma generateAudio_events_frame:
  "viewCfg (generateAudio_events e (generateAudio_clock s c)) = viewCfg s"
  "channel1Swept s \<Longrightarrow> channel1Swept (generateAudio_events e (generateAudio_clock s c))"
  by (simp_all add: generateAudio_events_views generateAudio_clock_views
      generateAudio_events_sweep viewSwp_fields(4) [OF generateAudio_clock_views(2)])

lemma generateAudio_loop_frame:
  assumes "generateAudio_loop e s n = Some s'"
  shows "viewCfg s' = viewCfg s \<and> (channel1Swept s \<longrightarrow> channel1Swept s')"
proof (rule generateAudio_loop.raw_induct [where P = "\<lambda>e s n s'. viewCfg s' = viewCfg s \<and>
         (channel1Swept s \<longrightarrow> channel1Swept s')", OF _ assms])
  fix f e s n sa
  assume IH: "\<And>e s n y. f e s n = Some y \<Longrightarrow>
      viewCfg y = viewCfg s \<and> (channel1Swept s \<longrightarrow> channel1Swept y)"
    and step: "(if 0 < n
       then case generateAudio_resample
                   (generateAudio_clock s (generateAudio_clockUpTo s n))
                   (generateAudio_clockUpTo s n) of
              None \<Rightarrow> None
            | Some s2 \<Rightarrow> f e (generateAudio_events e s2) (n - generateAudio_clockUpTo s n)
       else Some s) = Some sa"
  let ?c = "generateAudio_clockUpTo s n"
  show "viewCfg sa = viewCfg s \<and> (channel1Swept s \<longrightarrow> channel1Swept sa)"
  proof (cases "0 < n")
    case True
    with step obtain s2 where s2: "generateAudio_resample (generateAudio_clock s ?c) ?c = Some s2"
      and rest: "f e (generateAudio_events e s2) (n - ?c) = Some sa"
      by (auto split: option.splits)
    have r: "viewSwp s2 = viewSwp s" "viewCfg s2 = viewCfg s"
      using generateAudio_resample_frame [OF s2] by (simp_all add: generateAudio_clock_views)
    have "viewCfg (generateAudio_events e s2) = viewCfg s"
      by (simp add: generateAudio_events_views r)
    moreover have "channel1Swept s \<longrightarrow> channel1Swept (generateAudio_events e s2)"
      using generateAudio_events_sweep(2) [of s2 e] by (simp add: viewSwp_fields(4) [OF r(1)])
    ultimately show ?thesis using IH [OF rest] by simp
  next
    case False
    with step show ?thesis by simp
  qed
qed

lemma generateAudioFake_loop_frame:
  assumes "generateAudioFake_loop e s n = Some s'"
  shows "viewCfg s' = viewCfg s \<and> (channel1Swept s \<longrightarrow> channel1Swept s')"
proof (rule generateAudioFake_loop.raw_induct [where P = "\<lambda>e s n s'. viewCfg s' = viewCfg s \<and>
         (channel1Swept s \<longrightarrow> channel1Swept s')", OF _ assms])
  fix f e s n sa
  assume IH: "\<And>e s n y. f e s n = Some y \<Longrightarrow>
      viewCfg y = viewCfg s \<and> (channel1Swept s \<longrightarrow> channel1Swept y)"
    and step: "(if 0 < n
       then f e (generateAudio_events e (generateAudio_clock s (generateAudio_clockUpTo s n)))
              (n - generateAudio_clockUpTo s n)
       else Some s) = Some sa"
  let ?c = "generateAudio_clockUpTo s n"
  show "viewCfg sa = viewCfg s \<and> (channel1Swept s \<longrightarrow> channel1Swept sa)"
  proof (cases "0 < n")
    case True
    with step have rest: "f e (generateAudio_events e (generateAudio_clock s ?c)) (n - ?c) = Some sa"
      by simp
    show ?thesis
      using IH [OF rest] generateAudio_events_frame [where e = e and s = s and c = ?c] by simp
  next
    case False
    with step show ?thesis by simp
  qed
qed

text \<open>What a flush of the pending audio leaves alone, whenever it returns.\<close>

lemma audioJIT_frame:
  assumes "audioJIT e s = Some s'"
  shows "viewCfg s' = viewCfg s" "channel1Swept s \<Longrightarrow> channel1Swept s'"
proof -
  obtain s1 where s1: "s' = s1\<lparr>audioTicks := 0\<rparr>"
    and g: "generateAudio_loop e s (audioTicks s) = Some s1 \<or>
            generateAudio_silent s (audioTicks s) = Some s1 \<or>
            generateAudioFake_loop e s (audioTicks s) = Some s1 \<or> s1 = s"
    using assms
    by (auto simp add: audioJIT_def generateAudio_def generateAudioFake_def split: if_splits)
  have "viewCfg s1 = viewCfg s \<and> (channel1Swept s \<longrightarrow> channel1Swept s1)"
    using g generateAudio_loop_frame [of e s "audioTicks s" s1]
      generateAudio_silent_frame [of s "audioTicks s" s1]
      generateAudioFake_loop_frame [of e s "audioTicks s" s1]
    by (auto simp add: viewSwp_def)
  then show "viewCfg s' = viewCfg s" "channel1Swept s \<Longrightarrow> channel1Swept s'"
    by (simp_all add: s1 viewCfg_def)
qed

subsection \<open>Audio: samples per clock\<close>

lemma exampleCore_fields:
  "audioIndex exampleCore = 0" "audioDestinationPosition exampleCore = 0"
  "audioServer exampleCore = []" "audioResamplerFirstPassFactor exampleCore = 95"
  "numSamplesTotal exampleCore = 706" "soundMasterEnabled exampleCore"
  "\<not> CPUStopped exampleCore" "stopEmulator exampleCore = 1"
  by (simp_all add: exampleCore_def initializeAudioStartState_def Let_def cache_fields zeroCore_def)

lemma exampleCore_clocks:
  "sequencerClocks exampleCore = 0x2000" "audioClocksUntilNextEvent exampleCore = 1"
  "audioClocksUntilNextEventCounter exampleCore = 1"
  "channel1FrequencyCounter exampleCore = 0x2000" "channel2FrequencyCounter exampleCore = 0x2000"
  "channel3Counter exampleCore = 0x800" "channel4Counter exampleCore = 8"
  "channel2FrequencyTracker exampleCore = 0x2000" "channel3FrequencyPeriod exampleCore = 0x800"
  "channel4FrequencyPeriod exampleCore = 8"
  "channel1FrequencyTracker exampleCore = 0x2000" "channel1ShadowFrequency exampleCore = 0"
  "\<not> channel1SweepFault exampleCore"
  by (simp_all add: exampleCore_def initializeAudioStartState_def Let_def cache_fields zeroCore_def)





subsection \<open>Audio: a flush returns\<close>

lemma view_audioTicks:
  "viewRes (s\<lparr>audioTicks := t\<rparr>) = viewRes s" "viewClk (s\<lparr>audioTicks := t\<rparr>) = viewClk s"
  "viewSwp (s\<lparr>audioTicks := t\<rparr>) = viewSwp s" "viewCfg (s\<lparr>audioTicks := t\<rparr>) = viewCfg s"
  "viewCPU (s\<lparr>audioTicks := t\<rparr>) = viewCPU s"
  by (simp_all add: views viewCPU_def)

lemma audioInv_cong:
  assumes "viewRes a = viewRes b" and "viewClk a = viewClk b" and "viewSwp a = viewSwp b"
    and "viewCfg a = viewCfg b"
  shows "audioInv a = audioInv b"
  using inv_cong(1) [OF assms(1,4)] inv_cong(2) [OF assms(2,4)] inv_cong(3) [OF assms(3)]
  by (simp add: audioInv_def)

lemma generateAudio_silent_returns:
  assumes "resampleInv s"
  shows "\<exists>s'. generateAudio_silent s n = Some s' \<and> resampleInv s' \<and> viewClk s' = viewClk s \<and>
           viewSwp s' = viewSwp s \<and> viewCfg s' = viewCfg s \<and> viewCPU s' = viewCPU s"
proof (cases "0 \<le> n")
  case True
  obtain s' where s': "generateAudio_silent s n = Some s'" "resampled s n s'"
    using generateAudio_silent_total [OF assms True] by blast
  show ?thesis
    using s' generateAudio_silent_frame [OF s'(1)] by (simp add: resampled_def)
next
  case False
  then have "generateAudio_silent s n = Some s"
    by (subst generateAudio_silent.simps) simp
  then show ?thesis using assms by simp
qed

lemma generateAudio_loop_returns:
  assumes "audioInv s"
  shows "\<exists>s'. generateAudio_loop e s n = Some s' \<and> audioInv s'"
proof (cases "0 \<le> n")
  case True
  show ?thesis using generateAudio_loop_total [OF assms True, of e] by blast
next
  case False
  then have "generateAudio_loop e s n = Some s"
    by (subst generateAudio_loop.simps) simp
  then show ?thesis using assms by simp
qed

lemma generateAudioFake_loop_turn:
  assumes "audioInv s" and "0 < n"
  defines "c \<equiv> generateAudio_clockUpTo s n"
  shows "0 < c \<and> c \<le> n \<and> audioInv (generateAudio_events e (generateAudio_clock s c))"
proof -
  have inv: "resampleInv s" "clockInv s" "sweepInv s"
    using assms(1) by (simp_all add: audioInv_def)
  have clk: "0 < sequencerClocks s" "0 < audioClocksUntilNextEventCounter s"
    "audioClocksUntilNextEvent s \<le> channel1FrequencyCounter s"
    "audioClocksUntilNextEvent s \<le> channel2FrequencyCounter s"
    "audioClocksUntilNextEvent s \<le> channel3Counter s"
    "audioClocksUntilNextEvent s \<le> channel4Counter s"
    "0 < channel2FrequencyTracker s" "0 < channel3FrequencyPeriod s"
    "0 < channel4FrequencyPeriod s"
    using inv(2) by (simp_all add: clockInv_def)
  have c: "0 < c" "c \<le> n" "c \<le> sequencerClocks s" "c \<le> audioClocksUntilNextEventCounter s"
    using clk(1,2) assms(2) by (simp_all add: c_def generateAudio_clockUpTo_def)
  let ?s1 = "generateAudio_clock s c"
  let ?s3 = "generateAudio_events e ?s1"
  have sw1: "sweepInv ?s1"
    using inv(3) by (simp add: inv_cong(3) [OF generateAudio_clock_views(2)])
  have "viewRes ?s3 = viewRes s" "viewCfg ?s3 = viewCfg s"
    by (simp_all add: generateAudio_events_views generateAudio_clock_views)
  then have "resampleInv ?s3" using inv(1) inv_cong(1) [of ?s3 s] by simp
  moreover have "clockInv ?s3"
    using c(3,4) clk(3-9) sw1
    by (intro generateAudio_events_clockInv)
       (simp_all add: viewClk_fields [OF generateAudio_clock_views(4)]
          viewCfg_fields [OF generateAudio_clock_views(3)])
  moreover have "sweepInv ?s3" using sw1 by (rule generateAudio_events_sweep)
  ultimately show ?thesis using c(1,2) by (simp add: audioInv_def)
qed

lemma generateAudioFake_loop_total:
  "audioInv s \<Longrightarrow> \<exists>s'. generateAudioFake_loop e s n = Some s' \<and> audioInv s'"
proof (induction "nat n" arbitrary: s n rule: less_induct)
  case less
  show ?case
  proof (cases "n > 0")
    case False
    then have "generateAudioFake_loop e s n = Some s"
      by (subst generateAudioFake_loop.simps) simp
    then show ?thesis using less.prems by simp
  next
    case True
    let ?c = "generateAudio_clockUpTo s n"
    let ?s3 = "generateAudio_events e (generateAudio_clock s ?c)"
    have c: "0 < ?c" "?c \<le> n" "audioInv ?s3"
      using generateAudioFake_loop_turn [OF less.prems True, of e] by simp_all
    have "nat (n - ?c) < nat n" using c True by simp
    then have "\<exists>s'. generateAudioFake_loop e ?s3 (n - ?c) = Some s' \<and> audioInv s'"
      using c(3) by (intro less.hyps) simp_all
    then obtain s' where s': "generateAudioFake_loop e ?s3 (n - ?c) = Some s'" "audioInv s'"
      by blast
    have "generateAudioFake_loop e s n = generateAudioFake_loop e ?s3 (n - ?c)"
      using True by (subst generateAudioFake_loop.simps) simp
    then show ?thesis using s' by simp
  qed
qed

text \<open>A flush of the pending audio returns from every state of the invariant.\<close>

lemma audioJIT_returns:
  assumes "audioInv s"
  shows "\<exists>s'. audioJIT e s = Some s' \<and> audioInv s'"
proof -
  have res: "resampleInv s" using assms by (simp add: audioInv_def)
  obtain a where a: "generateAudio_loop e s (audioTicks s) = Some a" "audioInv a"
    using generateAudio_loop_returns [OF assms] by blast
  obtain b where b: "generateAudio_silent s (audioTicks s) = Some b" "resampleInv b"
    "viewClk b = viewClk s" "viewSwp b = viewSwp s" "viewCfg b = viewCfg s"
    using generateAudio_silent_returns [OF res] by blast
  obtain f where f: "generateAudioFake_loop e s (audioTicks s) = Some f" "audioInv f"
    using generateAudioFake_loop_total [OF assms] by blast
  have binv: "audioInv b"
    using assms b(2) inv_cong(2) [OF b(3,5)] inv_cong(3) [OF b(4)] by (simp add: audioInv_def)
  have t: "audioInv (x\<lparr>audioTicks := 0\<rparr>) = audioInv x" for x
    by (rule audioInv_cong) (simp_all add: view_audioTicks)
  show ?thesis
    using a b(1) binv f assms
    by (simp add: audioJIT_def generateAudio_def generateAudioFake_def t)
qed

lemma audioJIT_silent_returns:
  assumes "resampleInv s" and "\<not> soundMasterEnabled s \<or> CPUStopped s"
  shows "\<exists>s'. audioJIT e s = Some s' \<and> resampleInv s' \<and> viewCfg s' = viewCfg s \<and>
           viewCPU s' = viewCPU s"
proof -
  obtain b where b: "generateAudio_silent s (audioTicks s) = Some b" "resampleInv b"
    "viewCfg b = viewCfg s" "viewCPU b = viewCPU s"
    using generateAudio_silent_returns [OF assms(1)] by blast
  have t: "resampleInv (x\<lparr>audioTicks := 0\<rparr>) = resampleInv x" for x
    by (rule inv_cong(1)) (simp_all add: view_audioTicks)
  show ?thesis
    using b assms
    by (auto simp add: audioJIT_def generateAudio_def generateAudioFake_def t view_audioTicks)
qed

subsection \<open>The sweep direction of channel 1\<close>

lemma channel1EnableCheck_Enabled:
  "channel1Enabled (channel1EnableCheck e s) =
     ((channel1consecutive s \<or> channel1totalLength s > 0) \<and> \<not> channel1SweepFault s \<and>
      channel1canPlay s)"
  by (simp add: channel1EnableCheck_def channel1OutputLevelSecondaryCache_def
      channel1OutputLevelTrimaryCache_def mixerOutputLevelCache_def)

lemma NR10_write_fault:
  assumes "audioJIT e s = Some s1" and "channel1decreaseSweep s" and "channel1Swept s"
    and "js_and data 0x08 = 0" and "soundMasterEnabled s"
  shows "\<exists>s'. NR10_write e s data = Some s' \<and> channel1SweepFault s' \<and> \<not> channel1Enabled s'"
proof -
  have s1: "channel1decreaseSweep s1" "channel1Swept s1"
    using audioJIT_frame [OF assms(1)] assms(2,3) by (simp_all add: viewCfg_def)
  show ?thesis
    using assms(1,4,5) s1
    by (simp add: NR10_write_def Let_def channel1EnableCheck_Enabled cache_fields memory_set_def)
qed

text \<open>
  Claim C5. A write to NR10 with the master switch on, that clears the negate bit while
  the sweep unit is in negate mode and has swept since the last trigger, sets the sweep
  fault and disables channel 1, whenever the write returns; and it returns from every
  state of the audio invariant.
\<close>

theorem NR10_negate_to_positive_faults:
  assumes "soundMasterEnabled s" and "channel1decreaseSweep s" and "channel1Swept s"
    and "js_and data 0x08 = 0"
  shows "(\<forall>s'. NR10_write e s data = Some s' \<longrightarrow> channel1SweepFault s' \<and> \<not> channel1Enabled s') \<and>
         (audioInv s \<longrightarrow> (\<exists>s'. NR10_write e s data = Some s'))"
proof (intro conjI allI impI)
  fix s'
  assume w: "NR10_write e s data = Some s'"
  then obtain s1 where "audioJIT e s = Some s1"
    using assms(1) by (auto simp add: NR10_write_def)
  then show "channel1SweepFault s'" "\<not> channel1Enabled s'"
    using NR10_write_fault [OF _ assms(2,3,4,1), of e s1] w by simp_all
next
  assume "audioInv s"
  then obtain s1 where "audioJIT e s = Some s1"
    using audioJIT_returns [of s e] by blast
  then show "\<exists>s'. NR10_write e s data = Some s'"
    using NR10_write_fault [OF _ assms(2,3,4,1), of e s1] by blast
qed

lemma audioInv_sweepCore: "audioInv sweepCore"
  by (simp add: audioInv_def resampleInv_def clockInv_def sweepInv_def sweepCore_def
      exampleCore_fields exampleCore_clocks)

theorem NR10_negate_to_positive_faults_witness:
  "soundMasterEnabled sweepCore \<and> channel1decreaseSweep sweepCore \<and> channel1Swept sweepCore \<and>
   js_and 0 0x08 = 0 \<and> audioInv sweepCore \<and>
   (\<exists>s'. NR10_write exampleEnv sweepCore 0 = Some s' \<and> channel1SweepFault s' \<and>
      \<not> channel1Enabled s')"
proof -
  have h: "soundMasterEnabled sweepCore" "channel1decreaseSweep sweepCore"
    "channel1Swept sweepCore" "js_and 0 0x08 = 0"
    by (simp_all add: sweepCore_def exampleCore_fields js_ops)
  show ?thesis
    using NR10_negate_to_positive_faults [OF h, of exampleEnv] h audioInv_sweepCore by blast
qed

subsection \<open>STOP\<close>

lemma audioUnderrunAdjustment_views:
  "viewRes (audioUnderrunAdjustment e rb s) = viewRes s"
  "viewCfg (audioUnderrunAdjustment e rb s) = viewCfg s"
  "viewCPU (audioUnderrunAdjustment e rb s) = viewCPU s"
  by (simp_all add: audioUnderrunAdjustment_def recalculateIterationClockLimitForAudio_def
      Let_def views viewCPU_def split: option.split)

lemma joypad_event_wakes: "\<not> CPUStopped (down s key)" "\<not> CPUStopped (up s key)"
  by (simp_all add: down_def up_def writeToMemory_def Let_def)

lemma run_stopped:
  assumes "CPUStopped s" and "js_and (stopEmulator s) 2 = 0" and "js_and (stopEmulator s) 1 = 1"
    and "resampleInv s"
  shows "\<exists>s'. run e rb execute s = Some s' \<and> CPUStopped s' \<and> js_and (stopEmulator s') 2 = 0 \<and>
           js_and (stopEmulator s') 1 = 1 \<and> resampleInv s' \<and> viewCPU s' = viewCPU s"
proof -
  let ?s1 = "audioUnderrunAdjustment e rb s"
  let ?s2 = "?s1\<lparr>audioTicks := audioTicks ?s1 + cpu_cyclesTotal ?s1\<rparr>"
  have v2: "viewRes ?s2 = viewRes s" "viewCfg ?s2 = viewCfg s" "viewCPU ?s2 = viewCPU s"
    by (simp_all add: view_audioTicks audioUnderrunAdjustment_views)
  have inv2: "resampleInv ?s2" using assms(4) inv_cong(1) [OF v2(1,2)] by simp
  have st2: "CPUStopped ?s2" using assms(1) viewCfg_fields(7) [OF v2(2)] by simp
  obtain s3 where s3: "audioJIT e ?s2 = Some s3" "resampleInv s3" "viewCfg s3 = viewCfg ?s2"
    "viewCPU s3 = viewCPU ?s2"
    using audioJIT_silent_returns [of ?s2 e] inv2 st2 by blast
  let ?s' = "s3\<lparr>stopEmulator := js_or (stopEmulator s3) 1\<rparr>"
  have r: "run e rb execute s = Some ?s'"
    using assms(1-3) s3(1) by (simp add: run_def Let_def)
  have cfg: "CPUStopped s3" "stopEmulator s3 = stopEmulator s"
    using assms(1) viewCfg_fields(7,8) [OF s3(3)] viewCfg_fields(7,8) [OF v2(2)] by simp_all
  have "CPUStopped ?s'" using cfg(1) by simp
  moreover have "js_and (stopEmulator ?s') 2 = 0" "js_and (stopEmulator ?s') 1 = 1"
    using assms(2) by (simp_all add: cfg(2) js_or1_and2 js_or1_and1)
  moreover have "resampleInv ?s'" using s3(2) by (simp add: resampleInv_def)
  moreover have "viewCPU ?s' = viewCPU s" using s3(4) v2(3) by (simp add: viewCPU_def)
  ultimately show ?thesis using r by blast
qed

lemma iterationEndRoutine_stopped:
  assumes "iterationEndRoutine e s = Some s'"
  shows "CPUStopped s' = CPUStopped s"
proof (cases "js_and (stopEmulator s) 0x1 = 0")
  case True
  then obtain s1 where s1: "audioJIT e s = Some s1"
    using assms by (auto simp add: iterationEndRoutine_def)
  have "CPUStopped s1 = CPUStopped s"
    using viewCfg_fields(7) [OF audioJIT_frame(1) [OF s1]] .
  then show ?thesis
    using assms True s1
    by (auto simp add: iterationEndRoutine_def Let_def recalculateIterationClockLimit_def
        memory_set_def)
next
  case False
  then show ?thesis using assms by (simp add: iterationEndRoutine_def)
qed

lemma handleSTOP_stops:
  assumes "handleSTOP e s0 = Some s'"
  shows "CPUStopped s'"
proof -
  obtain s1 where s1: "iterationEndRoutine e (s0\<lparr>CPUStopped := True\<rparr>) = Some s1"
    and rest: "(if cpu_ticks s1 < 0
                then audioJIT e (s1\<lparr>audioTicks := audioTicks s1 - cpu_ticks s1\<rparr>)
                else Some s1) = Some s'"
    using assms by (auto simp add: handleSTOP_def split: option.splits)
  have st1: "CPUStopped s1" using iterationEndRoutine_stopped [OF s1] by simp
  show ?thesis
  proof (cases "cpu_ticks s1 < 0")
    case True
    then have j: "audioJIT e (s1\<lparr>audioTicks := audioTicks s1 - cpu_ticks s1\<rparr>) = Some s'"
      using rest by simp
    show ?thesis
      using viewCfg_fields(7) [OF audioJIT_frame(1) [OF j]] st1 by simp
  next
    case False
    then show ?thesis using rest st1 by simp
  qed
qed

text \<open>
  Claim C8, refuted on an example. A key-up event on a stopped CPU clears the frozen state.
\<close>

theorem key_up_clears_stop:
  "CPUStopped frozenCore \<and> \<not> CPUStopped (up frozenCore 0)"
  by (simp add: up_def writeToMemory_def Let_def frozenCore_def)

text \<open>
  Claim C8, amended. \<open>handleSTOP\<close> leaves the CPU stopped whenever it returns. While the CPU
  is stopped, a call of \<open>run\<close> on a started core returns without entering the branch that
  executes instructions: it leaves the CPU stopped, the iteration ended and everything the
  CPU sees outside the audio unit unchanged, so the next call finds the same situation.
  Every joypad event, key-down and key-up alike, clears the frozen state.
\<close>

theorem stopped_until_joypad_event:
  assumes "CPUStopped s" and "js_and (stopEmulator s) 2 = 0" and "js_and (stopEmulator s) 1 = 1"
    and "resampleInv s"
  shows "(\<exists>s'. run e rb execute s = Some s' \<and> CPUStopped s' \<and> js_and (stopEmulator s') 2 = 0 \<and>
            js_and (stopEmulator s') 1 = 1 \<and> resampleInv s' \<and> viewCPU s' = viewCPU s) \<and>
         run e rb execute s = run e rb execute' s \<and>
         \<not> CPUStopped (down s key) \<and> \<not> CPUStopped (up s key) \<and>
         (\<forall>s'. handleSTOP e s0 = Some s' \<longrightarrow> CPUStopped s')"
proof -
  have "run e rb execute s = run e rb execute' s"
    using assms(1) by (simp add: run_def)
  then show ?thesis
    using run_stopped [OF assms, of e rb execute] joypad_event_wakes [of s key]
      handleSTOP_stops [of e s0]
    by blast
qed

theorem stopped_until_joypad_event_witness:
  "CPUStopped frozenCore \<and> js_and (stopEmulator frozenCore) 2 = 0 \<and>
   js_and (stopEmulator frozenCore) 1 = 1 \<and> resampleInv frozenCore \<and>
   (\<exists>s'. run exampleEnv (Some 0) Some frozenCore = Some s' \<and> CPUStopped s' \<and>
      viewCPU s' = viewCPU frozenCore) \<and>
   \<not> CPUStopped (down frozenCore 0) \<and> \<not> CPUStopped (up frozenCore 0) \<and>
   (\<exists>s'. handleSTOP exampleEnv (exampleCore\<lparr>cpu_ticks := 0\<rparr>) = Some s' \<and> CPUStopped s')"
proof -
  have h: "CPUStopped frozenCore" "js_and (stopEmulator frozenCore) 2 = 0"
    "js_and (stopEmulator frozenCore) 1 = 1" "resampleInv frozenCore"
    by (simp_all add: frozenCore_def exampleCore_fields resampleInv_def js_ops)
  have stop: "\<exists>s'. handleSTOP exampleEnv (exampleCore\<lparr>cpu_ticks := 0\<rparr>) = Some s'"
    by (simp add: handleSTOP_def iterationEndRoutine_def exampleCore_fields js_ops)
  show ?thesis
    using stopped_until_joypad_event [OF h, of exampleEnv "Some 0" Some Some 0
        "exampleCore\<lparr>cpu_ticks := 0\<rparr>"] h stop
    by blast
qed

subsection \<open>The master switch of the sound unit\<close>

lemma js_and_3f: "0 \<le> js_and d 0x3f" "js_and d 0x3f \<le> 0x3f"
  "js_and (js_and d 0x3f) 0x3f = js_and d 0x3f"
proof -
  show b: "0 \<le> js_and d 0x3f" "js_and d 0x3f \<le> 0x3f"
    by (simp_all add: js_and_def toInt32_def AND_upper2')
  then have "toInt32 (js_and d 0x3f) = js_and d 0x3f" by (simp add: toInt32_id)
  then have "js_and (js_and d 0x3f) 0x3f = (toInt32 d AND toInt32 0x3f) AND toInt32 0x3f"
    unfolding js_and_def [of "js_and d 0x3f"] by (simp add: js_and_def)
  then show "js_and (js_and d 0x3f) 0x3f = js_and d 0x3f"
    by (simp add: js_and_def and.assoc)
qed

lemma EnableCheck_lengths:
  "channel1totalLength (channel1EnableCheck e s) = channel1totalLength s"
  "channel2totalLength (channel2EnableCheck e s) = channel2totalLength s"
  "channel3totalLength (channel3EnableCheck e s) = channel3totalLength s"
  "channel4totalLength (channel4EnableCheck e s) = channel4totalLength s"
  "memory (channel1EnableCheck e s) = memory s"
  "memory (channel2EnableCheck e s) = memory s"
  by (simp_all add: channel1EnableCheck_def channel1OutputLevelSecondaryCache_def
      channel1OutputLevelTrimaryCache_def channel2EnableCheck_def
      channel2OutputLevelSecondaryCache_def channel2OutputLevelTrimaryCache_def
      channel3EnableCheck_def channel3OutputLevelSecondaryCache_def channel4EnableCheck_def
      channel4OutputLevelSecondaryCache_def mixerOutputLevelCache_def)

lemma locked_registers:
  assumes "\<not> soundMasterEnabled s"
  shows "NR10_write e s d = Some s" "NR12_write e s d = Some s" "NR13_write e s d = Some s"
    "NR14_write e s d = Some s" "NR22_write e s d = Some s" "NR23_write e s d = Some s"
    "NR24_write e s d = Some s" "NR30_write e s d = Some s" "NR32_write e s d = Some s"
    "NR33_write e s d = Some s" "NR34_write e s d = Some s" "NR42_write e s d = Some s"
    "NR43_write e s d = Some s" "NR44_write e s d = Some s" "NR50_write e s d = Some s"
    "NR51_write e s d = Some s"
  using assms
  by (simp_all add: NR10_write_def NR12_write_def NR13_write_def NR14_write_def NR22_write_def
      NR23_write_def NR24_write_def NR30_write_def NR32_write_def NR33_write_def NR34_write_def
      NR42_write_def NR43_write_def NR44_write_def NR50_write_def NR51_write_def)

lemma locked_length_registers:
  assumes "\<not> soundMasterEnabled s" and "useGBCMode (cartridgeSlot s)"
  shows "NR11_write e s d = Some s" "NR21_write e s d = Some s" "NR31_write e s d = Some s"
    "NR41_write e s d = Some s"
  using assms by (simp_all add: NR11_write_def NR21_write_def NR31_write_def NR41_write_def)

lemma waveRAM_address:
  assumes "0xff30 \<le> a" and "a \<le> 0xff3f"
  shows "js_or 0xff30 (a - 0xff30) = a"
proof -
  have "a - 0xff30 \<in> {0, 1, 2, 3, 4, 5, 6, 7, 8, 9, 10, 11, 12, 13, 14, 15}"
    using assms unfolding insert_iff empty_iff by presburger
  then have "js_or 0xff30 (a - 0xff30) = 0xff30 + (a - 0xff30)"
    by (auto simp add: js_or_def toInt32_def)
  then show ?thesis by simp
qed

lemma waveRAM_writable:
  assumes "\<not> soundMasterEnabled s" and "0xff30 \<le> a" and "a \<le> 0xff3f" and "resampleInv s"
  shows "\<exists>s'. memoryWriter_waveRAM e s a d = Some s' \<and> memory s' a = toUint8 d"
proof -
  obtain s1 where s1: "(if channel3canPlay s then audioJIT e s else Some s) = Some s1"
    using audioJIT_silent_returns [of s e] assms(1,4) by (cases "channel3canPlay s") auto
  show ?thesis
    using s1
    by (simp add: memoryWriter_waveRAM_def channel3WriteRAM_def Let_def memory_set_def
        waveRAM_address [OF assms(2,3)])
qed

lemma offCore_fields:
  "\<not> soundMasterEnabled offCore" "\<not> soundMasterEnabled offColorCore"
  "\<not> useGBCMode (cartridgeSlot offCore)" "useGBCMode (cartridgeSlot offColorCore)"
  "resampleInv offCore"
  by (simp_all add: offCore_def offColorCore_def exampleCore_fields resampleInv_def
      exampleCore_def initializeAudioStartState_def Let_def cache_fields zeroCore_def
      newCartridge_def)

lemma withoutMixerCaches_mixer:
  "withoutMixerCaches (mixerOutputLevelCache s) = withoutMixerCaches s"
  by (simp add: withoutMixerCaches_def mixerOutputLevelCache_def)

lemma withoutMixerCaches_Trimary:
  "withoutMixerCaches (channel1OutputLevelTrimaryCache e s) = withoutMixerCaches s"
  "withoutMixerCaches (channel2OutputLevelTrimaryCache e s) = withoutMixerCaches s"
  by (simp_all add: channel1OutputLevelTrimaryCache_def channel2OutputLevelTrimaryCache_def
      withoutMixerCaches_mixer)
     (simp_all add: withoutMixerCaches_def)

lemma withoutMixerCaches_Secondary:
  "withoutMixerCaches (channel1OutputLevelSecondaryCache e s) = withoutMixerCaches s"
  "withoutMixerCaches (channel2OutputLevelSecondaryCache e s) = withoutMixerCaches s"
  "withoutMixerCaches (channel3OutputLevelSecondaryCache e s) = withoutMixerCaches s"
  "withoutMixerCaches (channel4OutputLevelSecondaryCache e s) = withoutMixerCaches s"
  by (simp_all add: channel1OutputLevelSecondaryCache_def channel2OutputLevelSecondaryCache_def
      channel3OutputLevelSecondaryCache_def channel4OutputLevelSecondaryCache_def
      withoutMixerCaches_Trimary withoutMixerCaches_mixer)
     (simp_all add: withoutMixerCaches_def)

lemma withoutMixerCaches_EnableCheck:
  "withoutMixerCaches (channel1EnableCheck e s) =
     withoutMixerCaches (s\<lparr>channel1Enabled :=
       ((channel1consecutive s \<or> channel1totalLength s > 0) \<and> \<not> channel1SweepFault s \<and>
        channel1canPlay s)\<rparr>)"
  "withoutMixerCaches (channel2EnableCheck e s) =
     withoutMixerCaches (s\<lparr>channel2Enabled :=
       ((channel2consecutive s \<or> channel2totalLength s > 0) \<and> channel2canPlay s)\<rparr>)"
  "withoutMixerCaches (channel3EnableCheck e s) =
     withoutMixerCaches (s\<lparr>channel3Enabled :=
       (channel3consecutive s \<or> channel3totalLength s > 0)\<rparr>)"
  "withoutMixerCaches (channel4EnableCheck e s) =
     withoutMixerCaches (s\<lparr>channel4Enabled :=
       ((channel4consecutive s \<or> channel4totalLength s > 0) \<and> channel4canPlay s)\<rparr>)"
  by (simp_all only: channel1EnableCheck_def channel2EnableCheck_def channel3EnableCheck_def
      channel4EnableCheck_def withoutMixerCaches_Secondary)

lemma js_sar_3f_6: "js_sar (js_and d 0x3f) 6 = 0"
  using js_and_3f(1,2) [of d] by (simp add: js_sar_def toInt32_id drop_bit_eq_div)

lemma length_registers_DMG_frame:
  assumes "\<not> soundMasterEnabled s" and "\<not> useGBCMode (cartridgeSlot s)"
  shows "\<exists>s'. NR11_write e s d = Some s' \<and>
           withoutMixerCaches s' =
             withoutMixerCaches
               (s\<lparr>channel1CachedDuty := dutyLookup e 0,
                  channel1totalLength := 0x40 - js_and d 0x3f,
                  memory := (memory s)(0xff11 := js_and d 0x3f),
                  channel1Enabled :=
                    ((channel1consecutive s \<or> 0 < 0x40 - js_and d 0x3f) \<and>
                     \<not> channel1SweepFault s \<and> channel1canPlay s)\<rparr>)"
    "\<exists>s'. NR21_write e s d = Some s' \<and>
           withoutMixerCaches s' =
             withoutMixerCaches
               (s\<lparr>channel2CachedDuty := dutyLookup e 0,
                  channel2totalLength := 0x40 - js_and d 0x3f,
                  memory := (memory s)(0xff16 := js_and d 0x3f),
                  channel2Enabled :=
                    ((channel2consecutive s \<or> 0 < 0x40 - js_and d 0x3f) \<and>
                     channel2canPlay s)\<rparr>)"
    "\<exists>s'. NR31_write e s d = Some s' \<and>
           withoutMixerCaches s' =
             withoutMixerCaches
               (s\<lparr>channel3totalLength := 0x100 - d,
                  channel3Enabled := (channel3consecutive s \<or> 0 < 0x100 - d)\<rparr>)"
    "\<exists>s'. NR41_write e s d = Some s' \<and>
           withoutMixerCaches s' =
             withoutMixerCaches
               (s\<lparr>channel4totalLength := 0x40 - js_and d 0x3f,
                  channel4Enabled :=
                    ((channel4consecutive s \<or> 0 < 0x40 - js_and d 0x3f) \<and>
                     channel4canPlay s)\<rparr>)"
  using assms js_and_3f(1,2) [of d]
  by (simp_all add: NR11_write_def NR21_write_def NR31_write_def NR41_write_def Let_def
      withoutMixerCaches_EnableCheck memory_set_def js_and_3f(3) js_sar_3f_6 toUint8_id)

lemma OutputLevelCache_registers:
  "memory (channel1OutputLevelCache e s) = memory s"
  "memory (channel2OutputLevelCache e s) = memory s"
  "memory (channel3OutputLevelCache e s) = memory s"
  "memory (channel4OutputLevelCache e s) = memory s"
  "channel3Enabled (channel1OutputLevelCache e s) = channel3Enabled s"
  "channel3Enabled (channel2OutputLevelCache e s) = channel3Enabled s"
  "channel3Enabled (channel3OutputLevelCache e s) = channel3Enabled s"
  "channel3Enabled (channel4OutputLevelCache e s) = channel3Enabled s"
  by (simp_all add: channel1OutputLevelCache_def channel2OutputLevelCache_def
      channel3OutputLevelCache_def channel4OutputLevelCache_def
      channel1OutputLevelSecondaryCache_def channel2OutputLevelSecondaryCache_def
      channel3OutputLevelSecondaryCache_def channel4OutputLevelSecondaryCache_def
      channel1OutputLevelTrimaryCache_def channel2OutputLevelTrimaryCache_def
      mixerOutputLevelCache_def)

lemma offCore_registers:
  "memory offCore 0xff11 = 0" "\<not> channel3Enabled offCore"
  by (simp_all add: offCore_def exampleCore_def initializeAudioStartState_def Let_def
      OutputLevelCache_registers zeroCore_def)


text \<open>
  Claim C6, refuted on an example. On a monochrome cartridge with the master switch off and
  0 stored at \<open>0xFF11\<close>, a write of \<open>0xBF\<close> to NR11 stores \<open>0x3F\<close> there; and a write of 0 to
  NR31 turns on the enabled flag of channel 3, which was off.
\<close>

theorem master_off_length_write_changes_state:
  "\<not> soundMasterEnabled offCore \<and> \<not> useGBCMode (cartridgeSlot offCore) \<and>
   memory offCore 0xff11 = 0 \<and>
   memoryWriter_sound exampleEnv offCore 0xff11 0xbf \<noteq> None \<and>
   memory (the (memoryWriter_sound exampleEnv offCore 0xff11 0xbf)) 0xff11 = 0x3f \<and>
   \<not> channel3Enabled offCore \<and>
   memoryWriter_sound exampleEnv offCore 0xff1b 0 \<noteq> None \<and>
   channel3Enabled (the (memoryWriter_sound exampleEnv offCore 0xff1b 0))"
proof -
  have v: "js_and 0xbf 0x3f = 0x3f" "js_sar 0x3f 6 = 0" "toUint8 0x3f = 0x3f"
    by (simp_all add: js_ops)
  have e: "channel3Enabled (channel3EnableCheck e s) =
           (channel3consecutive s \<or> channel3totalLength s > 0)" for e s
    by (simp add: channel3EnableCheck_def channel3OutputLevelSecondaryCache_def
        mixerOutputLevelCache_def)
  show ?thesis
    using offCore_fields(1,3) offCore_registers
    by (simp add: memoryWriter_sound_def NR11_write_def NR31_write_def Let_def v e
        EnableCheck_lengths memory_set_def)
qed

text \<open>
  Claim C6, amended. With the master switch off, a write to any register from \<open>0xFF10\<close> to
  \<open>0xFF25\<close> returns the state it was given, except the four length registers on a
  monochrome cartridge. There NR11, NR21, NR31 and NR41 load the length counter from the
  value written and recompute the enabled flag of the channel; NR11 and NR21 also store the
  six length bits as the register byte and reset the cached duty to pattern 0. Apart from
  the sample caches of the mixer, which are refreshed, nothing else changes. A write to
  wave RAM returns and stores the byte.
\<close>

theorem master_off_locks_except_DMG_lengths:
  assumes "\<not> soundMasterEnabled s"
  shows "(0xff10 \<le> a \<and> a \<le> 0xff25 \<and>
          (useGBCMode (cartridgeSlot s) \<or>
           (a \<noteq> 0xff11 \<and> a \<noteq> 0xff16 \<and> a \<noteq> 0xff1b \<and> a \<noteq> 0xff20)) \<longrightarrow>
            memoryWriter_sound e s a d = Some s) \<and>
         (\<not> useGBCMode (cartridgeSlot s) \<longrightarrow>
            (\<exists>s'. memoryWriter_sound e s 0xff11 d = Some s' \<and>
               withoutMixerCaches s' =
                 withoutMixerCaches
                   (s\<lparr>channel1CachedDuty := dutyLookup e 0,
                      channel1totalLength := 0x40 - js_and d 0x3f,
                      memory := (memory s)(0xff11 := js_and d 0x3f),
                      channel1Enabled :=
                        ((channel1consecutive s \<or> 0 < 0x40 - js_and d 0x3f) \<and>
                         \<not> channel1SweepFault s \<and> channel1canPlay s)\<rparr>)) \<and>
            (\<exists>s'. memoryWriter_sound e s 0xff16 d = Some s' \<and>
               withoutMixerCaches s' =
                 withoutMixerCaches
                   (s\<lparr>channel2CachedDuty := dutyLookup e 0,
                      channel2totalLength := 0x40 - js_and d 0x3f,
                      memory := (memory s)(0xff16 := js_and d 0x3f),
                      channel2Enabled :=
                        ((channel2consecutive s \<or> 0 < 0x40 - js_and d 0x3f) \<and>
                         channel2canPlay s)\<rparr>)) \<and>
            (\<exists>s'. memoryWriter_sound e s 0xff1b d = Some s' \<and>
               withoutMixerCaches s' =
                 withoutMixerCaches
                   (s\<lparr>channel3totalLength := 0x100 - d,
                      channel3Enabled := (channel3consecutive s \<or> 0 < 0x100 - d)\<rparr>)) \<and>
            (\<exists>s'. memoryWriter_sound e s 0xff20 d = Some s' \<and>
               withoutMixerCaches s' =
                 withoutMixerCaches
                   (s\<lparr>channel4totalLength := 0x40 - js_and d 0x3f,
                      channel4Enabled :=
                        ((channel4consecutive s \<or> 0 < 0x40 - js_and d 0x3f) \<and>
                         channel4canPlay s)\<rparr>))) \<and>
         (0xff30 \<le> w \<and> w \<le> 0xff3f \<and> resampleInv s \<longrightarrow>
            (\<exists>s'. memoryWriter_waveRAM e s w d = Some s' \<and> memory s' w = toUint8 d))"
proof (intro conjI impI)
  assume a: "0xff10 \<le> a \<and> a \<le> 0xff25 \<and>
          (useGBCMode (cartridgeSlot s) \<or>
           (a \<noteq> 0xff11 \<and> a \<noteq> 0xff16 \<and> a \<noteq> 0xff1b \<and> a \<noteq> 0xff20))"
  show "memoryWriter_sound e s a d = Some s"
  proof (cases "useGBCMode (cartridgeSlot s)")
    case True
    show ?thesis
      by (simp add: memoryWriter_sound_def cartIgnoreWrite_def locked_registers [OF assms]
          locked_length_registers [OF assms True])
  next
    case False
    with a show ?thesis
      by (simp add: memoryWriter_sound_def cartIgnoreWrite_def locked_registers [OF assms])
  qed
next
  assume dmg: "\<not> useGBCMode (cartridgeSlot s)"
  have w: "memoryWriter_sound e s 0xff11 d = NR11_write e s d"
    "memoryWriter_sound e s 0xff16 d = NR21_write e s d"
    "memoryWriter_sound e s 0xff1b d = NR31_write e s d"
    "memoryWriter_sound e s 0xff20 d = NR41_write e s d"
    by (simp_all add: memoryWriter_sound_def)
  show "\<exists>s'. memoryWriter_sound e s 0xff11 d = Some s' \<and>
               withoutMixerCaches s' =
                 withoutMixerCaches
                   (s\<lparr>channel1CachedDuty := dutyLookup e 0,
                      channel1totalLength := 0x40 - js_and d 0x3f,
                      memory := (memory s)(0xff11 := js_and d 0x3f),
                      channel1Enabled :=
                        ((channel1consecutive s \<or> 0 < 0x40 - js_and d 0x3f) \<and>
                         \<not> channel1SweepFault s \<and> channel1canPlay s)\<rparr>)"
    unfolding w by (rule length_registers_DMG_frame(1) [OF assms dmg])
  show "\<exists>s'. memoryWriter_sound e s 0xff16 d = Some s' \<and>
               withoutMixerCaches s' =
                 withoutMixerCaches
                   (s\<lparr>channel2CachedDuty := dutyLookup e 0,
                      channel2totalLength := 0x40 - js_and d 0x3f,
                      memory := (memory s)(0xff16 := js_and d 0x3f),
                      channel2Enabled :=
                        ((channel2consecutive s \<or> 0 < 0x40 - js_and d 0x3f) \<and>
                         channel2canPlay s)\<rparr>)"
    unfolding w by (rule length_registers_DMG_frame(2) [OF assms dmg])
  show "\<exists>s'. memoryWriter_sound e s 0xff1b d = Some s' \<and>
               withoutMixerCaches s' =
                 withoutMixerCaches
                   (s\<lparr>channel3totalLength := 0x100 - d,
                      channel3Enabled := (channel3consecutive s \<or> 0 < 0x100 - d)\<rparr>)"
    unfolding w by (rule length_registers_DMG_frame(3) [OF assms dmg])
  show "\<exists>s'. memoryWriter_sound e s 0xff20 d = Some s' \<and>
               withoutMixerCaches s' =
                 withoutMixerCaches
                   (s\<lparr>channel4totalLength := 0x40 - js_and d 0x3f,
                      channel4Enabled :=
                        ((channel4consecutive s \<or> 0 < 0x40 - js_and d 0x3f) \<and>
                         channel4canPlay s)\<rparr>)"
    unfolding w by (rule length_registers_DMG_frame(4) [OF assms dmg])
next
  assume "0xff30 \<le> w \<and> w \<le> 0xff3f \<and> resampleInv s"
  then show "\<exists>s'. memoryWriter_waveRAM e s w d = Some s' \<and> memory s' w = toUint8 d"
    using waveRAM_writable [OF assms, of w e d] by simp
qed

lemma withoutMixerCaches_fields:
  "memory (withoutMixerCaches s) = memory s"
  "channel1totalLength (withoutMixerCaches s) = channel1totalLength s"
  "channel3totalLength (withoutMixerCaches s) = channel3totalLength s"
  "channel3Enabled (withoutMixerCaches s) = channel3Enabled s"
  by (simp_all add: withoutMixerCaches_def)

theorem master_off_locks_except_DMG_lengths_witness:
  "\<not> soundMasterEnabled offCore \<and> \<not> useGBCMode (cartridgeSlot offCore) \<and>
   useGBCMode (cartridgeSlot offColorCore) \<and> resampleInv offCore \<and>
   memoryWriter_sound exampleEnv offCore 0xff12 0xf3 = Some offCore \<and>
   memoryWriter_sound exampleEnv offColorCore 0xff11 0xbf = Some offColorCore \<and>
   (\<exists>s'. memoryWriter_sound exampleEnv offCore 0xff11 0xbf = Some s' \<and>
      channel1totalLength s' = 1 \<and> memory s' 0xff11 = 0x3f) \<and>
   (\<exists>s'. memoryWriter_sound exampleEnv offCore 0xff1b 0xf0 = Some s' \<and>
      channel3totalLength s' = 0x10 \<and> channel3Enabled s') \<and>
   (\<exists>s'. memoryWriter_waveRAM exampleEnv offCore 0xff35 0xab = Some s' \<and>
      memory s' 0xff35 = 0xab)"
proof -
  have v: "js_and 0xbf 0x3f = 0x3f" "toUint8 0xab = 0xab"
    by (simp_all add: js_ops)
  have locked: "memoryWriter_sound exampleEnv offCore 0xff12 0xf3 = Some offCore"
    using master_off_locks_except_DMG_lengths [OF offCore_fields(1), where a = "0xff12"
        and d = "0xf3" and e = exampleEnv]
    by simp
  have color: "memoryWriter_sound exampleEnv offColorCore 0xff11 0xbf = Some offColorCore"
    using master_off_locks_except_DMG_lengths [OF offCore_fields(2), where a = "0xff11"
        and d = "0xbf" and e = exampleEnv] offCore_fields(4)
    by simp
  obtain s1 where s1: "memoryWriter_sound exampleEnv offCore 0xff11 0xbf = Some s1"
    "withoutMixerCaches s1 =
       withoutMixerCaches
         (offCore\<lparr>channel1CachedDuty := dutyLookup exampleEnv 0,
            channel1totalLength := 0x40 - js_and 0xbf 0x3f,
            memory := (memory offCore)(0xff11 := js_and 0xbf 0x3f),
            channel1Enabled :=
              ((channel1consecutive offCore \<or> 0 < 0x40 - js_and 0xbf 0x3f) \<and>
               \<not> channel1SweepFault offCore \<and> channel1canPlay offCore)\<rparr>)"
    using master_off_locks_except_DMG_lengths [OF offCore_fields(1), where d = "0xbf"
        and e = exampleEnv] offCore_fields(3)
    by blast
  have f1: "channel1totalLength s1 = 1" "memory s1 0xff11 = 0x3f"
    using arg_cong [OF s1(2), of channel1totalLength] arg_cong [OF s1(2), of memory]
    by (simp_all add: withoutMixerCaches_fields v)
  obtain s3 where s3: "memoryWriter_sound exampleEnv offCore 0xff1b 0xf0 = Some s3"
    "withoutMixerCaches s3 =
       withoutMixerCaches
         (offCore\<lparr>channel3totalLength := 0x100 - 0xf0,
            channel3Enabled := (channel3consecutive offCore \<or> 0 < 0x100 - (0xf0::int))\<rparr>)"
    using master_off_locks_except_DMG_lengths [OF offCore_fields(1), where d = "0xf0"
        and e = exampleEnv] offCore_fields(3)
    by blast
  have f3: "channel3totalLength s3 = 0x10" "channel3Enabled s3"
    using arg_cong [OF s3(2), of channel3totalLength] arg_cong [OF s3(2), of channel3Enabled]
    by (simp_all add: withoutMixerCaches_fields)
  have wave: "\<exists>s'. memoryWriter_waveRAM exampleEnv offCore 0xff35 0xab = Some s' \<and>
      memory s' 0xff35 = 0xab"
    using master_off_locks_except_DMG_lengths [OF offCore_fields(1), where w = "0xff35"
        and d = "0xab" and e = exampleEnv] offCore_fields(5) v
    by simp
  show ?thesis
    using locked color s1(1) f1 s3(1) f3 wave offCore_fields by simp
qed

end
